theory Spec2Isabelle
  imports Complex_Main
begin

section \<open>Arrays, exceptions and the library interface\<close>

text \<open>
  The repository is one notebook, \<^verbatim>\<open>lectures/three_dimensional_image_processing.ipynb\<close>.
  Its code cells are run top to bottom. Every cell is embedded below as a function named
  after the cell's position in the notebook (\<open>cell_3\<close> is the cell that reads the image);
  the four helpers the notebook defines (\<open>show_plane\<close>, \<open>display\<close>, \<open>plot_hist\<close>,
  \<open>get_cmap\<close>) keep their names.

  A numpy array element is a \<open>px\<close>: numpy arrays are dynamically typed, and the notebook
  passes boolean, integer, floating and masked arrays to the same helpers. An element
  carries the dtype of its array: \<open>PNum\<close> is an element of a \<^verbatim>\<open>float64\<close> array, \<open>PF32\<close> an
  element of a \<^verbatim>\<open>float32\<close> array such as \<^verbatim>\<open>rescaled\<close>; the model keeps one integer type, and
  no dtype for the data under a mask. Numbers are exact rationals: the number of a
  floating element is the rational that the float is. A volume is a list of planes, a
  plane a list of rows.
\<close>

datatype px = PBool bool | PInt int | PNum rat | PF32 rat | PMasked

datatype dtype = DBool | DInt | DFloat32 | DFloat64

fun px_dtype :: "px \<Rightarrow> dtype option" where
  "px_dtype (PBool b) = Some DBool"
| "px_dtype (PInt i) = Some DInt"
| "px_dtype (PNum q) = Some DFloat64"
| "px_dtype (PF32 q) = Some DFloat32"
| "px_dtype PMasked = None"

type_synonym plane = "px list list"
type_synonym vol = "px list list list"

datatype exn =
    TypeError string
  | ValueError string
  | IndexError string
  | NotImplementedError string
  | OtherError string string

type_synonym axes = nat
type_synonym region = nat
type_synonym vert = "rat \<times> rat \<times> rat"
type_synonym face = "nat \<times> nat \<times> nat"

datatype cmap = Cmap string "string option"

text \<open>
  The routines of skimage, scipy and numpy that the notebook calls are not part of the
  repository. They are parameters of the model: a value of type \<open>lib\<close> gives, for every
  call with its arguments, either the exception the routine raises or the value it
  returns. A call is named by a constructor that carries the arguments the notebook
  passes, in the notebook's order. Two behaviours of numpy that the notebook's own array
  statements rely on are parameters too: \<open>astype L d x\<close> is the element \<open>x\<close> converted to
  dtype \<open>d\<close>, as an assignment into an array of dtype \<open>d\<close> and a comparison in dtype \<open>d\<close>
  convert it (to \<^verbatim>\<open>float32\<close> by rounding), and \<open>uninit L d\<close> is the number that
  \<^verbatim>\<open>np.empty_like\<close> leaves in an element of dtype \<open>d\<close>.
\<close>

datatype volcall =
    Imread string
  | AdjustGamma vol rat
  | EqualizeHist vol
  | RescaleIntensity vol "rat \<times> rat"
  | AsFloat32 vol
  | Gaussian vol bool "rat list"
  | ImgAsUbyte vol
  | ImgAsFloat vol
  | Ball nat
  | Cube nat
  | Closing vol vol
  | Dilation vol vol
  | Erosion vol vol
  | Opening vol vol
  | BinaryClosing vol vol
  | BinaryDilation vol vol
  | BinaryErosion vol vol
  | BinaryOpening vol vol
  | RemoveSmallHoles vol nat
  | RemoveSmallObjects vol nat
  | Label vol
  | DistanceTransformEdt vol
  | PeakLocalMax vol vol bool vol
  | Watershed vol vol vol
  | ClearBorder vol
  | RelabelSequential vol
  | Transpose120 vol

datatype planecall =
    Sobel plane
  | Median plane
  | DenoiseBilateral plane bool

datatype numcall =
    ThresholdLi vol
  | ThresholdOtsu vol
  | MeshSurfaceArea "vert list" "face list"
  | NpMax "rat list"
  | NpMean "rat list"
  | NpMin "rat list"
  | NpStd "rat list"
  | NpSum "rat list"

datatype plotcall =
    IoImshow vol cmap
  | Subplots nat nat "nat \<times> nat"
  | AxImshow axes plane cmap "px option" "px option"
  | SetXticks axes
  | SetYticks axes
  | SetTitle axes string
  | Hist axes "px list" nat
  | TicklabelFormat axes
  | Plot axes "rat list" "rat list" string
  | Axvline axes rat string
  | GetCmap string
  | SetBad cmap string
  | Figure "nat \<times> nat"
  | AddSubplot nat string
  | Poly3DCollection "(vert \<times> vert \<times> vert) list"
  | SetEdgecolor string
  | AddCollection3d
  | SetXlabel string
  | SetYlabel string
  | SetZlabel string
  | SetXlim int int
  | SetYlim int int
  | SetZlim int int
  | TightLayout
  | Show

text \<open>
  Operations of numpy and of Python's own sequences whose result the model computes,
  because a claim depends on it. They raise only as written in their definitions below.
\<close>

datatype npcall =
    AMin
  | AMax
  | GetPlane nat
  | GetRow nat
  | GetCol nat
  | SliceStep int
  | SetPlane nat
  | Negative
  | GetItem nat
  | FancyIndex
  | Unpack nat

datatype op =
    V volcall
  | P planecall
  | N numcall
  | Plt plotcall
  | Np npcall
  | Scoreatpercentile vol "rat \<times> rat"
  | CumulativeDistribution "px list"
  | Regionprops vol vol
  | RegionIter region
  | RegionGetItem region string
  | RegionLabel region
  | RegionArea region
  | RegionBbox region
  | MarchingCubes vol rat "rat list"
  | Print string

record lib =
  vol_fn :: "volcall \<Rightarrow> exn + vol"
  plane_fn :: "planecall \<Rightarrow> exn + plane"
  num_fn :: "numcall \<Rightarrow> exn + rat"
  plot_fn :: "plotcall \<Rightarrow> exn + unit"
  scoreatpercentile :: "vol \<Rightarrow> rat \<times> rat \<Rightarrow> exn + rat \<times> rat"
  cumulative_distribution :: "px list \<Rightarrow> exn + rat list \<times> rat list"
  regionprops_fn :: "vol \<Rightarrow> vol \<Rightarrow> exn + region list"
  region_iter :: "region \<Rightarrow> exn + string list"
  region_getitem :: "region \<Rightarrow> string \<Rightarrow> exn + unit"
  region_label :: "region \<Rightarrow> exn + int"
  region_area :: "region \<Rightarrow> exn + rat"
  region_bbox :: "region \<Rightarrow> exn + int list"
  marching_cubes :: "vol \<Rightarrow> rat \<Rightarrow> rat list \<Rightarrow> exn + vert list \<times> face list"
  astype :: "dtype \<Rightarrow> px \<Rightarrow> px"
  uninit :: "dtype \<Rightarrow> rat"

section \<open>Executions\<close>

text \<open>
  An execution is the sequence of calls made, oldest first, each with the exception it
  raised if any, together with the outcome: \<open>Inl e\<close> when exception \<open>e\<close> ended it,
  \<open>Inr x\<close> when it returned \<open>x\<close>. Plots, prints and the file read are calls of the
  sequence; the notebook has no other effect.
\<close>

datatype event = Ev op "exn option"

type_synonym 'a io = "(exn + 'a) \<times> event list"

definition ret :: "'a \<Rightarrow> 'a io" where
  "ret x = (Inr x, [])"

definition raised :: "exn + 'a \<Rightarrow> exn option" where
  "raised r = (case r of Inl e \<Rightarrow> Some e | Inr _ \<Rightarrow> None)"

definition call :: "op \<Rightarrow> exn + 'a \<Rightarrow> 'a io" where
  "call f r = (r, [Ev f (raised r)])"

definition bind :: "'a io \<Rightarrow> ('a \<Rightarrow> 'b io) \<Rightarrow> 'b io" where
  "bind m f =
     (case fst m of
        Inl e \<Rightarrow> (Inl e, snd m)
      | Inr x \<Rightarrow> (fst (f x), snd m @ snd (f x)))"

definition seq :: "'a io \<Rightarrow> 'b io \<Rightarrow> 'b io" where
  "seq m n = bind m (\<lambda>_. n)"

text \<open>\<^verbatim>\<open>try: m  except ...: h e\<close>; \<open>h e = None\<close> when no clause matches \<open>e\<close>.\<close>

definition try_except :: "'a io \<Rightarrow> (exn \<Rightarrow> 'a io option) \<Rightarrow> 'a io" where
  "try_except m h =
     (case fst m of
        Inr x \<Rightarrow> m
      | Inl e \<Rightarrow> (case h e of None \<Rightarrow> m | Some k \<Rightarrow> (fst k, snd m @ snd k)))"

text \<open>A \<^verbatim>\<open>for\<close> loop over a list, threading the variables the body assigns.\<close>

fun for_acc :: "'a list \<Rightarrow> ('a \<Rightarrow> 's \<Rightarrow> 's io) \<Rightarrow> 's \<Rightarrow> 's io" where
  "for_acc [] body s = ret s"
| "for_acc (x # xs) body s = bind (body x s) (\<lambda>s'. for_acc xs body s')"

definition for_each :: "'a list \<Rightarrow> ('a \<Rightarrow> unit io) \<Rightarrow> unit io" where
  "for_each xs body = for_acc xs (\<lambda>x _. body x) ()"

definition callV :: "lib \<Rightarrow> volcall \<Rightarrow> vol io" where
  "callV L c = call (V c) (vol_fn L c)"

definition callP :: "lib \<Rightarrow> planecall \<Rightarrow> plane io" where
  "callP L c = call (P c) (plane_fn L c)"

definition callN :: "lib \<Rightarrow> numcall \<Rightarrow> rat io" where
  "callN L c = call (N c) (num_fn L c)"

definition plt :: "lib \<Rightarrow> plotcall \<Rightarrow> unit io" where
  "plt L c = call (Plt c) (plot_fn L c)"

text \<open>
  \<^verbatim>\<open>print\<close>. A printed line that formats a value keeps the format string and leaves the
  value out; the message of a caught exception is printed as it is.
\<close>

definition print_line :: "string \<Rightarrow> unit io" where
  "print_line s = call (Print s) (Inr ())"

section \<open>numpy operations the notebook applies itself\<close>

fun px_num :: "px \<Rightarrow> rat option" where
  "px_num (PBool b) = Some (if b then 1 else 0)"
| "px_num (PInt i) = Some (of_int i)"
| "px_num (PNum q) = Some q"
| "px_num (PF32 q) = Some q"
| "px_num PMasked = None"

definition px_key :: "px \<Rightarrow> rat" where
  "px_key p = (case px_num p of Some q \<Rightarrow> q | None \<Rightarrow> 0)"

text \<open>\<^verbatim>\<open>a.ravel()\<close>\<close>

definition flat :: "vol \<Rightarrow> px list" where
  "flat v = concat (concat v)"

text \<open>
  \<^verbatim>\<open>a.min()\<close> and \<^verbatim>\<open>a.max()\<close>: ValueError on an array with no element; masked
  elements are skipped, and an array whose elements are all masked gives the masked
  constant.
\<close>

definition min_px :: "px list \<Rightarrow> px" where
  "min_px ps =
     (case filter (\<lambda>p. p \<noteq> PMasked) ps of
        [] \<Rightarrow> PMasked
      | u # us \<Rightarrow> arg_min_list px_key (u # us))"

definition max_px :: "px list \<Rightarrow> px" where
  "max_px ps =
     (case filter (\<lambda>p. p \<noteq> PMasked) ps of
        [] \<Rightarrow> PMasked
      | u # us \<Rightarrow> arg_min_list (\<lambda>p. - px_key p) (u # us))"

definition amin_px :: "px list \<Rightarrow> exn + px" where
  "amin_px ps =
     (if ps = [] then Inl (ValueError ''zero-size array to reduction operation minimum'')
      else Inr (min_px ps))"

definition amax_px :: "px list \<Rightarrow> exn + px" where
  "amax_px ps =
     (if ps = [] then Inl (ValueError ''zero-size array to reduction operation maximum'')
      else Inr (max_px ps))"

definition amin :: "vol \<Rightarrow> px io" where
  "amin v = call (Np AMin) (amin_px (flat v))"

definition amax :: "vol \<Rightarrow> px io" where
  "amax v = call (Np AMax) (amax_px (flat v))"

text \<open>
  Integer indexing raises IndexError out of range. \<^verbatim>\<open>a[i]\<close>, \<^verbatim>\<open>a[:, i, :]\<close> and
  \<^verbatim>\<open>a[:, :, j]\<close>. A nested list with no plane has no row length: there the model lets
  the row and column index pass, where numpy checks the stored shape.
\<close>

definition get_plane :: "vol \<Rightarrow> nat \<Rightarrow> plane io" where
  "get_plane v i =
     call (Np (GetPlane i))
       (if i < length v then Inr (v ! i) else Inl (IndexError ''index out of bounds for axis 0''))"

definition get_row :: "vol \<Rightarrow> nat \<Rightarrow> plane io" where
  "get_row v i =
     call (Np (GetRow i))
       (if list_all (\<lambda>pl. i < length pl) v then Inr (map (\<lambda>pl. pl ! i) v)
        else Inl (IndexError ''index out of bounds for axis 1''))"

definition col_in_range :: "vol \<Rightarrow> nat \<Rightarrow> bool" where
  "col_in_range v j = list_all (list_all (\<lambda>row. j < length row)) v"

definition get_col :: "vol \<Rightarrow> nat \<Rightarrow> plane io" where
  "get_col v j =
     call (Np (GetCol j))
       (if col_in_range v j then Inr (map (map (\<lambda>row. row ! j)) v)
        else Inl (IndexError ''index out of bounds for axis 2''))"

text \<open>Slices \<^verbatim>\<open>xs[a:b]\<close>, \<^verbatim>\<open>xs[a:]\<close>, \<^verbatim>\<open>xs[:b]\<close> with literal bounds never raise.\<close>

definition slice :: "nat \<Rightarrow> nat \<Rightarrow> 'a list \<Rightarrow> 'a list" where
  "slice a b xs = take (b - a) (drop a xs)"

text \<open>\<^verbatim>\<open>a[i, r0:r1, c0:]\<close> and \<^verbatim>\<open>a[i, r0:, c0:c1]\<close> and \<^verbatim>\<open>a[i, :r1, c0:]\<close>\<close>

definition crop :: "vol \<Rightarrow> nat \<Rightarrow> (px list list \<Rightarrow> px list list) \<Rightarrow> (px list \<Rightarrow> px list) \<Rightarrow> plane io" where
  "crop v i rows cols = bind (get_plane v i) (\<lambda>pl. ret (map cols (rows pl)))"

text \<open>\<^verbatim>\<open>a[p0:, r0:r1, j]\<close>\<close>

definition side_view :: "vol \<Rightarrow> nat \<Rightarrow> nat \<Rightarrow> nat \<Rightarrow> nat \<Rightarrow> plane io" where
  "side_view v p0 r0 r1 j =
     call (Np (GetCol j))
       (if col_in_range v j then Inr (map (\<lambda>pl. map (\<lambda>row. row ! j) (slice r0 r1 pl)) (drop p0 v))
        else Inl (IndexError ''index out of bounds for axis 2''))"

text \<open>
  \<^verbatim>\<open>a[::step]\<close>: every \<open>step\<close>-th plane from the first; from the last, backwards, when
  \<open>step\<close> is negative; ValueError when it is zero.
\<close>

definition every :: "nat \<Rightarrow> 'a list \<Rightarrow> 'a list" where
  "every k xs = map (\<lambda>i. xs ! (i * k)) [0 ..< (length xs + k - 1) div k]"

definition slice_step :: "vol \<Rightarrow> int \<Rightarrow> vol io" where
  "slice_step v step =
     call (Np (SliceStep step))
       (if step = 0 then Inl (ValueError ''slice step cannot be zero'')
        else if 0 < step then Inr (every (nat step) v)
        else Inr (every (nat (- step)) (rev v)))"

text \<open>The element of dtype \<open>d\<close> for a number: for an integer dtype its integer part.\<close>

fun mk_px :: "dtype \<Rightarrow> rat \<Rightarrow> px" where
  "mk_px DBool q = PBool (q \<noteq> 0)"
| "mk_px DInt q = PInt (if 0 \<le> q then \<lfloor>q\<rfloor> else \<lceil>q\<rceil>)"
| "mk_px DFloat32 q = PF32 q"
| "mk_px DFloat64 q = PNum q"

text \<open>
  \<^verbatim>\<open>np.empty_like(a)\<close>: the shape and the dtype of \<open>a\<close>, the elements whatever the memory
  held.
\<close>

definition empty_px :: "lib \<Rightarrow> px \<Rightarrow> px" where
  "empty_px L x = (case px_dtype x of Some d \<Rightarrow> mk_px d (uninit L d) | None \<Rightarrow> x)"

definition empty_like :: "lib \<Rightarrow> vol \<Rightarrow> vol" where
  "empty_like L v = map (map (map (empty_px L))) v"

text \<open>
  \<^verbatim>\<open>out[k] = src\<close>: \<open>src\<close> is broadcast to the shape of plane \<open>k\<close>; an axis of \<open>src\<close> has
  the length of the target's or length one. ValueError otherwise. Every element of the
  broadcast plane is converted to the dtype of the array it is stored in, which is the
  dtype of the element it replaces: a \<^verbatim>\<open>float64\<close> plane assigned into a \<^verbatim>\<open>float32\<close> array is
  rounded. Over a masked element, whose dtype the model does not keep, the element is
  stored as it is; the notebook assigns into no masked array.
\<close>

definition bcast_row :: "px list \<Rightarrow> px list \<Rightarrow> px list option" where
  "bcast_row old src =
     (if length src = length old then Some src
      else if length src = 1 then Some (replicate (length old) (hd src))
      else None)"

definition bcast_plane :: "plane \<Rightarrow> plane \<Rightarrow> plane option" where
  "bcast_plane old src =
     (if length src = length old then those (map2 bcast_row old src)
      else if length src = 1 then those (map (\<lambda>row. bcast_row row (hd src)) old)
      else None)"

definition store_px :: "lib \<Rightarrow> px \<Rightarrow> px \<Rightarrow> px" where
  "store_px L old x = (case px_dtype old of Some d \<Rightarrow> astype L d x | None \<Rightarrow> x)"

definition assign_plane :: "lib \<Rightarrow> plane \<Rightarrow> plane \<Rightarrow> plane option" where
  "assign_plane L old src = map_option (map2 (map2 (store_px L)) old) (bcast_plane old src)"

definition set_plane :: "lib \<Rightarrow> vol \<Rightarrow> nat \<Rightarrow> plane \<Rightarrow> vol io" where
  "set_plane L out k src =
     call (Np (SetPlane k))
       (if k < length out then
          (case assign_plane L (out ! k) src of
             Some pl \<Rightarrow> Inr (out[k := pl])
           | None \<Rightarrow> Inl (ValueError ''could not broadcast input array''))
        else Inl (IndexError ''index out of bounds for axis 0''))"

text \<open>
  \<^verbatim>\<open>a >= t\<close> with \<open>t\<close> a floating scalar, elementwise; a masked element stays masked. numpy
  compares a \<^verbatim>\<open>float32\<close> array in \<^verbatim>\<open>float32\<close>: the scalar is converted to \<^verbatim>\<open>float32\<close> first.
  Every other array is compared in \<^verbatim>\<open>float64\<close>, with the scalar as it is.
\<close>

definition scalar_for :: "lib \<Rightarrow> px \<Rightarrow> rat \<Rightarrow> px" where
  "scalar_for L x t = (case x of PF32 q \<Rightarrow> astype L DFloat32 (PNum t) | _ \<Rightarrow> PNum t)"

definition ge_px :: "lib \<Rightarrow> rat \<Rightarrow> px \<Rightarrow> px" where
  "ge_px L t x =
     (case px_num x of
        None \<Rightarrow> PMasked
      | Some q \<Rightarrow> (case px_num (scalar_for L x t) of
                    None \<Rightarrow> PMasked
                  | Some t' \<Rightarrow> PBool (t' \<le> q)))"

definition ge_vol :: "lib \<Rightarrow> vol \<Rightarrow> rat \<Rightarrow> vol" where
  "ge_vol L v t = map (map (map (ge_px L t))) v"

text \<open>\<^verbatim>\<open>a == n\<close> with \<open>n\<close> an integer, elementwise.\<close>

definition eq_px :: "int \<Rightarrow> px \<Rightarrow> px" where
  "eq_px n x = (case px_num x of None \<Rightarrow> PMasked | Some q \<Rightarrow> PBool (q = of_int n))"

definition eq_plane :: "plane \<Rightarrow> int \<Rightarrow> plane" where
  "eq_plane pl n = map (map (eq_px n)) pl"

definition eq_vol :: "vol \<Rightarrow> int \<Rightarrow> vol" where
  "eq_vol v n = map (map (map (eq_px n))) v"

text \<open>\<^verbatim>\<open>np.ma.masked_where(cond, a)\<close>\<close>

definition truthy :: "px \<Rightarrow> bool" where
  "truthy x = (case px_num x of None \<Rightarrow> False | Some q \<Rightarrow> q \<noteq> 0)"

definition masked_where :: "vol \<Rightarrow> vol \<Rightarrow> vol" where
  "masked_where cond a =
     map2 (map2 (map2 (\<lambda>c x. if truthy c then PMasked else x))) cond a"

text \<open>\<^verbatim>\<open>-a\<close>: numpy refuses to negate a boolean array with a TypeError.\<close>

fun neg_px :: "px \<Rightarrow> px" where
  "neg_px (PBool b) = PBool b"
| "neg_px (PInt i) = PInt (- i)"
| "neg_px (PNum q) = PNum (- q)"
| "neg_px (PF32 q) = PF32 (- q)"
| "neg_px PMasked = PMasked"

definition is_bool :: "px \<Rightarrow> bool" where
  "is_bool x = (case x of PBool _ \<Rightarrow> True | _ \<Rightarrow> False)"

definition negative :: "vol \<Rightarrow> vol io" where
  "negative v =
     call (Np Negative)
       (if list_ex is_bool (flat v) then Inl (TypeError ''the numpy boolean negative is not supported'')
        else Inr (map (map (map neg_px)) v))"

text \<open>\<^verbatim>\<open>np.ones((a, b, c), dtype=np.bool)\<close>\<close>

definition ones :: "nat \<Rightarrow> nat \<Rightarrow> nat \<Rightarrow> vol" where
  "ones a b c = replicate a (replicate b (replicate c (PBool True)))"

text \<open>\<^verbatim>\<open>np.nonzero(plane)\<close>: the row indices and the column indices of the true elements.\<close>

definition nonzero :: "plane \<Rightarrow> nat list \<times> nat list" where
  "nonzero pl =
     (let hits = concat (map (\<lambda>(i, row). map (\<lambda>(j, x). (i, j)) (filter (\<lambda>(j, x). truthy x) (enumerate 0 row)))
                          (enumerate 0 pl))
      in (map fst hits, map snd hits))"

text \<open>\<^verbatim>\<open>xs[i]\<close> on a Python list.\<close>

definition get_item :: "'a list \<Rightarrow> nat \<Rightarrow> 'a io" where
  "get_item xs i =
     call (Np (GetItem i))
       (if i < length xs then Inr (xs ! i) else Inl (IndexError ''list index out of range''))"

text \<open>\<^verbatim>\<open>verts[faces]\<close>\<close>

definition fancy_index :: "vert list \<Rightarrow> face list \<Rightarrow> (vert \<times> vert \<times> vert) list io" where
  "fancy_index verts faces =
     call (Np FancyIndex)
       (if list_all (\<lambda>(a, b, c). a < length verts \<and> b < length verts \<and> c < length verts) faces
        then Inr (map (\<lambda>(a, b, c). (verts ! a, verts ! b, verts ! c)) faces)
        else Inl (IndexError ''index out of bounds for axis 0''))"

text \<open>\<^verbatim>\<open>a, b, c, d, e, f = xs\<close>\<close>

definition unpack6 :: "'a list \<Rightarrow> ('a \<times> 'a \<times> 'a \<times> 'a \<times> 'a \<times> 'a) io" where
  "unpack6 xs =
     call (Np (Unpack 6))
       (case xs of
          [a, b, c, d, e, f] \<Rightarrow> Inr (a, b, c, d, e, f)
        | _ \<Rightarrow> Inl (ValueError ''wrong number of values to unpack''))"

section \<open>The helpers the notebook defines\<close>

definition gray :: cmap where
  "gray = Cmap ''gray'' None"

text \<open>
  \<^verbatim>\<open>plt.subplots(nrows, ncols, figsize)\<close> opens a figure with a grid of axes. The axes of
  the newest figure are numbered row by row from 0: after \<^verbatim>\<open>_, (a, b, c) = plt.subplots(1, 3)\<close>
  the names \<open>a\<close>, \<open>b\<close>, \<open>c\<close> are the axes 0, 1, 2, and \<^verbatim>\<open>axes.flatten()\<close> of a 5 by 6 grid
  is \<open>[0..<30]\<close>.
\<close>

text \<open>
  \<^verbatim>\<open>
  def show_plane(ax, plane, cmap="gray", title=None):
      ax.imshow(plane, cmap=cmap)
      ax.set_xticks([])
      ax.set_yticks([])
      if title:
          ax.set_title(title)
  \<close>
\<close>

definition show_plane :: "lib \<Rightarrow> axes \<Rightarrow> plane \<Rightarrow> cmap \<Rightarrow> string option \<Rightarrow> unit io" where
  "show_plane L ax pl cm title =
     seq (plt L (AxImshow ax pl cm None None))
    (seq (plt L (SetXticks ax))
    (seq (plt L (SetYticks ax))
         (case title of
            None \<Rightarrow> ret ()
          | Some t \<Rightarrow> if t = [] then ret () else plt L (SetTitle ax t))))"

text \<open>
  \<^verbatim>\<open>
  def display(im3d, cmap="gray", step=2):
      _, axes = plt.subplots(nrows=5, ncols=6, figsize=(16, 14))
      vmin = im3d.min()
      vmax = im3d.max()
      for ax, image in zip(axes.flatten(), im3d[::step]):
          ax.imshow(image, cmap=cmap, vmin=vmin, vmax=vmax)
          ax.set_xticks([])
          ax.set_yticks([])
  \<close>
\<close>

definition display_panel :: "lib \<Rightarrow> cmap \<Rightarrow> px \<Rightarrow> px \<Rightarrow> axes \<times> plane \<Rightarrow> unit io" where
  "display_panel L cm vmin vmax p =
     seq (plt L (AxImshow (fst p) (snd p) cm (Some vmin) (Some vmax)))
    (seq (plt L (SetXticks (fst p)))
         (plt L (SetYticks (fst p))))"

definition display :: "lib \<Rightarrow> vol \<Rightarrow> cmap \<Rightarrow> int \<Rightarrow> unit io" where
  "display L im3d cm step =
     seq (plt L (Subplots 5 6 (16, 14)))
    (bind (amin im3d) (\<lambda>vmin.
     bind (amax im3d) (\<lambda>vmax.
     bind (slice_step im3d step) (\<lambda>selected.
     for_each (zip [0 ..< 30] selected) (display_panel L cm vmin vmax)))))"

text \<open>
  \<^verbatim>\<open>
  def plot_hist(ax, data, title=None):
      ax.hist(data.ravel(), bins=256)
      ax.ticklabel_format(axis="y", style="scientific", scilimits=(0, 0))
      if title:
          ax.set_title(title)
  \<close>
\<close>

definition plot_hist :: "lib \<Rightarrow> axes \<Rightarrow> vol \<Rightarrow> string option \<Rightarrow> unit io" where
  "plot_hist L ax data title =
     seq (plt L (Hist ax (flat data) 256))
    (seq (plt L (TicklabelFormat ax))
         (case title of
            None \<Rightarrow> ret ()
          | Some t \<Rightarrow> if t = [] then ret () else plt L (SetTitle ax t)))"

text \<open>
  \<^verbatim>\<open>
  def get_cmap(labels, name="viridis"):
      cmap = cm.get_cmap("viridis")
      masked_labels = np.ma.masked_where(labels == 0, labels)
      cmap.set_bad(color="black")
      return masked_labels, cmap
  \<close>
\<close>

definition get_cmap :: "lib \<Rightarrow> vol \<Rightarrow> (vol \<times> cmap) io" where
  "get_cmap L labels =
     seq (plt L (GetCmap ''viridis''))
    (seq (plt L (SetBad (Cmap ''viridis'' None) ''black''))
         (ret (masked_where (eq_vol labels 0) labels, Cmap ''viridis'' (Some ''black''))))"

section \<open>The cells\<close>

text \<open>
  \<^verbatim>\<open>
  data = io.imread("../images/cells.tif")
  print("shape: {}".format(data.shape))
  print("dtype: {}".format(data.dtype))
  print("range: ({}, {})".format(data.min(), data.max()))
  \<close>
\<close>

definition cell_3 :: "lib \<Rightarrow> vol io" where
  "cell_3 L =
     bind (callV L (Imread ''../images/cells.tif'')) (\<lambda>data.
     seq (print_line ''shape: {}'')
    (seq (print_line ''dtype: {}'')
    (bind (amin data) (\<lambda>lo.
     bind (amax data) (\<lambda>hi.
     seq (print_line ''range: ({}, {})'')
         (ret data))))))"

text \<open>
  \<^verbatim>\<open>
  original_spacing = (0.2900000, 0.0650000, 0.0650000)
  rescaled_spacing = np.multiply((1.0, 4.0, 4.0), original_spacing)
  spacing = rescaled_spacing / rescaled_spacing[1]
  print("spacing: {}".format(spacing))
  \<close>
\<close>

definition original_spacing :: "rat list" where
  "original_spacing = [29 / 100, 65 / 1000, 65 / 1000]"

definition rescaled_spacing :: "rat list" where
  "rescaled_spacing = map2 (\<lambda>a b. a * b) [1, 4, 4] original_spacing"

definition spacing :: "rat list" where
  "spacing = map (\<lambda>x. x / (rescaled_spacing ! 1)) rescaled_spacing"

definition cell_5 :: "rat list io" where
  "cell_5 = seq (print_line ''spacing: {}'') (ret spacing)"

text \<open>
  \<^verbatim>\<open>
  try:
      io.imshow(data, cmap="gray")
  except TypeError as e:
      print(str(e))
  \<close>
\<close>

definition cell_7 :: "lib \<Rightarrow> vol \<Rightarrow> unit io" where
  "cell_7 L data =
     try_except (plt L (IoImshow data gray))
       (\<lambda>e. case e of TypeError msg \<Rightarrow> Some (print_line msg) | _ \<Rightarrow> None)"

text \<open>
  \<^verbatim>\<open>
  _, (a, b, c) = plt.subplots(nrows=1, ncols=3, figsize=(16, 4))
  show_plane(a, data[32], title="Plane = 32")
  show_plane(b, data[:, 128, :], title="Row = 128")
  show_plane(c, data[:, :, 128], title="Column = 128")
  \<close>
\<close>

definition cell_10 :: "lib \<Rightarrow> vol \<Rightarrow> unit io" where
  "cell_10 L data =
     seq (plt L (Subplots 1 3 (16, 4)))
    (bind (get_plane data 32) (\<lambda>p.
     seq (show_plane L 0 p gray (Some ''Plane = 32''))
    (bind (get_row data 128) (\<lambda>r.
     seq (show_plane L 1 r gray (Some ''Row = 128''))
    (bind (get_col data 128) (\<lambda>c.
          show_plane L 2 c gray (Some ''Column = 128'')))))))"

text \<open>\<^verbatim>\<open>display(data)\<close>\<close>

definition cell_13 :: "lib \<Rightarrow> vol \<Rightarrow> unit io" where
  "cell_13 L data = display L data gray 2"

text \<open>
  \<^verbatim>\<open>
  gamma_low_val = 0.5
  gamma_low = exposure.adjust_gamma(data, gamma=gamma_low_val)
  gamma_high_val = 1.5
  gamma_high = exposure.adjust_gamma(data, gamma=gamma_high_val)
  _, ((a, b, c), (d, e, f)) = plt.subplots(nrows=2, ncols=3, figsize=(12, 8))
  show_plane(a, data[32], title="Original")
  show_plane(b, gamma_low[32], title="Gamma = {}".format(gamma_low_val))
  show_plane(c, gamma_high[32], title="Gamma = {}".format(gamma_high_val))
  plot_hist(d, data)
  plot_hist(e, gamma_low)
  plot_hist(f, gamma_high)
  \<close>
\<close>

definition cell_17 :: "lib \<Rightarrow> vol \<Rightarrow> (vol \<times> vol) io" where
  "cell_17 L data =
     bind (callV L (AdjustGamma data (1 / 2))) (\<lambda>gamma_low.
     bind (callV L (AdjustGamma data (3 / 2))) (\<lambda>gamma_high.
     seq (plt L (Subplots 2 3 (12, 8)))
    (bind (get_plane data 32) (\<lambda>p.
     seq (show_plane L 0 p gray (Some ''Original''))
    (bind (get_plane gamma_low 32) (\<lambda>p.
     seq (show_plane L 1 p gray (Some ''Gamma = 0.5''))
    (bind (get_plane gamma_high 32) (\<lambda>p.
     seq (show_plane L 2 p gray (Some ''Gamma = 1.5''))
    (seq (plot_hist L 3 data None)
    (seq (plot_hist L 4 gamma_low None)
    (seq (plot_hist L 5 gamma_high None)
         (ret (gamma_low, gamma_high)))))))))))))"

text \<open>
  \<^verbatim>\<open>
  equalized = exposure.equalize_hist(data)
  display(equalized)
  _, ((a, b), (c, d)) = plt.subplots(nrows=2, ncols=2, figsize=(16, 8))
  plot_hist(a, data, title="Original")
  plot_hist(b, equalized, title="Histogram equalization")
  cdf, bins = exposure.cumulative_distribution(data.ravel())
  c.plot(bins, cdf, "r")
  c.set_title("Original CDF")
  cdf, bins = exposure.cumulative_distribution(equalized.ravel())
  d.plot(bins, cdf, "r")
  d.set_title("Histogram equalization CDF");
  \<close>
\<close>

definition plot_cdf :: "lib \<Rightarrow> axes \<Rightarrow> vol \<Rightarrow> string \<Rightarrow> unit io" where
  "plot_cdf L ax v title =
     bind (call (CumulativeDistribution (flat v)) (cumulative_distribution L (flat v))) (\<lambda>r.
     seq (plt L (Plot ax (snd r) (fst r) ''r''))
         (plt L (SetTitle ax title)))"

definition cell_19 :: "lib \<Rightarrow> vol \<Rightarrow> vol io" where
  "cell_19 L data =
     bind (callV L (EqualizeHist data)) (\<lambda>equalized.
     seq (display L equalized gray 2)
    (seq (plt L (Subplots 2 2 (16, 8)))
    (seq (plot_hist L 0 data (Some ''Original''))
    (seq (plot_hist L 1 equalized (Some ''Histogram equalization''))
    (seq (plot_cdf L 2 data ''Original CDF'')
    (seq (plot_cdf L 3 equalized ''Histogram equalization CDF'')
         (ret equalized)))))))"

text \<open>
  \<^verbatim>\<open>
  vmin, vmax = stats.scoreatpercentile(data, (0.5, 99.5))
  clipped = exposure.rescale_intensity(
      data, in_range=(vmin, vmax), out_range=np.float32
  ).astype(np.float32)
  display(clipped)
  \<close>
\<close>

definition cell_21 :: "lib \<Rightarrow> vol \<Rightarrow> vol io" where
  "cell_21 L data =
     bind (call (Scoreatpercentile data (1 / 2, 199 / 2)) (scoreatpercentile L data (1 / 2, 199 / 2))) (\<lambda>range.
     bind (callV L (RescaleIntensity data range)) (\<lambda>r.
     bind (callV L (AsFloat32 r)) (\<lambda>clipped.
     seq (display L clipped gray 2)
         (ret clipped))))"

text \<open>\<^verbatim>\<open>rescaled = clipped\<close>\<close>

definition cell_22 :: "vol \<Rightarrow> vol io" where
  "cell_22 clipped = ret clipped"

text \<open>
  The three planewise loops of the notebook have one form:
  \<^verbatim>\<open>
  out = np.empty_like(src)
  for plane, image in enumerate(src):
      out[plane] = f(image)
  \<close>
\<close>

definition planewise_step :: "lib \<Rightarrow> (plane \<Rightarrow> planecall) \<Rightarrow> nat \<times> plane \<Rightarrow> vol \<Rightarrow> vol io" where
  "planewise_step L f p out = bind (callP L (f (snd p))) (\<lambda>res. set_plane L out (fst p) res)"

definition planewise :: "lib \<Rightarrow> (plane \<Rightarrow> planecall) \<Rightarrow> vol \<Rightarrow> vol io" where
  "planewise L f src = for_acc (enumerate 0 src) (planewise_step L f) (empty_like L src)"

text \<open>
  \<^verbatim>\<open>
  sobel = np.empty_like(rescaled)
  for plane, image in enumerate(rescaled):
      sobel[plane] = filters.sobel(image)
  display(sobel)
  \<close>
\<close>

definition cell_24 :: "lib \<Rightarrow> vol \<Rightarrow> vol io" where
  "cell_24 L rescaled =
     bind (planewise L Sobel rescaled) (\<lambda>sobel.
     seq (display L sobel gray 2)
         (ret sobel))"

text \<open>
  \<^verbatim>\<open>
  _, ((a, b), (c, d)) = plt.subplots(nrows=2, ncols=2, figsize=(16, 4))
  show_plane(a, sobel[:, 128, :], title="3D sobel, row = 128")
  row_sobel = filters.sobel(rescaled[:, 128, :])
  show_plane(b, row_sobel, title="2D sobel, row=128")
  show_plane(c, sobel[:, :, 128], title="3D sobel, column = 128")
  column_sobel = filters.sobel(rescaled[:, :, 128])
  show_plane(d, column_sobel, title="2D sobel, column=128")
  \<close>
\<close>

definition cell_25 :: "lib \<Rightarrow> vol \<Rightarrow> vol \<Rightarrow> unit io" where
  "cell_25 L rescaled sobel =
     seq (plt L (Subplots 2 2 (16, 4)))
    (bind (get_row sobel 128) (\<lambda>p.
     seq (show_plane L 0 p gray (Some ''3D sobel, row = 128''))
    (bind (get_row rescaled 128) (\<lambda>p.
     bind (callP L (Sobel p)) (\<lambda>row_sobel.
     seq (show_plane L 1 row_sobel gray (Some ''2D sobel, row=128''))
    (bind (get_col sobel 128) (\<lambda>p.
     seq (show_plane L 2 p gray (Some ''3D sobel, column = 128''))
    (bind (get_col rescaled 128) (\<lambda>p.
     bind (callP L (Sobel p)) (\<lambda>column_sobel.
          show_plane L 3 column_sobel gray (Some ''2D sobel, column=128'')))))))))))"

text \<open>
  \<^verbatim>\<open>
  base_sigma = 3.0
  sigma = base_sigma / spacing
  gaussian = filters.gaussian(rescaled, multichannel=False, sigma=sigma)
  display(gaussian)
  \<close>
\<close>

definition cell_27 :: "lib \<Rightarrow> rat list \<Rightarrow> vol \<Rightarrow> vol io" where
  "cell_27 L spacing' rescaled =
     bind (callV L (Gaussian rescaled False (map (\<lambda>s. 3 / s) spacing'))) (\<lambda>gaussian.
     seq (display L gaussian gray 2)
         (ret gaussian))"

text \<open>
  \<^verbatim>\<open>
  rescaled_uint8 = util.img_as_ubyte(rescaled)
  median = np.empty_like(rescaled_uint8)
  for plane, image in enumerate(rescaled_uint8):
      median[plane] = filters.median(image)
  median = util.img_as_float(median)
  display(median)
  \<close>
\<close>

definition cell_29 :: "lib \<Rightarrow> vol \<Rightarrow> vol io" where
  "cell_29 L rescaled =
     bind (callV L (ImgAsUbyte rescaled)) (\<lambda>rescaled_uint8.
     bind (planewise L Median rescaled_uint8) (\<lambda>median8.
     bind (callV L (ImgAsFloat median8)) (\<lambda>median.
     seq (display L median gray 2)
         (ret median))))"

text \<open>
  \<^verbatim>\<open>
  bilateral = np.empty_like(rescaled)
  for index, plane in enumerate(rescaled):
      bilateral[index] = restoration.denoise_bilateral(plane, multichannel=False)
  display(bilateral)
  \<close>
\<close>

definition cell_31 :: "lib \<Rightarrow> vol \<Rightarrow> vol io" where
  "cell_31 L rescaled =
     bind (planewise L (\<lambda>plane. DenoiseBilateral plane False) rescaled) (\<lambda>bilateral.
     seq (display L bilateral gray 2)
         (ret bilateral))"

text \<open>
  \<^verbatim>\<open>
  _, (a, b, c, d) = plt.subplots(nrows=1, ncols=4, figsize=(16, 4))
  show_plane(a, rescaled[32], title="Original")
  show_plane(b, gaussian[32], title="Gaussian")
  show_plane(c, median[32], title="Median")
  show_plane(d, bilateral[32], title="Bilateral")
  \<close>
\<close>

definition cell_32 :: "lib \<Rightarrow> vol \<Rightarrow> vol \<Rightarrow> vol \<Rightarrow> vol \<Rightarrow> unit io" where
  "cell_32 L rescaled gaussian median bilateral =
     seq (plt L (Subplots 1 4 (16, 4)))
    (bind (get_plane rescaled 32) (\<lambda>p.
     seq (show_plane L 0 p gray (Some ''Original''))
    (bind (get_plane gaussian 32) (\<lambda>p.
     seq (show_plane L 1 p gray (Some ''Gaussian''))
    (bind (get_plane median 32) (\<lambda>p.
     seq (show_plane L 2 p gray (Some ''Median''))
    (bind (get_plane bilateral 32) (\<lambda>p.
          show_plane L 3 p gray (Some ''Bilateral'')))))))))"

text \<open>\<^verbatim>\<open>denoised = bilateral\<close>\<close>

definition cell_33 :: "vol \<Rightarrow> vol io" where
  "cell_33 bilateral = ret bilateral"

text \<open>
  \<^verbatim>\<open>
  threshold_li = filters.threshold_li(denoised)
  li = denoised >= threshold_li
  threshold_otsu = filters.threshold_otsu(denoised)
  otsu = denoised >= threshold_otsu
  _, (a, b, c) = plt.subplots(nrows=1, ncols=3, figsize=(16, 4))
  plot_hist(a, denoised, "Thresholds (Li: red, Otsu: blue)")
  a.axvline(threshold_li, c="r")
  a.axvline(threshold_otsu, c="b")
  show_plane(b, li[32], title="Li's threshold = {:0.3f}".format(threshold_li))
  show_plane(c, otsu[32], title="Otsu's threshold = {:0.3f}".format(threshold_otsu))
  \<close>
\<close>

definition apostrophe :: char where
  "apostrophe = CHR 0x27"

definition cell_35 :: "lib \<Rightarrow> vol \<Rightarrow> (rat \<times> vol \<times> rat \<times> vol) io" where
  "cell_35 L denoised =
     bind (callN L (ThresholdLi denoised)) (\<lambda>threshold_li.
     bind (ret (ge_vol L denoised threshold_li)) (\<lambda>li.
     bind (callN L (ThresholdOtsu denoised)) (\<lambda>threshold_otsu.
     bind (ret (ge_vol L denoised threshold_otsu)) (\<lambda>otsu.
     seq (plt L (Subplots 1 3 (16, 4)))
    (seq (plot_hist L 0 denoised (Some ''Thresholds (Li: red, Otsu: blue)''))
    (seq (plt L (Axvline 0 threshold_li ''r''))
    (seq (plt L (Axvline 0 threshold_otsu ''b''))
    (bind (get_plane li 32) (\<lambda>p.
     seq (show_plane L 1 p gray (Some (''Li'' @ apostrophe # ''s threshold = {:0.3f}'')))
    (bind (get_plane otsu 32) (\<lambda>p.
     seq (show_plane L 2 p gray (Some (''Otsu'' @ apostrophe # ''s threshold = {:0.3f}'')))
         (ret (threshold_li, li, threshold_otsu, otsu)))))))))))))"

text \<open>
  \<^verbatim>\<open>
  binary = li
  display(binary)
  \<close>
\<close>

definition cell_36 :: "lib \<Rightarrow> vol \<Rightarrow> vol io" where
  "cell_36 L li = seq (display L li gray 2) (ret li)"

text \<open>
  \<^verbatim>\<open>
  ball = morphology.ball(radius=5)
  print("ball shape: {}".format(ball.shape))
  cube = morphology.cube(width=5)
  print("cube shape: {}".format(cube.shape))
  \<close>
\<close>

definition cell_39 :: "lib \<Rightarrow> unit io" where
  "cell_39 L =
     bind (callV L (Ball 5)) (\<lambda>ball.
     seq (print_line ''ball shape: {}'')
    (bind (callV L (Cube 5)) (\<lambda>cube.
          print_line ''cube shape: {}'')))"

text \<open>
  \<^verbatim>\<open>
  selem = morphology.ball(radius=3)
  closing = morphology.closing(rescaled, selem=selem)
  dilation = morphology.dilation(rescaled, selem=selem)
  erosion = morphology.erosion(rescaled, selem=selem)
  opening = morphology.opening(rescaled, selem=selem)
  binary_closing = morphology.binary_closing(binary, selem=selem)
  binary_dilation = morphology.binary_dilation(binary, selem=selem)
  binary_erosion = morphology.binary_erosion(binary, selem=selem)
  binary_opening = morphology.binary_opening(binary, selem=selem)
  _, ((a, b, c, d), (e, f, g, h)) = plt.subplots(nrows=2, ncols=4, figsize=(16, 8))
  show_plane(a, erosion[32], title="Erosion")
  show_plane(b, dilation[32], title="Dilation")
  show_plane(c, closing[32], title="Closing")
  show_plane(d, opening[32], title="Opening")
  show_plane(e, binary_erosion[32], title="Binary erosion")
  show_plane(f, binary_dilation[32], title="Binary dilation")
  show_plane(g, binary_closing[32], title="Binary closing")
  show_plane(h, binary_opening[32], title="Binary opening")
  \<close>
  The cell returns the eight volumes in the order it assigns them.
\<close>

definition show_plane_32 :: "lib \<Rightarrow> axes \<Rightarrow> vol \<Rightarrow> cmap \<Rightarrow> string option \<Rightarrow> unit io" where
  "show_plane_32 L ax v cm title = bind (get_plane v 32) (\<lambda>p. show_plane L ax p cm title)"

definition cell_41 :: "lib \<Rightarrow> vol \<Rightarrow> vol \<Rightarrow> vol list io" where
  "cell_41 L rescaled binary =
     bind (callV L (Ball 3)) (\<lambda>selem.
     bind (callV L (Closing rescaled selem)) (\<lambda>closing.
     bind (callV L (Dilation rescaled selem)) (\<lambda>dilation.
     bind (callV L (Erosion rescaled selem)) (\<lambda>erosion.
     bind (callV L (Opening rescaled selem)) (\<lambda>opening.
     bind (callV L (BinaryClosing binary selem)) (\<lambda>binary_closing.
     bind (callV L (BinaryDilation binary selem)) (\<lambda>binary_dilation.
     bind (callV L (BinaryErosion binary selem)) (\<lambda>binary_erosion.
     bind (callV L (BinaryOpening binary selem)) (\<lambda>binary_opening.
     seq (plt L (Subplots 2 4 (16, 8)))
    (seq (show_plane_32 L 0 erosion gray (Some ''Erosion''))
    (seq (show_plane_32 L 1 dilation gray (Some ''Dilation''))
    (seq (show_plane_32 L 2 closing gray (Some ''Closing''))
    (seq (show_plane_32 L 3 opening gray (Some ''Opening''))
    (seq (show_plane_32 L 4 binary_erosion gray (Some ''Binary erosion''))
    (seq (show_plane_32 L 5 binary_dilation gray (Some ''Binary dilation''))
    (seq (show_plane_32 L 6 binary_closing gray (Some ''Binary closing''))
    (seq (show_plane_32 L 7 binary_opening gray (Some ''Binary opening''))
         (ret [closing, dilation, erosion, opening,
               binary_closing, binary_dilation, binary_erosion, binary_opening]))))))))))))))))))"

text \<open>
  \<^verbatim>\<open>
  binary_equalized = equalized >= filters.threshold_li(equalized)
  despeckled1 = morphology.closing(
      morphology.opening(binary_equalized, selem=morphology.ball(1)),
      selem=morphology.ball(1)
  )
  despeckled3 = morphology.closing(
      morphology.opening(binary_equalized, selem=morphology.ball(3)),
      selem=morphology.ball(3)
  )
  _, (a, b, c) = plt.subplots(nrows=1, ncols=3, figsize=(16, 4))
  show_plane(a, binary_equalized[32], title="Noisy data")
  show_plane(b, despeckled1[32], title="Despeckled, r = 1")
  show_plane(c, despeckled3[32], title="Despeckled, r = 3")
  \<close>
\<close>

definition despeckle :: "lib \<Rightarrow> vol \<Rightarrow> nat \<Rightarrow> vol io" where
  "despeckle L v r =
     bind (callV L (Ball r)) (\<lambda>selem1.
     bind (callV L (Opening v selem1)) (\<lambda>opened.
     bind (callV L (Ball r)) (\<lambda>selem2.
          callV L (Closing opened selem2))))"

definition cell_43 :: "lib \<Rightarrow> vol \<Rightarrow> (vol \<times> vol \<times> vol) io" where
  "cell_43 L equalized =
     bind (callN L (ThresholdLi equalized)) (\<lambda>t.
     bind (ret (ge_vol L equalized t)) (\<lambda>binary_equalized.
     bind (despeckle L binary_equalized 1) (\<lambda>despeckled1.
     bind (despeckle L binary_equalized 3) (\<lambda>despeckled3.
     seq (plt L (Subplots 1 3 (16, 4)))
    (seq (show_plane_32 L 0 binary_equalized gray (Some ''Noisy data''))
    (seq (show_plane_32 L 1 despeckled1 gray (Some ''Despeckled, r = 1''))
    (seq (show_plane_32 L 2 despeckled3 gray (Some ''Despeckled, r = 3''))
         (ret (binary_equalized, despeckled1, despeckled3)))))))))"

text \<open>
  \<^verbatim>\<open>
  width = 20
  remove_holes = morphology.remove_small_holes(binary, min_size=width ** 3)
  display(remove_holes)
  \<close>
\<close>

definition cell_45 :: "lib \<Rightarrow> vol \<Rightarrow> vol io" where
  "cell_45 L binary =
     bind (callV L (RemoveSmallHoles binary (20 ^ 3))) (\<lambda>remove_holes.
     seq (display L remove_holes gray 2)
         (ret remove_holes))"

text \<open>
  \<^verbatim>\<open>
  width = 20
  remove_objects = morphology.remove_small_objects(remove_holes, min_size=width ** 3)
  display(remove_objects)
  \<close>
\<close>

definition cell_46 :: "lib \<Rightarrow> vol \<Rightarrow> vol io" where
  "cell_46 L remove_holes =
     bind (callV L (RemoveSmallObjects remove_holes (20 ^ 3))) (\<lambda>remove_objects.
     seq (display L remove_objects gray 2)
         (ret remove_objects))"

text \<open>
  \<^verbatim>\<open>
  labels = measure.label(remove_objects)
  masked_labels, cmap = get_cmap(labels)
  display(masked_labels, cmap=cmap)
  \<close>
\<close>

definition cell_50 :: "lib \<Rightarrow> vol \<Rightarrow> (vol \<times> vol \<times> cmap) io" where
  "cell_50 L remove_objects =
     bind (callV L (Label remove_objects)) (\<lambda>labels.
     bind (get_cmap L labels) (\<lambda>(masked_labels, cmap).
     seq (display L masked_labels cmap 2)
         (ret (labels, masked_labels, cmap))))"

text \<open>
  \<^verbatim>\<open>show_plane(ax, v[i, rows, cols], cmap=cmap, title=title)\<close> and
  \<^verbatim>\<open>show_plane(ax, v[i, rows, cols] == n, title=title)\<close>
\<close>

definition show_crop ::
  "lib \<Rightarrow> axes \<Rightarrow> vol \<Rightarrow> nat \<Rightarrow> (px list list \<Rightarrow> px list list) \<Rightarrow> (px list \<Rightarrow> px list) \<Rightarrow> cmap \<Rightarrow> string option \<Rightarrow> unit io" where
  "show_crop L ax v i rows cols cm title =
     bind (crop v i rows cols) (\<lambda>p. show_plane L ax p cm title)"

definition show_crop_eq ::
  "lib \<Rightarrow> axes \<Rightarrow> vol \<Rightarrow> nat \<Rightarrow> (px list list \<Rightarrow> px list list) \<Rightarrow> (px list \<Rightarrow> px list) \<Rightarrow> int \<Rightarrow> string option \<Rightarrow> unit io" where
  "show_crop_eq L ax v i rows cols n title =
     bind (crop v i rows cols) (\<lambda>p. show_plane L ax (eq_plane p n) gray title)"

text \<open>
  \<^verbatim>\<open>
  _, (a, b, c) = plt.subplots(nrows=1, ncols=3, figsize=(16, 4))
  show_plane(a, rescaled[32, :100, 125:], title="Rescaled")
  show_plane(b, masked_labels[32, :100, 125:], cmap=cmap, title="Labels")
  show_plane(c, labels[32, :100, 125:] == 8, title="Labels = 8")
  \<close>
\<close>

definition cell_52 :: "lib \<Rightarrow> vol \<Rightarrow> vol \<Rightarrow> vol \<Rightarrow> cmap \<Rightarrow> unit io" where
  "cell_52 L rescaled labels masked_labels cmap =
     seq (plt L (Subplots 1 3 (16, 4)))
    (seq (show_crop L 0 rescaled 32 (take 100) (drop 125) gray (Some ''Rescaled''))
    (seq (show_crop L 1 masked_labels 32 (take 100) (drop 125) cmap (Some ''Labels''))
         (show_crop_eq L 2 labels 32 (take 100) (drop 125) 8 (Some ''Labels = 8''))))"

text \<open>
  \<^verbatim>\<open>
  distance = ndi.distance_transform_edt(remove_objects)
  peak_local_max = feature.peak_local_max(
      distance,
      footprint=np.ones((15, 15, 15), dtype=np.bool),
      indices=False,
      labels=measure.label(remove_objects)
  )
  markers = measure.label(peak_local_max)
  labels = morphology.watershed(-rescaled, markers, mask=remove_objects)
  masked_labels, cmap = get_cmap(labels)
  display(masked_labels, cmap=cmap)
  \<close>
\<close>

definition cell_54 :: "lib \<Rightarrow> vol \<Rightarrow> vol \<Rightarrow> (vol \<times> vol \<times> vol \<times> vol \<times> vol \<times> cmap) io" where
  "cell_54 L rescaled remove_objects =
     bind (callV L (DistanceTransformEdt remove_objects)) (\<lambda>distance.
     bind (callV L (Label remove_objects)) (\<lambda>object_labels.
     bind (callV L (PeakLocalMax distance (ones 15 15 15) False object_labels)) (\<lambda>peak_local_max.
     bind (callV L (Label peak_local_max)) (\<lambda>markers.
     bind (negative rescaled) (\<lambda>inverted.
     bind (callV L (Watershed inverted markers remove_objects)) (\<lambda>labels.
     bind (get_cmap L labels) (\<lambda>(masked_labels, cmap).
     seq (display L masked_labels cmap 2)
         (ret (distance, peak_local_max, markers, labels, masked_labels, cmap)))))))))"

text \<open>
  \<^verbatim>\<open>
  _, ((a, b, c), (d, e, f)) = plt.subplots(nrows=2, ncols=3, figsize=(16, 8))
  show_plane(a, masked_labels[32, :100, 125:], cmap=cmap, title="Labels")
  show_plane(b, labels[32, :100, 125:] == 20, title="Labels = 20")
  show_plane(c, labels[32, :100, 125:] == 21, title="Labels = 21")
  show_plane(d, masked_labels[32, 75:175, 125:], cmap=cmap, title="Labels")
  show_plane(e, labels[32, 75:175, 125:] == 13, title="Labels = 13")
  show_plane(f, labels[32, 75:175, 125:] == 14, title="Labels = 14")
  \<close>
\<close>

definition cell_56 :: "lib \<Rightarrow> vol \<Rightarrow> vol \<Rightarrow> cmap \<Rightarrow> unit io" where
  "cell_56 L labels masked_labels cmap =
     seq (plt L (Subplots 2 3 (16, 8)))
    (seq (show_crop L 0 masked_labels 32 (take 100) (drop 125) cmap (Some ''Labels''))
    (seq (show_crop_eq L 1 labels 32 (take 100) (drop 125) 20 (Some ''Labels = 20''))
    (seq (show_crop_eq L 2 labels 32 (take 100) (drop 125) 21 (Some ''Labels = 21''))
    (seq (show_crop L 3 masked_labels 32 (slice 75 175) (drop 125) cmap (Some ''Labels''))
    (seq (show_crop_eq L 4 labels 32 (slice 75 175) (drop 125) 13 (Some ''Labels = 13''))
         (show_crop_eq L 5 labels 32 (slice 75 175) (drop 125) 14 (Some ''Labels = 14'')))))))"

text \<open>
  \<^verbatim>\<open>
  _, (a, b, c) = plt.subplots(nrows=1, ncols=3, figsize=(16, 8))
  show_plane(a, masked_labels[32, 156:, 20:150], cmap=cmap)
  show_plane(b, masked_labels[34, 90:190, 126:], cmap=cmap)
  show_plane(c, masked_labels[32, 150:, 118:248], cmap=cmap)
  \<close>
\<close>

definition cell_58 :: "lib \<Rightarrow> vol \<Rightarrow> cmap \<Rightarrow> unit io" where
  "cell_58 L masked_labels cmap =
     seq (plt L (Subplots 1 3 (16, 8)))
    (seq (show_crop L 0 masked_labels 32 (drop 156) (slice 20 150) cmap None)
    (seq (show_crop L 1 masked_labels 34 (slice 90 190) (drop 126) cmap None)
         (show_crop L 2 masked_labels 32 (drop 150) (slice 118 248) cmap None)))"

text \<open>
  \<^verbatim>\<open>
  _, axes = plt.subplots(nrows=3, ncols=4, figsize=(16, 12))
  vmin = distance.min()
  vmax = distance.max()
  for index, ax in enumerate(axes.flatten()):
      ax.imshow(distance[31 + index], cmap="gray", vmin=vmin, vmax=vmax)
      peaks = np.nonzero(peak_local_max[31 + index])
      ax.plot(peaks[1], peaks[0], "r.")
      ax.set_xticks([])
      ax.set_yticks([])
  \<close>
\<close>

definition cell_60_body :: "lib \<Rightarrow> vol \<Rightarrow> vol \<Rightarrow> px \<Rightarrow> px \<Rightarrow> nat \<times> axes \<Rightarrow> unit io" where
  "cell_60_body L distance peak_local_max vmin vmax p =
     bind (get_plane distance (31 + fst p)) (\<lambda>image.
     seq (plt L (AxImshow (snd p) image gray (Some vmin) (Some vmax)))
    (bind (get_plane peak_local_max (31 + fst p)) (\<lambda>q.
     seq (plt L (Plot (snd p) (map of_nat (snd (nonzero q))) (map of_nat (fst (nonzero q))) ''r.''))
    (seq (plt L (SetXticks (snd p)))
         (plt L (SetYticks (snd p)))))))"

definition cell_60 :: "lib \<Rightarrow> vol \<Rightarrow> vol \<Rightarrow> unit io" where
  "cell_60 L distance peak_local_max =
     seq (plt L (Subplots 3 4 (16, 12)))
    (bind (amin distance) (\<lambda>vmin.
     bind (amax distance) (\<lambda>vmax.
     for_each (enumerate 0 [0 ..< 12]) (cell_60_body L distance peak_local_max vmin vmax))))"

text \<open>
  \<^verbatim>\<open>
  _, ((a, b, c), (d, e, f)) = plt.subplots(nrows=2, ncols=3, figsize=(16, 8))
  show_plane(a, remove_objects[10:, 193:253, 74])
  show_plane(b, remove_objects[10:, 110:170, 184])
  show_plane(c, remove_objects[10:, 170:230, 179])
  show_plane(d, distance[10:, 193:253, 74])
  show_plane(e, distance[10:, 110:170, 184])
  show_plane(f, distance[10:, 170:230, 179])
  \<close>
\<close>

definition show_side :: "lib \<Rightarrow> axes \<Rightarrow> vol \<Rightarrow> nat \<Rightarrow> nat \<Rightarrow> nat \<Rightarrow> nat \<Rightarrow> unit io" where
  "show_side L ax v p0 r0 r1 j =
     bind (side_view v p0 r0 r1 j) (\<lambda>p. show_plane L ax p gray None)"

definition cell_61 :: "lib \<Rightarrow> vol \<Rightarrow> vol \<Rightarrow> unit io" where
  "cell_61 L remove_objects distance =
     seq (plt L (Subplots 2 3 (16, 8)))
    (seq (show_side L 0 remove_objects 10 193 253 74)
    (seq (show_side L 1 remove_objects 10 110 170 184)
    (seq (show_side L 2 remove_objects 10 170 230 179)
    (seq (show_side L 3 distance 10 193 253 74)
    (seq (show_side L 4 distance 10 110 170 184)
         (show_side L 5 distance 10 170 230 179))))))"

text \<open>
  \<^verbatim>\<open>
  interior_labels = segmentation.clear_border(labels)
  masked_labels, cmap = get_cmap(interior_labels)
  print("interior labels: {}".format(np.unique(interior_labels)))
  display(masked_labels, cmap=cmap)
  \<close>
\<close>

definition cell_64 :: "lib \<Rightarrow> vol \<Rightarrow> vol io" where
  "cell_64 L labels =
     bind (callV L (ClearBorder labels)) (\<lambda>interior_labels.
     bind (get_cmap L interior_labels) (\<lambda>(masked_labels, cmap).
     seq (print_line ''interior labels: {}'')
    (seq (display L masked_labels cmap 2)
         (ret interior_labels))))"

text \<open>
  \<^verbatim>\<open>
  relabeled, _, _ = segmentation.relabel_sequential(interior_labels)
  print("relabeled labels: {}".format(np.unique(relabeled)))
  \<close>
\<close>

definition cell_66 :: "lib \<Rightarrow> vol \<Rightarrow> vol io" where
  "cell_66 L interior_labels =
     bind (callV L (RelabelSequential interior_labels)) (\<lambda>relabeled.
     seq (print_line ''relabeled labels: {}'')
         (ret relabeled))"

text \<open>
  \<^verbatim>\<open>
  regionprops = measure.regionprops(relabeled, intensity_image=data)
  supported = []
  unsupported = []
  for prop in regionprops[0]:
      try:
          regionprops[0][prop]
          supported.append(prop)
      except NotImplementedError:
          unsupported.append(prop)
  print("Supported properties:")
  print("  " + "\n  ".join(supported))
  print()
  print("Unsupported properties:")
  print("  " + "\n  ".join(unsupported))
  \<close>
\<close>

definition probe :: "lib \<Rightarrow> region list \<Rightarrow> string \<Rightarrow> string list \<times> string list \<Rightarrow> (string list \<times> string list) io" where
  "probe L regionprops prop s =
     try_except
       (bind (get_item regionprops 0) (\<lambda>r.
        seq (call (RegionGetItem r prop) (region_getitem L r prop))
            (ret (fst s @ [prop], snd s))))
       (\<lambda>e. case e of NotImplementedError msg \<Rightarrow> Some (ret (fst s, snd s @ [prop])) | _ \<Rightarrow> None)"

fun join :: "string \<Rightarrow> string list \<Rightarrow> string" where
  "join sep [] = []"
| "join sep [x] = x"
| "join sep (x # y # ys) = x @ sep @ join sep (y # ys)"

definition cell_68 :: "lib \<Rightarrow> vol \<Rightarrow> vol \<Rightarrow> region list io" where
  "cell_68 L relabeled data =
     bind (call (Regionprops relabeled data) (regionprops_fn L relabeled data)) (\<lambda>regionprops.
     bind (get_item regionprops 0) (\<lambda>r0.
     bind (call (RegionIter r0) (region_iter L r0)) (\<lambda>props.
     bind (for_acc props (probe L regionprops) ([], [])) (\<lambda>(supported, unsupported).
     seq (print_line ''Supported properties:'')
    (seq (print_line (''  '' @ join (CHR 0x0A # ''  '') supported))
    (seq (print_line [])
    (seq (print_line ''Unsupported properties:'')
    (seq (print_line (''  '' @ join (CHR 0x0A # ''  '') unsupported))
         (ret regionprops)))))))))"

text \<open>
  \<^verbatim>\<open>print("measured regions: {}".format([regionprop.label for regionprop in regionprops]))\<close>
\<close>

definition collect :: "('a \<Rightarrow> 'b io) \<Rightarrow> 'a list \<Rightarrow> 'b list io" where
  "collect f xs = for_acc xs (\<lambda>x acc. bind (f x) (\<lambda>y. ret (acc @ [y]))) []"

definition cell_70 :: "lib \<Rightarrow> region list \<Rightarrow> unit io" where
  "cell_70 L regionprops =
     bind (collect (\<lambda>r. call (RegionLabel r) (region_label L r)) regionprops) (\<lambda>labels.
          print_line ''measured regions: {}'')"

text \<open>
  \<^verbatim>\<open>
  volumes = [regionprop.area for regionprop in regionprops]
  print("total pixels: {}".format(volumes))
  \<close>
\<close>

definition cell_72 :: "lib \<Rightarrow> region list \<Rightarrow> rat list io" where
  "cell_72 L regionprops =
     bind (collect (\<lambda>r. call (RegionArea r) (region_area L r)) regionprops) (\<lambda>volumes.
     seq (print_line ''total pixels: {}'')
         (ret volumes))"

text \<open>
  \<^verbatim>\<open>
  max_volume = np.max(volumes)
  mean_volume = np.mean(volumes)
  min_volume = np.min(volumes)
  sd_volume = np.std(volumes)
  total_volume = np.sum(volumes)
  print("Volume statistics")
  print("total: {}".format(total_volume))
  print("min: {}".format(min_volume))
  print("max: {}".format(max_volume))
  print("mean: {:0.2f}".format(mean_volume))
  print("standard deviation: {:0.2f}".format(sd_volume))
  \<close>
\<close>

definition cell_74 :: "lib \<Rightarrow> rat list \<Rightarrow> unit io" where
  "cell_74 L volumes =
     bind (callN L (NpMax volumes)) (\<lambda>max_volume.
     bind (callN L (NpMean volumes)) (\<lambda>mean_volume.
     bind (callN L (NpMin volumes)) (\<lambda>min_volume.
     bind (callN L (NpStd volumes)) (\<lambda>sd_volume.
     bind (callN L (NpSum volumes)) (\<lambda>total_volume.
     seq (print_line ''Volume statistics'')
    (seq (print_line ''total: {}'')
    (seq (print_line ''min: {}'')
    (seq (print_line ''max: {}'')
    (seq (print_line ''mean: {:0.2f}'')
         (print_line ''standard deviation: {:0.2f}''))))))))))"

text \<open>
  \<^verbatim>\<open>
  volume = (relabeled == regionprops[3].label).transpose(1, 2, 0)
  verts_px, faces_px, _, _ = measure.marching_cubes(volume, level=0, spacing=(1.0, 1.0, 1.0))
  surface_area_pixels = measure.mesh_surface_area(verts_px, faces_px)
  verts, faces, _, _ = measure.marching_cubes(volume, level=0, spacing=tuple(spacing))
  surface_area_actual = measure.mesh_surface_area(verts, faces)
  print("surface area (total pixels): {:0.2f}".format(surface_area_pixels))
  print("surface area (actual): {:0.2f}".format(surface_area_actual))
  \<close>
\<close>

definition cell_76 :: "lib \<Rightarrow> rat list \<Rightarrow> vol \<Rightarrow> region list \<Rightarrow> (vert list \<times> face list) io" where
  "cell_76 L spacing' relabeled regionprops =
     bind (get_item regionprops 3) (\<lambda>r3.
     bind (call (RegionLabel r3) (region_label L r3)) (\<lambda>label3.
     bind (callV L (Transpose120 (eq_vol relabeled label3))) (\<lambda>volume.
     bind (call (MarchingCubes volume 0 [1, 1, 1]) (marching_cubes L volume 0 [1, 1, 1])) (\<lambda>(verts_px, faces_px).
     bind (callN L (MeshSurfaceArea verts_px faces_px)) (\<lambda>surface_area_pixels.
     bind (call (MarchingCubes volume 0 spacing') (marching_cubes L volume 0 spacing')) (\<lambda>(verts, faces).
     bind (callN L (MeshSurfaceArea verts faces)) (\<lambda>surface_area_actual.
     seq (print_line ''surface area (total pixels): {:0.2f}'')
    (seq (print_line ''surface area (actual): {:0.2f}'')
         (ret (verts_px, faces_px))))))))))"

text \<open>
  \<^verbatim>\<open>
  fig = plt.figure(figsize=(10, 10))
  ax = fig.add_subplot(111, projection="3d")
  mesh = Poly3DCollection(verts_px[faces_px])
  mesh.set_edgecolor("k")
  ax.add_collection3d(mesh)
  ax.set_xlabel("col")
  ax.set_ylabel("row")
  ax.set_zlabel("pln")
  min_pln, min_row, min_col, max_pln, max_row, max_col = regionprops[3].bbox
  ax.set_xlim(min_row, max_row)
  ax.set_ylim(min_col, max_col)
  ax.set_zlim(min_pln, max_pln)
  plt.tight_layout()
  plt.show()
  \<close>
\<close>

definition cell_78 :: "lib \<Rightarrow> vert list \<Rightarrow> face list \<Rightarrow> region list \<Rightarrow> unit io" where
  "cell_78 L verts_px faces_px regionprops =
     seq (plt L (Figure (10, 10)))
    (seq (plt L (AddSubplot 111 ''3d''))
    (bind (fancy_index verts_px faces_px) (\<lambda>triangles.
     seq (plt L (Poly3DCollection triangles))
    (seq (plt L (SetEdgecolor ''k''))
    (seq (plt L AddCollection3d)
    (seq (plt L (SetXlabel ''col''))
    (seq (plt L (SetYlabel ''row''))
    (seq (plt L (SetZlabel ''pln''))
    (bind (get_item regionprops 3) (\<lambda>r3.
     bind (call (RegionBbox r3) (region_bbox L r3)) (\<lambda>bbox.
     bind (unpack6 bbox) (\<lambda>(min_pln, min_row, min_col, max_pln, max_row, max_col).
     seq (plt L (SetXlim min_row max_row))
    (seq (plt L (SetYlim min_col max_col))
    (seq (plt L (SetZlim min_pln max_pln))
    (seq (plt L TightLayout)
         (plt L Show))))))))))))))))"

section \<open>The notebook\<close>

text \<open>
  The variables the cells leave behind, as far as the properties below speak of them.
  \<open>ns_labels_cc\<close> is \<^verbatim>\<open>labels\<close> as the connected-component cell assigns it, before the
  watershed cell assigns \<^verbatim>\<open>labels\<close> again; \<open>ns_morphology\<close> holds \<^verbatim>\<open>closing\<close>,
  \<^verbatim>\<open>dilation\<close>, \<^verbatim>\<open>erosion\<close>, \<^verbatim>\<open>opening\<close> and their four binary counterparts.
\<close>

record namespace =
  ns_data :: vol
  ns_gamma_low :: vol
  ns_gamma_high :: vol
  ns_equalized :: vol
  ns_clipped :: vol
  ns_rescaled :: vol
  ns_sobel :: vol
  ns_gaussian :: vol
  ns_median :: vol
  ns_bilateral :: vol
  ns_denoised :: vol
  ns_threshold_li :: rat
  ns_li :: vol
  ns_threshold_otsu :: rat
  ns_otsu :: vol
  ns_binary :: vol
  ns_morphology :: "vol list"
  ns_binary_equalized :: vol
  ns_despeckled1 :: vol
  ns_despeckled3 :: vol
  ns_remove_holes :: vol
  ns_remove_objects :: vol
  ns_labels_cc :: vol
  ns_distance :: vol
  ns_peak_local_max :: vol
  ns_markers :: vol
  ns_labels :: vol
  ns_interior_labels :: vol
  ns_relabeled :: vol

definition notebook :: "lib \<Rightarrow> namespace io" where
  "notebook L =
     bind (cell_3 L) (\<lambda>data.
     bind cell_5 (\<lambda>spacing'.
     seq (cell_7 L data)
    (seq (cell_10 L data)
    (seq (cell_13 L data)
    (bind (cell_17 L data) (\<lambda>(gamma_low, gamma_high).
     bind (cell_19 L data) (\<lambda>equalized.
     bind (cell_21 L data) (\<lambda>clipped.
     bind (cell_22 clipped) (\<lambda>rescaled.
     bind (cell_24 L rescaled) (\<lambda>sobel.
     seq (cell_25 L rescaled sobel)
    (bind (cell_27 L spacing' rescaled) (\<lambda>gaussian.
     bind (cell_29 L rescaled) (\<lambda>median.
     bind (cell_31 L rescaled) (\<lambda>bilateral.
     seq (cell_32 L rescaled gaussian median bilateral)
    (bind (cell_33 bilateral) (\<lambda>denoised.
     bind (cell_35 L denoised) (\<lambda>(threshold_li, li, threshold_otsu, otsu).
     bind (cell_36 L li) (\<lambda>binary.
     seq (cell_39 L)
    (bind (cell_41 L rescaled binary) (\<lambda>morphology.
     bind (cell_43 L equalized) (\<lambda>(binary_equalized, despeckled1, despeckled3).
     bind (cell_45 L binary) (\<lambda>remove_holes.
     bind (cell_46 L remove_holes) (\<lambda>remove_objects.
     bind (cell_50 L remove_objects) (\<lambda>(labels_cc, masked_labels_cc, cmap_cc).
     seq (cell_52 L rescaled labels_cc masked_labels_cc cmap_cc)
    (bind (cell_54 L rescaled remove_objects) (\<lambda>(distance, peak_local_max, markers, labels, masked_labels, cmap).
     seq (cell_56 L labels masked_labels cmap)
    (seq (cell_58 L masked_labels cmap)
    (seq (cell_60 L distance peak_local_max)
    (seq (cell_61 L remove_objects distance)
    (bind (cell_64 L labels) (\<lambda>interior_labels.
     bind (cell_66 L interior_labels) (\<lambda>relabeled.
     bind (cell_68 L relabeled data) (\<lambda>regionprops.
     seq (cell_70 L regionprops)
    (bind (cell_72 L regionprops) (\<lambda>volumes.
     seq (cell_74 L volumes)
    (bind (cell_76 L spacing' relabeled regionprops) (\<lambda>(verts_px, faces_px).
     seq (cell_78 L verts_px faces_px regionprops)
         (ret \<lparr> ns_data = data, ns_gamma_low = gamma_low, ns_gamma_high = gamma_high,
                ns_equalized = equalized, ns_clipped = clipped, ns_rescaled = rescaled,
                ns_sobel = sobel, ns_gaussian = gaussian, ns_median = median,
                ns_bilateral = bilateral, ns_denoised = denoised,
                ns_threshold_li = threshold_li, ns_li = li,
                ns_threshold_otsu = threshold_otsu, ns_otsu = otsu, ns_binary = binary,
                ns_morphology = morphology, ns_binary_equalized = binary_equalized,
                ns_despeckled1 = despeckled1, ns_despeckled3 = despeckled3,
                ns_remove_holes = remove_holes, ns_remove_objects = remove_objects,
                ns_labels_cc = labels_cc, ns_distance = distance,
                ns_peak_local_max = peak_local_max, ns_markers = markers,
                ns_labels = labels, ns_interior_labels = interior_labels,
                ns_relabeled = relabeled \<rparr>))))))))))))))))))))))))))))))))))))))"

section \<open>Properties of executions\<close>

subsection \<open>Handled and unhandled exceptions\<close>

definition is_io_imshow :: "op \<Rightarrow> bool" where
  "is_io_imshow f = (case f of Plt (IoImshow _ _) \<Rightarrow> True | _ \<Rightarrow> False)"

definition is_region_getitem :: "op \<Rightarrow> bool" where
  "is_region_getitem f = (case f of RegionGetItem _ _ \<Rightarrow> True | _ \<Rightarrow> False)"

definition is_type_error :: "exn \<Rightarrow> bool" where
  "is_type_error e = (case e of TypeError _ \<Rightarrow> True | _ \<Rightarrow> False)"

definition is_not_implemented :: "exn \<Rightarrow> bool" where
  "is_not_implemented e = (case e of NotImplementedError _ \<Rightarrow> True | _ \<Rightarrow> False)"

text \<open>
  The two \<^verbatim>\<open>try\<close> statements of the notebook: a TypeError of \<^verbatim>\<open>io.imshow\<close>, and a
  NotImplementedError of the subscript \<^verbatim>\<open>regionprops[0][prop]\<close>.
\<close>

definition caught :: "op \<Rightarrow> exn \<Rightarrow> bool" where
  "caught f e =
     (is_io_imshow f \<and> is_type_error e \<or> is_region_getitem f \<and> is_not_implemented e)"

definition uncaught :: "event \<Rightarrow> bool" where
  "uncaught ev = (case ev of Ev f None \<Rightarrow> False | Ev f (Some e) \<Rightarrow> \<not> caught f e)"

text \<open>
  An execution is disciplined when no exception raised in it was dropped: one that
  returned holds no raise but caught ones; one that ended with exception \<open>e\<close> ends with
  the call that raised \<open>e\<close>, which is not a caught one, and holds no other raise but
  caught ones.
\<close>

definition disciplined :: "'a io \<Rightarrow> bool" where
  "disciplined m =
     (case fst m of
        Inr x \<Rightarrow> list_all (\<lambda>ev. \<not> uncaught ev) (snd m)
      | Inl e \<Rightarrow>
          snd m \<noteq> []
          \<and> (case last (snd m) of Ev f r \<Rightarrow> r = Some e \<and> \<not> caught f e)
          \<and> list_all (\<lambda>ev. \<not> uncaught ev) (butlast (snd m)))"

subsection \<open>Stages\<close>

datatype stage =
    Load | Contrast | Edge | Denoise | Threshold | Morphology | Cleanup
  | Labelling | Seeds | WatershedSeg | Measure | Visualize | Glue

fun vol_stage :: "volcall \<Rightarrow> stage" where
  "vol_stage (Imread _) = Load"
| "vol_stage (AdjustGamma _ _) = Contrast"
| "vol_stage (EqualizeHist _) = Contrast"
| "vol_stage (RescaleIntensity _ _) = Contrast"
| "vol_stage (AsFloat32 _) = Contrast"
| "vol_stage (Gaussian _ _ _) = Denoise"
| "vol_stage (ImgAsUbyte _) = Denoise"
| "vol_stage (ImgAsFloat _) = Denoise"
| "vol_stage (Ball _) = Morphology"
| "vol_stage (Cube _) = Morphology"
| "vol_stage (Closing _ _) = Morphology"
| "vol_stage (Dilation _ _) = Morphology"
| "vol_stage (Erosion _ _) = Morphology"
| "vol_stage (Opening _ _) = Morphology"
| "vol_stage (BinaryClosing _ _) = Morphology"
| "vol_stage (BinaryDilation _ _) = Morphology"
| "vol_stage (BinaryErosion _ _) = Morphology"
| "vol_stage (BinaryOpening _ _) = Morphology"
| "vol_stage (RemoveSmallHoles _ _) = Cleanup"
| "vol_stage (RemoveSmallObjects _ _) = Cleanup"
| "vol_stage (Label _) = Labelling"
| "vol_stage (DistanceTransformEdt _) = Seeds"
| "vol_stage (PeakLocalMax _ _ _ _) = Seeds"
| "vol_stage (Watershed _ _ _) = WatershedSeg"
| "vol_stage (ClearBorder _) = Measure"
| "vol_stage (RelabelSequential _) = Measure"
| "vol_stage (Transpose120 _) = Measure"

fun plane_stage :: "planecall \<Rightarrow> stage" where
  "plane_stage (Sobel _) = Edge"
| "plane_stage (Median _) = Denoise"
| "plane_stage (DenoiseBilateral _ _) = Denoise"

fun num_stage :: "numcall \<Rightarrow> stage" where
  "num_stage (ThresholdLi _) = Threshold"
| "num_stage (ThresholdOtsu _) = Threshold"
| "num_stage (MeshSurfaceArea _ _) = Measure"
| "num_stage (NpMax _) = Measure"
| "num_stage (NpMean _) = Measure"
| "num_stage (NpMin _) = Measure"
| "num_stage (NpStd _) = Measure"
| "num_stage (NpSum _) = Measure"

fun stage_of :: "op \<Rightarrow> stage" where
  "stage_of (V c) = vol_stage c"
| "stage_of (P c) = plane_stage c"
| "stage_of (N c) = num_stage c"
| "stage_of (Plt _) = Visualize"
| "stage_of (Np _) = Glue"
| "stage_of (Scoreatpercentile _ _) = Contrast"
| "stage_of (CumulativeDistribution _) = Contrast"
| "stage_of (Regionprops _ _) = Measure"
| "stage_of (RegionIter _) = Measure"
| "stage_of (RegionGetItem _ _) = Measure"
| "stage_of (RegionLabel _) = Measure"
| "stage_of (RegionArea _) = Measure"
| "stage_of (RegionBbox _) = Measure"
| "stage_of (MarchingCubes _ _ _) = Measure"
| "stage_of (Print _) = Glue"

definition ev_stage :: "event \<Rightarrow> stage" where
  "ev_stage ev = (case ev of Ev f r \<Rightarrow> stage_of f)"

text \<open>Every call of stage \<open>a\<close> comes before every call of stage \<open>b\<close>.\<close>

definition precedes :: "stage \<Rightarrow> stage \<Rightarrow> event list \<Rightarrow> bool" where
  "precedes a b t =
     (\<forall>i < length t. \<forall>j < length t. ev_stage (t ! i) = a \<and> ev_stage (t ! j) = b \<longrightarrow> i < j)"

text \<open>
  The order of the specification's overview: load, adjust contrast, edge map, denoise,
  threshold, morphological cleanup, label, watershed, measure, visualize.
\<close>

fun rank :: "stage \<Rightarrow> nat option" where
  "rank Load = Some 0"
| "rank Contrast = Some 1"
| "rank Edge = Some 2"
| "rank Denoise = Some 3"
| "rank Threshold = Some 4"
| "rank Morphology = Some 5"
| "rank Cleanup = Some 5"
| "rank Labelling = Some 6"
| "rank Seeds = Some 7"
| "rank WatershedSeg = Some 7"
| "rank Measure = Some 8"
| "rank Visualize = Some 9"
| "rank Glue = None"

definition in_stated_order :: "event list \<Rightarrow> bool" where
  "in_stated_order t = sorted (List.map_filter (\<lambda>ev. rank (ev_stage ev)) t)"

subsection \<open>Files\<close>

datatype fs_access = FsRead string | FsWrite string

text \<open>
  The one routine the notebook calls with a path is \<^verbatim>\<open>io.imread\<close>; no call of the
  notebook saves a figure or an array.
\<close>

definition fs_access_of :: "event \<Rightarrow> fs_access option" where
  "fs_access_of ev = (case ev of Ev (V (Imread path)) r \<Rightarrow> Some (FsRead path) | _ \<Rightarrow> None)"

definition fs_accesses :: "event list \<Rightarrow> fs_access list" where
  "fs_accesses t = List.map_filter fs_access_of t"

subsection \<open>Calls and panels\<close>

text \<open>
  The calls of a cell into the image-processing libraries, in order: the calls of the
  trace other than plotting, printing and the indexing the notebook does itself.
\<close>

definition library_calls :: "event list \<Rightarrow> op list" where
  "library_calls t =
     List.map_filter (\<lambda>ev. case ev of Ev f r \<Rightarrow> if stage_of f \<in> {Visualize, Glue} then None else Some f) t"

text \<open>The panels drawn: the \<^verbatim>\<open>ax.imshow\<close> calls that returned.\<close>

definition panels :: "event list \<Rightarrow> (axes \<times> plane \<times> cmap \<times> px option \<times> px option) list" where
  "panels t =
     List.map_filter
       (\<lambda>ev. case ev of Ev (Plt (AxImshow ax img cm lo hi)) None \<Rightarrow> Some (ax, img, cm, lo, hi) | _ \<Rightarrow> None) t"

subsection \<open>Shapes\<close>

definition has_shape :: "nat \<Rightarrow> nat \<Rightarrow> nat \<Rightarrow> vol \<Rightarrow> bool" where
  "has_shape p r c v =
     (length v = p \<and> list_all (\<lambda>pl. length pl = r \<and> list_all (\<lambda>row. length row = c) pl) v)"

text \<open>The image argument of a routine that maps a volume to a volume.\<close>

fun vol_input :: "volcall \<Rightarrow> vol option" where
  "vol_input (Imread _) = None"
| "vol_input (AdjustGamma v _) = Some v"
| "vol_input (EqualizeHist v) = Some v"
| "vol_input (RescaleIntensity v _) = Some v"
| "vol_input (AsFloat32 v) = Some v"
| "vol_input (Gaussian v _ _) = Some v"
| "vol_input (ImgAsUbyte v) = Some v"
| "vol_input (ImgAsFloat v) = Some v"
| "vol_input (Ball _) = None"
| "vol_input (Cube _) = None"
| "vol_input (Closing v _) = Some v"
| "vol_input (Dilation v _) = Some v"
| "vol_input (Erosion v _) = Some v"
| "vol_input (Opening v _) = Some v"
| "vol_input (BinaryClosing v _) = Some v"
| "vol_input (BinaryDilation v _) = Some v"
| "vol_input (BinaryErosion v _) = Some v"
| "vol_input (BinaryOpening v _) = Some v"
| "vol_input (RemoveSmallHoles v _) = Some v"
| "vol_input (RemoveSmallObjects v _) = Some v"
| "vol_input (Label v) = Some v"
| "vol_input (DistanceTransformEdt v) = Some v"
| "vol_input (PeakLocalMax v _ _ _) = Some v"
| "vol_input (Watershed v _ _) = Some v"
| "vol_input (ClearBorder v) = Some v"
| "vol_input (RelabelSequential v) = Some v"
| "vol_input (Transpose120 _) = None"

section \<open>A library and an image to run the notebook on\<close>

text \<open>
  A constant volume, and a library whose array routines return their image argument,
  converted to \<^verbatim>\<open>float32\<close> by \<^verbatim>\<open>astype(np.float32)\<close>, to integers by \<^verbatim>\<open>img_as_ubyte\<close> and to
  \<^verbatim>\<open>float64\<close> by \<^verbatim>\<open>img_as_float\<close>, whose \<^verbatim>\<open>io.imshow\<close> refuses a volume as matplotlib does, and whose region properties
  support \<^verbatim>\<open>area\<close> and not \<^verbatim>\<open>perimeter\<close>.
\<close>

definition cvol :: "nat \<Rightarrow> nat \<Rightarrow> nat \<Rightarrow> px \<Rightarrow> vol" where
  "cvol a b c x = replicate a (replicate b (replicate c x))"

definition plane_input :: "planecall \<Rightarrow> plane" where
  "plane_input c = (case c of Sobel p \<Rightarrow> p | Median p \<Rightarrow> p | DenoiseBilateral p _ \<Rightarrow> p)"

text \<open>
  Conversions that keep the number (its integer part for an integer dtype, whether it is
  not zero for \<^verbatim>\<open>bool\<close>), and zeros for uninitialised memory.
\<close>

definition astype0 :: "dtype \<Rightarrow> px \<Rightarrow> px" where
  "astype0 d x = (case px_num x of None \<Rightarrow> x | Some q \<Rightarrow> mk_px d q)"

definition lib0 :: "vol \<Rightarrow> lib" where
  "lib0 img =
     \<lparr> vol_fn = (\<lambda>c. case c of
                       Imread path \<Rightarrow> Inr img
                     | AsFloat32 v \<Rightarrow> Inr (map (map (map (astype0 DFloat32))) v)
                     | ImgAsUbyte v \<Rightarrow> Inr (map (map (map (astype0 DInt))) v)
                     | ImgAsFloat v \<Rightarrow> Inr (map (map (map (astype0 DFloat64))) v)
                     | Transpose120 v \<Rightarrow> Inr v
                     | _ \<Rightarrow> (case vol_input c of Some v \<Rightarrow> Inr v | None \<Rightarrow> Inr (ones 1 1 1))),
       plane_fn = (\<lambda>c. Inr (plane_input c)),
       num_fn = (\<lambda>c. Inr 0),
       plot_fn = (\<lambda>c. case c of IoImshow v cm \<Rightarrow> Inl (TypeError ''Invalid dimensions for image data'')
                      | _ \<Rightarrow> Inr ()),
       scoreatpercentile = (\<lambda>v q. Inr (0, 1)),
       cumulative_distribution = (\<lambda>ps. Inr ([], [])),
       regionprops_fn = (\<lambda>v w. Inr [0, 1, 2, 3]),
       region_iter = (\<lambda>r. Inr [''area'', ''perimeter'']),
       region_getitem = (\<lambda>r prop. if prop = ''perimeter'' then Inl (NotImplementedError []) else Inr ()),
       region_label = (\<lambda>r. Inr (int r + 1)),
       region_area = (\<lambda>r. Inr 1),
       region_bbox = (\<lambda>r. Inr [0, 0, 0, 1, 1, 1]),
       marching_cubes = (\<lambda>v level sp. Inr ([], [])),
       astype = astype0,
       uninit = (\<lambda>d. 0) \<rparr>"

definition image0 :: vol where
  "image0 = cvol 43 129 185 (PNum 0)"

section \<open>Stage sets of the cells\<close>

text \<open>
  \<open>stages K m\<close>: every call of execution \<open>m\<close> belongs to a stage of \<open>K\<close>. The list
  \<open>cell_stages\<close> gives, cell by cell in the order of the notebook, the stages of the calls
  the cell makes; the watershed cell has two entries, the calls up to the negation of
  \<^verbatim>\<open>rescaled\<close> and the calls from \<^verbatim>\<open>morphology.watershed\<close> on.
\<close>

definition stages :: "stage set \<Rightarrow> 'a io \<Rightarrow> bool" where
  "stages K m = (\<forall>ev\<in>set (snd m). ev_stage ev \<in> K)"

definition ok :: "stage set \<Rightarrow> 'a io \<Rightarrow> bool" where
  "ok K m = (stages K m \<and> disciplined m)"

definition seg :: "stage set \<Rightarrow> event list \<Rightarrow> bool" where
  "seg K t = (\<forall>ev\<in>set t. ev_stage ev \<in> K)"

definition decomp :: "stage set list \<Rightarrow> 'a io \<Rightarrow> bool" where
  "decomp Ks m = (\<exists>ts. list_all2 seg Ks ts \<and> snd m = concat ts)"

fun no_back :: "stage \<Rightarrow> stage \<Rightarrow> stage set list \<Rightarrow> bool" where
  "no_back a b [] = True"
| "no_back a b (K # Ks) = ((b \<in> K \<longrightarrow> a \<notin> K \<and> list_all (\<lambda>K'. a \<notin> K') Ks) \<and> no_back a b Ks)"

definition cell_stages :: "stage set list" where
  "cell_stages =
     [{Load, Glue}, {Glue}, {Visualize, Glue}, {Visualize, Glue}, {Visualize, Glue},
      {Contrast, Visualize, Glue}, {Contrast, Visualize, Glue}, {Contrast, Visualize, Glue}, {},
      {Edge, Visualize, Glue}, {Edge, Visualize, Glue},
      {Denoise, Visualize, Glue}, {Denoise, Visualize, Glue}, {Denoise, Visualize, Glue},
      {Visualize, Glue}, {},
      {Threshold, Visualize, Glue}, {Visualize, Glue},
      {Morphology, Glue}, {Morphology, Visualize, Glue}, {Threshold, Morphology, Visualize, Glue},
      {Cleanup, Visualize, Glue}, {Cleanup, Visualize, Glue},
      {Labelling, Visualize, Glue}, {Visualize, Glue},
      {Labelling, Seeds, Glue}, {WatershedSeg, Visualize, Glue},
      {Visualize, Glue}, {Visualize, Glue}, {Visualize, Glue}, {Visualize, Glue},
      {Measure, Visualize, Glue}, {Measure, Glue}, {Measure, Glue}, {Measure, Glue},
      {Measure, Glue}, {Measure, Glue}, {Measure, Glue}, {Measure, Visualize, Glue}]"

text \<open>The plotting calls other than \<^verbatim>\<open>io.imshow\<close> return.\<close>

definition plots_return :: "lib \<Rightarrow> bool" where
  "plots_return L = (\<forall>c. \<not> is_io_imshow (Plt c) \<longrightarrow> plot_fn L c = Inr ())"

text \<open>What the notebook leaves behind when it is run with \<open>lib0 image0\<close>.\<close>

definition namespace0 :: namespace where
  "namespace0 =
     \<lparr> ns_data = image0, ns_gamma_low = image0, ns_gamma_high = image0,
       ns_equalized = image0, ns_clipped = cvol 43 129 185 (PF32 0),
       ns_rescaled = cvol 43 129 185 (PF32 0),
       ns_sobel = cvol 43 129 185 (PF32 0), ns_gaussian = cvol 43 129 185 (PF32 0),
       ns_median = image0,
       ns_bilateral = cvol 43 129 185 (PF32 0), ns_denoised = cvol 43 129 185 (PF32 0),
       ns_threshold_li = 0, ns_li = cvol 43 129 185 (PBool True),
       ns_threshold_otsu = 0, ns_otsu = cvol 43 129 185 (PBool True),
       ns_binary = cvol 43 129 185 (PBool True),
       ns_morphology = [cvol 43 129 185 (PF32 0), cvol 43 129 185 (PF32 0),
          cvol 43 129 185 (PF32 0), cvol 43 129 185 (PF32 0),
          cvol 43 129 185 (PBool True), cvol 43 129 185 (PBool True),
          cvol 43 129 185 (PBool True), cvol 43 129 185 (PBool True)],
       ns_binary_equalized = cvol 43 129 185 (PBool True),
       ns_despeckled1 = cvol 43 129 185 (PBool True),
       ns_despeckled3 = cvol 43 129 185 (PBool True),
       ns_remove_holes = cvol 43 129 185 (PBool True),
       ns_remove_objects = cvol 43 129 185 (PBool True),
       ns_labels_cc = cvol 43 129 185 (PBool True),
       ns_distance = cvol 43 129 185 (PBool True),
       ns_peak_local_max = cvol 43 129 185 (PBool True),
       ns_markers = cvol 43 129 185 (PBool True),
       ns_labels = cvol 43 129 185 (PF32 0), ns_interior_labels = cvol 43 129 185 (PF32 0),
       ns_relabeled = cvol 43 129 185 (PF32 0) \<rparr>"

text \<open>The same library with no image file to read.\<close>

definition lib_missing :: lib where
  "lib_missing =
     (lib0 image0)\<lparr> vol_fn := (\<lambda>c. Inl (OtherError ''FileNotFoundError'' ''../images/cells.tif'')) \<rparr>"

text \<open>An execution that returns ends with the call \<open>ev\<close>.\<close>

definition ends_with :: "event \<Rightarrow> 'a io \<Rightarrow> bool" where
  "ends_with ev m = (\<forall>y. fst m = Inr y \<longrightarrow> snd m \<noteq> [] \<and> last (snd m) = ev)"


section \<open>Executions: basic facts\<close>


named_theorems ok_intros

lemma fst_ret [simp]: "fst (ret x) = Inr x" by (simp add: ret_def)
lemma snd_ret [simp]: "snd (ret x) = []" by (simp add: ret_def)
lemma fst_call [simp]: "fst (call f r) = r" by (simp add: call_def)
lemma snd_call [simp]: "snd (call f r) = [Ev f (raised r)]" by (simp add: call_def)
lemma raised_simps [simp]: "raised (Inl e) = Some e" "raised (Inr x) = None"
  by (simp_all add: raised_def)
lemma fst_bind: "fst (bind m f) = (case fst m of Inl e \<Rightarrow> Inl e | Inr x \<Rightarrow> fst (f x))"
  by (simp add: bind_def split: sum.splits)
lemma snd_bind: "snd (bind m f) = snd m @ (case fst m of Inl e \<Rightarrow> [] | Inr x \<Rightarrow> snd (f x))"
  by (simp add: bind_def split: sum.splits)
lemma fst_seq: "fst (seq m n) = (case fst m of Inl e \<Rightarrow> Inl e | Inr x \<Rightarrow> fst n)"
  by (simp add: seq_def fst_bind)
lemma snd_seq: "snd (seq m n) = snd m @ (case fst m of Inl e \<Rightarrow> [] | Inr x \<Rightarrow> snd n)"
  by (simp add: seq_def snd_bind)

lemma disciplined_ret: "disciplined (ret x)"
  by (simp add: disciplined_def)

lemma disciplined_call:
  "\<not> is_io_imshow f \<Longrightarrow> \<not> is_region_getitem f \<Longrightarrow> disciplined (call f r)"
  by (cases r) (simp_all add: disciplined_def uncaught_def caught_def)

lemma disciplined_bind:
  assumes "disciplined m" and "\<And>x. disciplined (f x)"
  shows "disciplined (bind m f)"
proof (cases "fst m")
  case (Inl e)
  then show ?thesis using assms(1) by (simp add: disciplined_def fst_bind snd_bind)
next
  case (Inr x)
  have m: "list_all (\<lambda>ev. \<not> uncaught ev) (snd m)"
    using assms(1) Inr by (simp add: disciplined_def)
  show ?thesis
  proof (cases "fst (f x)")
    case (Inr y)
    then show ?thesis using m assms(2)[of x] \<open>fst m = Inr x\<close>
      by (simp add: disciplined_def fst_bind snd_bind)
  next
    case (Inl e)
    then have ne: "snd (f x) \<noteq> []" using assms(2)[of x] by (simp add: disciplined_def)
    then show ?thesis using m assms(2)[of x] \<open>fst m = Inr x\<close> Inl
      by (simp add: disciplined_def fst_bind snd_bind butlast_append)
  qed
qed

lemma stages_bind: "stages K m \<Longrightarrow> (\<And>x. stages K (f x)) \<Longrightarrow> stages K (bind m f)"
  by (auto simp: stages_def snd_bind split: sum.splits)

lemma ok_ret [ok_intros]: "ok K (ret x)"
  by (simp add: ok_def stages_def disciplined_ret)

lemma ok_call [ok_intros]:
  "stage_of f \<in> K \<Longrightarrow> \<not> is_io_imshow f \<Longrightarrow> \<not> is_region_getitem f \<Longrightarrow> ok K (call f r)"
  by (simp add: ok_def stages_def disciplined_call ev_stage_def)

lemma ok_bind [ok_intros]: "ok K m \<Longrightarrow> (\<And>x. ok K (f x)) \<Longrightarrow> ok K (bind m f)"
  by (simp add: ok_def stages_bind disciplined_bind)

lemma ok_seq [ok_intros]: "ok K m \<Longrightarrow> ok K n \<Longrightarrow> ok K (seq m n)"
  by (simp add: seq_def ok_bind)

lemma ok_for_acc [ok_intros]: "(\<And>x s. ok K (body x s)) \<Longrightarrow> ok K (for_acc xs body s)"
  by (induction xs arbitrary: s) (simp_all add: ok_ret ok_bind)

lemma ok_for_each [ok_intros]: "(\<And>x. ok K (body x)) \<Longrightarrow> ok K (for_each xs body)"
  by (simp add: for_each_def ok_for_acc)

lemma ok_case_prod [ok_intros]: "(\<And>a b. ok K (f a b)) \<Longrightarrow> ok K (case p of (a, b) \<Rightarrow> f a b)"
  by (cases p) simp

lemma ok_if [ok_intros]: "ok K a \<Longrightarrow> ok K b \<Longrightarrow> ok K (if c then a else b)"
  by simp

lemma ok_case_option [ok_intros]: "ok K a \<Longrightarrow> (\<And>x. ok K (f x)) \<Longrightarrow> ok K (case t of None \<Rightarrow> a | Some x \<Rightarrow> f x)"
  by (cases t) simp_all

lemma ok_callV [ok_intros]: "vol_stage c \<in> K \<Longrightarrow> ok K (callV L c)"
  by (simp add: callV_def ok_call is_io_imshow_def is_region_getitem_def)

lemma ok_callP [ok_intros]: "plane_stage c \<in> K \<Longrightarrow> ok K (callP L c)"
  by (simp add: callP_def ok_call is_io_imshow_def is_region_getitem_def)

lemma ok_callN [ok_intros]: "num_stage c \<in> K \<Longrightarrow> ok K (callN L c)"
  by (simp add: callN_def ok_call is_io_imshow_def is_region_getitem_def)

lemma ok_plt [ok_intros]: "Visualize \<in> K \<Longrightarrow> \<not> is_io_imshow (Plt c) \<Longrightarrow> ok K (plt L c)"
  by (simp add: plt_def ok_call is_region_getitem_def)

lemma ok_print_line [ok_intros]: "Glue \<in> K \<Longrightarrow> ok K (print_line s)"
  by (simp add: print_line_def ok_call is_io_imshow_def is_region_getitem_def)

lemma ok_np [ok_intros]: "Glue \<in> K \<Longrightarrow> ok K (call (Np c) r)"
  by (simp add: ok_call is_io_imshow_def is_region_getitem_def)


lemma ok_amin [ok_intros]: "{Glue} \<subseteq> K \<Longrightarrow> ok K (amin v)"
  unfolding amin_def 
  by (intro ok_intros; simp add: is_io_imshow_def is_region_getitem_def)

lemma ok_amax [ok_intros]: "{Glue} \<subseteq> K \<Longrightarrow> ok K (amax v)"
  unfolding amax_def 
  by (intro ok_intros; simp add: is_io_imshow_def is_region_getitem_def)

lemma ok_get_plane [ok_intros]: "{Glue} \<subseteq> K \<Longrightarrow> ok K (get_plane v i)"
  unfolding get_plane_def 
  by (intro ok_intros; simp add: is_io_imshow_def is_region_getitem_def)

lemma ok_get_row [ok_intros]: "{Glue} \<subseteq> K \<Longrightarrow> ok K (get_row v i)"
  unfolding get_row_def 
  by (intro ok_intros; simp add: is_io_imshow_def is_region_getitem_def)

lemma ok_get_col [ok_intros]: "{Glue} \<subseteq> K \<Longrightarrow> ok K (get_col v i)"
  unfolding get_col_def 
  by (intro ok_intros; simp add: is_io_imshow_def is_region_getitem_def)

lemma ok_side_view [ok_intros]: "{Glue} \<subseteq> K \<Longrightarrow> ok K (side_view v p0 r0 r1 j)"
  unfolding side_view_def 
  by (intro ok_intros; simp add: is_io_imshow_def is_region_getitem_def)

lemma ok_slice_step [ok_intros]: "{Glue} \<subseteq> K \<Longrightarrow> ok K (slice_step v step)"
  unfolding slice_step_def 
  by (intro ok_intros; simp add: is_io_imshow_def is_region_getitem_def)

lemma ok_set_plane [ok_intros]: "{Glue} \<subseteq> K \<Longrightarrow> ok K (set_plane L out k src)"
  unfolding set_plane_def 
  by (intro ok_intros; simp add: is_io_imshow_def is_region_getitem_def)

lemma ok_negative [ok_intros]: "{Glue} \<subseteq> K \<Longrightarrow> ok K (negative v)"
  unfolding negative_def 
  by (intro ok_intros; simp add: is_io_imshow_def is_region_getitem_def)

lemma ok_get_item [ok_intros]: "{Glue} \<subseteq> K \<Longrightarrow> ok K (get_item xs i)"
  unfolding get_item_def 
  by (intro ok_intros; simp add: is_io_imshow_def is_region_getitem_def)

lemma ok_fancy_index [ok_intros]: "{Glue} \<subseteq> K \<Longrightarrow> ok K (fancy_index verts faces)"
  unfolding fancy_index_def 
  by (intro ok_intros; simp add: is_io_imshow_def is_region_getitem_def)

lemma ok_unpack6 [ok_intros]: "{Glue} \<subseteq> K \<Longrightarrow> ok K (unpack6 xs)"
  unfolding unpack6_def 
  by (intro ok_intros; simp add: is_io_imshow_def is_region_getitem_def)

lemma ok_crop [ok_intros]: "{Glue} \<subseteq> K \<Longrightarrow> ok K (crop v i rows cols)"
  unfolding crop_def 
  by (intro ok_intros; simp add: is_io_imshow_def is_region_getitem_def)

lemma ok_show_plane [ok_intros]: "{Visualize} \<subseteq> K \<Longrightarrow> ok K (show_plane L ax pl cm title)"
  unfolding show_plane_def 
  by (intro ok_intros; simp add: is_io_imshow_def is_region_getitem_def)

lemma ok_display_panel [ok_intros]: "{Visualize} \<subseteq> K \<Longrightarrow> ok K (display_panel L cm vmin vmax p)"
  unfolding display_panel_def 
  by (intro ok_intros; simp add: is_io_imshow_def is_region_getitem_def)

lemma ok_display [ok_intros]: "{Visualize, Glue} \<subseteq> K \<Longrightarrow> ok K (display L im3d cm step)"
  unfolding display_def 
  by (intro ok_intros; simp add: is_io_imshow_def is_region_getitem_def)

lemma ok_plot_hist [ok_intros]: "{Visualize} \<subseteq> K \<Longrightarrow> ok K (plot_hist L ax v title)"
  unfolding plot_hist_def 
  by (intro ok_intros; simp add: is_io_imshow_def is_region_getitem_def)

lemma ok_get_cmap [ok_intros]: "{Visualize} \<subseteq> K \<Longrightarrow> ok K (get_cmap L labels)"
  unfolding get_cmap_def 
  by (intro ok_intros; simp add: is_io_imshow_def is_region_getitem_def)

lemma ok_cell_7 [ok_intros]: "{Visualize, Glue} \<subseteq> K \<Longrightarrow> ok K (cell_7 L v)"
  by (cases "plot_fn L (IoImshow v gray)"; cases "projl (plot_fn L (IoImshow v gray))")
     (simp_all add: cell_7_def try_except_def plt_def print_line_def ok_def stages_def
        disciplined_def ev_stage_def uncaught_def caught_def is_io_imshow_def
        is_type_error_def is_region_getitem_def)

lemma ok_probe [ok_intros]: "{Measure, Glue} \<subseteq> K \<Longrightarrow> ok K (probe L rs prop s)"
  by (cases "0 < length rs"; cases "region_getitem L (rs ! 0) prop";
      cases "projl (region_getitem L (rs ! 0) prop)")
     (simp_all add: probe_def try_except_def get_item_def ok_def stages_def fst_bind snd_bind
        fst_seq snd_seq disciplined_def ev_stage_def uncaught_def caught_def is_io_imshow_def
        is_not_implemented_def is_region_getitem_def)

lemma ok_cell_3 [ok_intros]: "{Load, Glue} \<subseteq> K \<Longrightarrow> ok K (cell_3 L)"
  unfolding cell_3_def 
  by (intro ok_intros; simp add: is_io_imshow_def is_region_getitem_def)

lemma ok_cell_5 [ok_intros]: "{Glue} \<subseteq> K \<Longrightarrow> ok K (cell_5 )"
  unfolding cell_5_def 
  by (intro ok_intros; simp add: is_io_imshow_def is_region_getitem_def)

lemma ok_cell_10 [ok_intros]: "{Visualize, Glue} \<subseteq> K \<Longrightarrow> ok K (cell_10 L v)"
  unfolding cell_10_def 
  by (intro ok_intros; simp add: is_io_imshow_def is_region_getitem_def)

lemma ok_cell_13 [ok_intros]: "{Visualize, Glue} \<subseteq> K \<Longrightarrow> ok K (cell_13 L v)"
  unfolding cell_13_def 
  by (intro ok_intros; simp add: is_io_imshow_def is_region_getitem_def)

lemma ok_cell_17 [ok_intros]: "{Contrast, Visualize, Glue} \<subseteq> K \<Longrightarrow> ok K (cell_17 L v)"
  unfolding cell_17_def 
  by (intro ok_intros; simp add: is_io_imshow_def is_region_getitem_def)

lemma ok_plot_cdf [ok_intros]: "{Contrast, Visualize} \<subseteq> K \<Longrightarrow> ok K (plot_cdf L ax v title)"
  unfolding plot_cdf_def 
  by (intro ok_intros; simp add: is_io_imshow_def is_region_getitem_def)

lemma ok_cell_19 [ok_intros]: "{Contrast, Visualize, Glue} \<subseteq> K \<Longrightarrow> ok K (cell_19 L v)"
  unfolding cell_19_def 
  by (intro ok_intros; simp add: is_io_imshow_def is_region_getitem_def)

lemma ok_cell_21 [ok_intros]: "{Contrast, Visualize, Glue} \<subseteq> K \<Longrightarrow> ok K (cell_21 L v)"
  unfolding cell_21_def 
  by (intro ok_intros; simp add: is_io_imshow_def is_region_getitem_def)

lemma ok_cell_22 [ok_intros]: "{} \<subseteq> K \<Longrightarrow> ok K (cell_22 v)"
  unfolding cell_22_def 
  by (intro ok_intros; simp add: is_io_imshow_def is_region_getitem_def)

lemma ok_planewise_step [ok_intros]: "{plane_stage (f (snd p)), Glue} \<subseteq> K \<Longrightarrow> ok K (planewise_step L f p out)"
  unfolding planewise_step_def 
  by (intro ok_intros; simp add: is_io_imshow_def is_region_getitem_def)

lemma ok_planewise [ok_intros]: "(\<And>pl. plane_stage (f pl) \<in> K) \<Longrightarrow> Glue \<in> K \<Longrightarrow> ok K (planewise L f src)"
  unfolding planewise_def planewise_step_def
  by (intro ok_intros; simp add: is_io_imshow_def is_region_getitem_def)

lemma ok_cell_24 [ok_intros]: "{Edge, Visualize, Glue} \<subseteq> K \<Longrightarrow> ok K (cell_24 L v)"
  unfolding cell_24_def 
  by (intro ok_intros; simp add: is_io_imshow_def is_region_getitem_def)

lemma ok_cell_25 [ok_intros]: "{Edge, Visualize, Glue} \<subseteq> K \<Longrightarrow> ok K (cell_25 L v w)"
  unfolding cell_25_def 
  by (intro ok_intros; simp add: is_io_imshow_def is_region_getitem_def)

lemma ok_cell_27 [ok_intros]: "{Denoise, Visualize, Glue} \<subseteq> K \<Longrightarrow> ok K (cell_27 L sp v)"
  unfolding cell_27_def 
  by (intro ok_intros; simp add: is_io_imshow_def is_region_getitem_def)

lemma ok_cell_29 [ok_intros]: "{Denoise, Visualize, Glue} \<subseteq> K \<Longrightarrow> ok K (cell_29 L v)"
  unfolding cell_29_def 
  by (intro ok_intros; simp add: is_io_imshow_def is_region_getitem_def)

lemma ok_cell_31 [ok_intros]: "{Denoise, Visualize, Glue} \<subseteq> K \<Longrightarrow> ok K (cell_31 L v)"
  unfolding cell_31_def 
  by (intro ok_intros; simp add: is_io_imshow_def is_region_getitem_def)

lemma ok_cell_32 [ok_intros]: "{Visualize, Glue} \<subseteq> K \<Longrightarrow> ok K (cell_32 L a b c d)"
  unfolding cell_32_def 
  by (intro ok_intros; simp add: is_io_imshow_def is_region_getitem_def)

lemma ok_cell_33 [ok_intros]: "{} \<subseteq> K \<Longrightarrow> ok K (cell_33 v)"
  unfolding cell_33_def 
  by (intro ok_intros; simp add: is_io_imshow_def is_region_getitem_def)

lemma ok_cell_35 [ok_intros]: "{Threshold, Visualize, Glue} \<subseteq> K \<Longrightarrow> ok K (cell_35 L v)"
  unfolding cell_35_def 
  by (intro ok_intros; simp add: is_io_imshow_def is_region_getitem_def)

lemma ok_cell_36 [ok_intros]: "{Visualize, Glue} \<subseteq> K \<Longrightarrow> ok K (cell_36 L v)"
  unfolding cell_36_def 
  by (intro ok_intros; simp add: is_io_imshow_def is_region_getitem_def)

lemma ok_cell_39 [ok_intros]: "{Morphology, Glue} \<subseteq> K \<Longrightarrow> ok K (cell_39 L)"
  unfolding cell_39_def 
  by (intro ok_intros; simp add: is_io_imshow_def is_region_getitem_def)

lemma ok_show_plane_32 [ok_intros]: "{Visualize, Glue} \<subseteq> K \<Longrightarrow> ok K (show_plane_32 L ax v cm title)"
  unfolding show_plane_32_def 
  by (intro ok_intros; simp add: is_io_imshow_def is_region_getitem_def)

lemma ok_cell_41 [ok_intros]: "{Morphology, Visualize, Glue} \<subseteq> K \<Longrightarrow> ok K (cell_41 L v w)"
  unfolding cell_41_def 
  by (intro ok_intros; simp add: is_io_imshow_def is_region_getitem_def)

lemma ok_despeckle [ok_intros]: "{Morphology} \<subseteq> K \<Longrightarrow> ok K (despeckle L v r)"
  unfolding despeckle_def 
  by (intro ok_intros; simp add: is_io_imshow_def is_region_getitem_def)

lemma ok_cell_43 [ok_intros]: "{Threshold, Morphology, Visualize, Glue} \<subseteq> K \<Longrightarrow> ok K (cell_43 L v)"
  unfolding cell_43_def 
  by (intro ok_intros; simp add: is_io_imshow_def is_region_getitem_def)

lemma ok_cell_45 [ok_intros]: "{Cleanup, Visualize, Glue} \<subseteq> K \<Longrightarrow> ok K (cell_45 L v)"
  unfolding cell_45_def 
  by (intro ok_intros; simp add: is_io_imshow_def is_region_getitem_def)

lemma ok_cell_46 [ok_intros]: "{Cleanup, Visualize, Glue} \<subseteq> K \<Longrightarrow> ok K (cell_46 L v)"
  unfolding cell_46_def 
  by (intro ok_intros; simp add: is_io_imshow_def is_region_getitem_def)

lemma ok_cell_50 [ok_intros]: "{Labelling, Visualize, Glue} \<subseteq> K \<Longrightarrow> ok K (cell_50 L v)"
  unfolding cell_50_def 
  by (intro ok_intros; simp add: is_io_imshow_def is_region_getitem_def)

lemma ok_show_crop [ok_intros]: "{Visualize, Glue} \<subseteq> K \<Longrightarrow> ok K (show_crop L ax v i rows cols cm title)"
  unfolding show_crop_def 
  by (intro ok_intros; simp add: is_io_imshow_def is_region_getitem_def)

lemma ok_show_crop_eq [ok_intros]: "{Visualize, Glue} \<subseteq> K \<Longrightarrow> ok K (show_crop_eq L ax v i rows cols n title)"
  unfolding show_crop_eq_def 
  by (intro ok_intros; simp add: is_io_imshow_def is_region_getitem_def)

lemma ok_cell_52 [ok_intros]: "{Visualize, Glue} \<subseteq> K \<Longrightarrow> ok K (cell_52 L a b c d)"
  unfolding cell_52_def 
  by (intro ok_intros; simp add: is_io_imshow_def is_region_getitem_def)

lemma ok_cell_54 [ok_intros]: "{Labelling, Seeds, WatershedSeg, Visualize, Glue} \<subseteq> K \<Longrightarrow> ok K (cell_54 L v w)"
  unfolding cell_54_def 
  by (intro ok_intros; simp add: is_io_imshow_def is_region_getitem_def)

lemma ok_cell_56 [ok_intros]: "{Visualize, Glue} \<subseteq> K \<Longrightarrow> ok K (cell_56 L a b c)"
  unfolding cell_56_def 
  by (intro ok_intros; simp add: is_io_imshow_def is_region_getitem_def)

lemma ok_cell_58 [ok_intros]: "{Visualize, Glue} \<subseteq> K \<Longrightarrow> ok K (cell_58 L a b)"
  unfolding cell_58_def 
  by (intro ok_intros; simp add: is_io_imshow_def is_region_getitem_def)

lemma ok_cell_60_body [ok_intros]: "{Visualize, Glue} \<subseteq> K \<Longrightarrow> ok K (cell_60_body L a b c d p)"
  unfolding cell_60_body_def 
  by (intro ok_intros; simp add: is_io_imshow_def is_region_getitem_def)

lemma ok_cell_60 [ok_intros]: "{Visualize, Glue} \<subseteq> K \<Longrightarrow> ok K (cell_60 L a b)"
  unfolding cell_60_def 
  by (intro ok_intros; simp add: is_io_imshow_def is_region_getitem_def)

lemma ok_show_side [ok_intros]: "{Visualize, Glue} \<subseteq> K \<Longrightarrow> ok K (show_side L ax v p0 r0 r1 j)"
  unfolding show_side_def 
  by (intro ok_intros; simp add: is_io_imshow_def is_region_getitem_def)

lemma ok_cell_61 [ok_intros]: "{Visualize, Glue} \<subseteq> K \<Longrightarrow> ok K (cell_61 L a b)"
  unfolding cell_61_def 
  by (intro ok_intros; simp add: is_io_imshow_def is_region_getitem_def)

lemma ok_cell_64 [ok_intros]: "{Measure, Visualize, Glue} \<subseteq> K \<Longrightarrow> ok K (cell_64 L v)"
  unfolding cell_64_def 
  by (intro ok_intros; simp add: is_io_imshow_def is_region_getitem_def)

lemma ok_cell_66 [ok_intros]: "{Measure, Glue} \<subseteq> K \<Longrightarrow> ok K (cell_66 L v)"
  unfolding cell_66_def 
  by (intro ok_intros; simp add: is_io_imshow_def is_region_getitem_def)

lemma ok_cell_68 [ok_intros]: "{Measure, Glue} \<subseteq> K \<Longrightarrow> ok K (cell_68 L v w)"
  unfolding cell_68_def 
  by (intro ok_intros; simp add: is_io_imshow_def is_region_getitem_def)

lemma ok_collect [ok_intros]: "(\<And>x. ok K (f x)) \<Longrightarrow> ok K (collect f xs)"
  unfolding collect_def
  by (intro ok_intros; simp)

lemma ok_cell_70 [ok_intros]: "{Measure, Glue} \<subseteq> K \<Longrightarrow> ok K (cell_70 L rs)"
  unfolding cell_70_def 
  by (intro ok_intros; simp add: is_io_imshow_def is_region_getitem_def)

lemma ok_cell_72 [ok_intros]: "{Measure, Glue} \<subseteq> K \<Longrightarrow> ok K (cell_72 L rs)"
  unfolding cell_72_def 
  by (intro ok_intros; simp add: is_io_imshow_def is_region_getitem_def)

lemma ok_cell_74 [ok_intros]: "{Measure, Glue} \<subseteq> K \<Longrightarrow> ok K (cell_74 L xs)"
  unfolding cell_74_def 
  by (intro ok_intros; simp add: is_io_imshow_def is_region_getitem_def)

lemma ok_cell_76 [ok_intros]: "{Measure, Glue} \<subseteq> K \<Longrightarrow> ok K (cell_76 L sp v rs)"
  unfolding cell_76_def 
  by (intro ok_intros; simp add: is_io_imshow_def is_region_getitem_def)

lemma ok_cell_78 [ok_intros]: "{Measure, Visualize, Glue} \<subseteq> K \<Longrightarrow> ok K (cell_78 L vs fs rs)"
  unfolding cell_78_def 
  by (intro ok_intros; simp add: is_io_imshow_def is_region_getitem_def)


section \<open>The order of the stages\<close>

lemma seg_Nil [simp]: "seg K []" by (simp add: seg_def)

lemma list_all2_seg_Nil: "list_all2 seg Ks (replicate (length Ks) [])"
  by (induction Ks) simp_all

lemma decomp_ret: "decomp [] (ret x)"
  by (simp add: decomp_def)

lemma decomp_single: "ok K m \<Longrightarrow> decomp [K] m"
  unfolding decomp_def ok_def stages_def
  by (rule exI[of _ "[snd m]"]) (simp add: seg_def)

lemma decomp_bind:
  assumes "ok K m" and "\<And>x. decomp Ks (f x)"
  shows "decomp (K # Ks) (bind m f)"
proof (cases "fst m")
  case (Inl e)
  have "list_all2 seg (K # Ks) (snd m # replicate (length Ks) [])"
    using assms(1) by (simp add: list_all2_seg_Nil ok_def stages_def seg_def)
  moreover have "snd (bind m f) = concat (snd m # replicate (length Ks) [])"
    using Inl by (simp add: snd_bind)
  ultimately show ?thesis unfolding decomp_def by blast
next
  case (Inr x)
  obtain ts where ts: "list_all2 seg Ks ts" "snd (f x) = concat ts"
    using assms(2)[of x] unfolding decomp_def by blast
  have "list_all2 seg (K # Ks) (snd m # ts)"
    using assms(1) ts(1) by (simp add: ok_def stages_def seg_def)
  moreover have "snd (bind m f) = concat (snd m # ts)"
    using Inr ts(2) by (simp add: snd_bind)
  ultimately show ?thesis unfolding decomp_def by blast
qed

lemma decomp_same:
  assumes "ok K m" and "\<And>x. decomp (K # Ks) (f x)"
  shows "decomp (K # Ks) (bind m f)"
proof (cases "fst m")
  case (Inl e)
  have "list_all2 seg (K # Ks) (snd m # replicate (length Ks) [])"
    using assms(1) by (simp add: list_all2_seg_Nil ok_def stages_def seg_def)
  moreover have "snd (bind m f) = concat (snd m # replicate (length Ks) [])"
    using Inl by (simp add: snd_bind)
  ultimately show ?thesis unfolding decomp_def by blast
next
  case (Inr x)
  obtain ts where ts: "list_all2 seg (K # Ks) ts" "snd (f x) = concat ts"
    using assms(2)[of x] unfolding decomp_def by blast
  then obtain t ts' where tt: "ts = t # ts'" "seg K t" "list_all2 seg Ks ts'"
    by (cases ts) auto
  have "list_all2 seg (K # Ks) ((snd m @ t) # ts')"
    using assms(1) tt by (auto simp: ok_def stages_def seg_def)
  moreover have "snd (bind m f) = concat ((snd m @ t) # ts')"
    using Inr ts(2) tt(1) by (simp add: snd_bind)
  ultimately show ?thesis unfolding decomp_def by blast
qed

lemma decomp_seq: "ok K m \<Longrightarrow> decomp Ks n \<Longrightarrow> decomp (K # Ks) (seq m n)"
  by (simp add: seq_def decomp_bind)

lemma decomp_case_prod: "(\<And>a b. decomp Ks (f a b)) \<Longrightarrow> decomp Ks (case p of (a, b) \<Rightarrow> f a b)"
  by (cases p) simp

lemma decomp_cell_54:
  "decomp [{Labelling, Seeds, Glue}, {WatershedSeg, Visualize, Glue}] (cell_54 L v w)"
  unfolding cell_54_def
  apply (rule decomp_same, rule ok_callV, simp)
  apply (rule decomp_same, rule ok_callV, simp)
  apply (rule decomp_same, rule ok_callV, simp)
  apply (rule decomp_same, rule ok_callV, simp)
  apply (rule decomp_bind, rule ok_negative, simp)
  apply (rule decomp_single)
  apply (intro ok_intros; simp)
  done

lemma decomp_bind_two:
  assumes "decomp [K1, K2] m" and "\<And>x. decomp Ks (f x)"
  shows "decomp (K1 # K2 # Ks) (bind m f)"
proof -
  obtain t1 t2 where t: "seg K1 t1" "seg K2 t2" "snd m = t1 @ t2"
    using assms(1) unfolding decomp_def by (auto simp: list_all2_Cons1)
  show ?thesis
  proof (cases "fst m")
    case (Inl e)
    have "list_all2 seg (K1 # K2 # Ks) (t1 # t2 # replicate (length Ks) [])"
      using t by (simp add: list_all2_seg_Nil)
    moreover have "snd (bind m f) = concat (t1 # t2 # replicate (length Ks) [])"
      using Inl t by (simp add: snd_bind)
    ultimately show ?thesis unfolding decomp_def by blast
  next
    case (Inr x)
    obtain ts where ts: "list_all2 seg Ks ts" "snd (f x) = concat ts"
      using assms(2)[of x] unfolding decomp_def by blast
    have "list_all2 seg (K1 # K2 # Ks) (t1 # t2 # ts)"
      using t ts(1) by simp
    moreover have "snd (bind m f) = concat (t1 # t2 # ts)"
      using Inr ts(2) t by (simp add: snd_bind)
    ultimately show ?thesis unfolding decomp_def by blast
  qed
qed

lemmas decomp_bind_54 = decomp_bind_two[OF decomp_cell_54]

lemma decomp_notebook: "decomp cell_stages (notebook L)"
  unfolding notebook_def cell_stages_def
  by (intro decomp_bind_54 decomp_bind decomp_seq decomp_case_prod decomp_ret ok_intros; simp)

lemma ok_notebook: "ok UNIV (notebook L)"
  unfolding notebook_def
  by (intro ok_intros; simp)

lemma precedes_Nil [simp]: "precedes a b []"
  by (simp add: precedes_def)

lemma precedes_append:
  assumes "precedes a b t1" and "precedes a b t2"
    and "(\<forall>x\<in>set t1. ev_stage x \<noteq> b) \<or> (\<forall>y\<in>set t2. ev_stage y \<noteq> a)"
  shows "precedes a b (t1 @ t2)"
  unfolding precedes_def
proof (intro allI impI)
  fix i j
  assume i: "i < length (t1 @ t2)" and j: "j < length (t1 @ t2)"
    and st: "ev_stage ((t1 @ t2) ! i) = a \<and> ev_stage ((t1 @ t2) ! j) = b"
  show "i < j"
  proof (cases "i < length t1")
    case i1: True
    show ?thesis
    proof (cases "j < length t1")
      case True
      then show ?thesis using assms(1) i1 st by (simp add: precedes_def nth_append)
    next
      case False
      then show ?thesis using i1 by simp
    qed
  next
    case i2: False
    show ?thesis
    proof (cases "j < length t1")
      case True
      then have "t1 ! j \<in> set t1" "ev_stage (t1 ! j) = b" using st by (simp_all add: nth_append)
      moreover have "t2 ! (i - length t1) \<in> set t2" "ev_stage (t2 ! (i - length t1)) = a"
        using i2 i st by (simp_all add: nth_append)
      ultimately show ?thesis using assms(3) by blast
    next
      case False
      then have "i - length t1 < j - length t1"
        using assms(2) i2 i j st by (simp add: precedes_def nth_append)
      then show ?thesis by simp
    qed
  qed
qed

lemma precedes_free:
  "(\<forall>x\<in>set t. ev_stage x \<noteq> a) \<or> (\<forall>x\<in>set t. ev_stage x \<noteq> b) \<Longrightarrow> precedes a b t"
  unfolding precedes_def by (metis nth_mem)

lemma seg_free:
  "list_all2 seg Ks ts \<Longrightarrow> list_all (\<lambda>K'. a \<notin> K') Ks
     \<Longrightarrow> \<forall>t'\<in>set ts. \<forall>y\<in>set t'. ev_stage y \<noteq> a"
  by (induction Ks ts rule: list_all2_induct) (auto simp: seg_def)

lemma no_back_precedes:
  "list_all2 seg Ks ts \<Longrightarrow> no_back a b Ks \<Longrightarrow> precedes a b (concat ts)"
proof (induction Ks ts rule: list_all2_induct)
  case Nil
  then show ?case by simp
next
  case (Cons K Ks t ts)
  have rest: "precedes a b (concat ts)" using Cons by simp
  have here: "precedes a b t"
    using Cons.hyps(1) Cons.prems by (intro precedes_free) (auto simp: seg_def)
  have "(\<forall>x\<in>set t. ev_stage x \<noteq> b) \<or> (\<forall>y\<in>set (concat ts). ev_stage y \<noteq> a)"
  proof (cases "b \<in> K")
    case False
    then show ?thesis using Cons.hyps(1) by (auto simp: seg_def)
  next
    case True
    then have "list_all (\<lambda>K'. a \<notin> K') Ks" using Cons.prems by simp
    then have "\<forall>t'\<in>set ts. \<forall>y\<in>set t'. ev_stage y \<noteq> a"
      using Cons.hyps(2) by (rule seg_free[rotated])
    then show ?thesis by auto
  qed
  then show ?case using here rest by (simp add: precedes_append)
qed

lemma notebook_precedes: "no_back a b cell_stages \<Longrightarrow> precedes a b (snd (notebook L))"
  using decomp_notebook[of L] unfolding decomp_def by (auto intro: no_back_precedes)

lemma order_facts:
  "precedes Contrast Edge (snd (notebook L))"
  "precedes Edge Denoise (snd (notebook L))"
  "precedes Denoise Threshold (snd (notebook L))"
  "precedes Threshold Cleanup (snd (notebook L))"
  "precedes Cleanup Labelling (snd (notebook L))"
  "precedes Labelling WatershedSeg (snd (notebook L))"
  "precedes WatershedSeg Measure (snd (notebook L))"
  by (rule notebook_precedes, simp add: cell_stages_def)+


section \<open>Runs that return\<close>

named_theorems runs

lemma fst_print_line [runs]: "fst (print_line s) = Inr ()"
  by (simp add: print_line_def)

lemma fst_plt [runs]: "plots_return L \<Longrightarrow> \<not> is_io_imshow (Plt c) \<Longrightarrow> fst (plt L c) = Inr ()"
  by (simp add: plt_def plots_return_def)

lemma fst_callV [runs]: "fst (callV L c) = vol_fn L c" by (simp add: callV_def)
lemma fst_callP [runs]: "fst (callP L c) = plane_fn L c" by (simp add: callP_def)
lemma fst_callN [runs]: "fst (callN L c) = num_fn L c" by (simp add: callN_def)

lemma fst_amin [runs]: "flat v \<noteq> [] \<Longrightarrow> fst (amin v) = Inr (min_px (flat v))"
  by (simp add: amin_def amin_px_def)

lemma fst_amax [runs]: "flat v \<noteq> [] \<Longrightarrow> fst (amax v) = Inr (max_px (flat v))"
  by (simp add: amax_def amax_px_def)

lemma fst_get_plane [runs]: "i < length v \<Longrightarrow> fst (get_plane v i) = Inr (v ! i)"
  by (simp add: get_plane_def)

lemma fst_get_row [runs]: "list_all (\<lambda>pl. i < length pl) v \<Longrightarrow> fst (get_row v i) = Inr (map (\<lambda>pl. pl ! i) v)"
  by (simp add: get_row_def)

lemma fst_get_col [runs]: "col_in_range v j \<Longrightarrow> fst (get_col v j) = Inr (map (map (\<lambda>row. row ! j)) v)"
  by (simp add: get_col_def)

lemma fst_side_view [runs]:
  "col_in_range v j \<Longrightarrow>
     fst (side_view v p0 r0 r1 j) = Inr (map (\<lambda>pl. map (\<lambda>row. row ! j) (slice r0 r1 pl)) (drop p0 v))"
  by (simp add: side_view_def)

lemma fst_crop [runs]: "i < length v \<Longrightarrow> fst (crop v i rows cols) = Inr (map cols (rows (v ! i)))"
  by (simp add: crop_def fst_bind fst_get_plane)

lemma fst_slice_step [runs]: "0 < step \<Longrightarrow> fst (slice_step v step) = Inr (every (nat step) v)"
  by (simp add: slice_step_def)

lemma fst_get_item [runs]: "i < length xs \<Longrightarrow> fst (get_item xs i) = Inr (xs ! i)"
  by (simp add: get_item_def)

lemma fst_for_acc_unit:
  "(\<And>x s. x \<in> set xs \<Longrightarrow> fst (body x s) = Inr ()) \<Longrightarrow> fst (for_acc xs body s) = Inr ()"
  by (induction xs arbitrary: s) (simp_all add: fst_bind)

lemma fst_for_each [runs]:
  "(\<And>x. x \<in> set xs \<Longrightarrow> fst (body x) = Inr ()) \<Longrightarrow> fst (for_each xs body) = Inr ()"
  by (simp add: for_each_def fst_for_acc_unit)

lemma fst_show_plane [runs]: "plots_return L \<Longrightarrow> fst (show_plane L ax pl cm title) = Inr ()"
  by (cases title) (simp_all add: show_plane_def fst_seq fst_plt is_io_imshow_def)

lemma fst_plot_hist [runs]: "plots_return L \<Longrightarrow> fst (plot_hist L ax v title) = Inr ()"
  by (cases title) (simp_all add: plot_hist_def fst_seq fst_plt is_io_imshow_def)

lemma fst_display_panel [runs]: "plots_return L \<Longrightarrow> fst (display_panel L cm lo hi p) = Inr ()"
  by (simp add: display_panel_def fst_seq fst_plt is_io_imshow_def)

lemma fst_display [runs]:
  "plots_return L \<Longrightarrow> flat v \<noteq> [] \<Longrightarrow> 0 < step \<Longrightarrow> fst (display L v cm step) = Inr ()"
  by (simp add: display_def fst_seq fst_bind runs is_io_imshow_def)

lemma fst_get_cmap [runs]:
  "plots_return L \<Longrightarrow>
     fst (get_cmap L labels) = Inr (masked_where (eq_vol labels 0) labels, Cmap ''viridis'' (Some ''black''))"
  by (simp add: get_cmap_def fst_seq fst_plt is_io_imshow_def)

lemma fst_show_plane_32 [runs]:
  "plots_return L \<Longrightarrow> 32 < length v \<Longrightarrow> fst (show_plane_32 L ax v cm title) = Inr ()"
  by (simp add: show_plane_32_def fst_bind runs)

lemma fst_show_crop [runs]:
  "plots_return L \<Longrightarrow> i < length v \<Longrightarrow> fst (show_crop L ax v i rows cols cm title) = Inr ()"
  by (simp add: show_crop_def fst_bind runs)

lemma fst_show_crop_eq [runs]:
  "plots_return L \<Longrightarrow> i < length v \<Longrightarrow> fst (show_crop_eq L ax v i rows cols n title) = Inr ()"
  by (simp add: show_crop_eq_def fst_bind runs)

lemma fst_show_side [runs]:
  "plots_return L \<Longrightarrow> col_in_range v j \<Longrightarrow> fst (show_side L ax v p0 r0 r1 j) = Inr ()"
  by (simp add: show_side_def fst_bind runs)

text \<open>Constant volumes\<close>

lemma length_cvol [simp]: "length (cvol a b c x) = a"
  by (simp add: cvol_def)

lemma nth_cvol [simp]: "i < a \<Longrightarrow> cvol a b c x ! i = replicate b (replicate c x)"
  by (simp add: cvol_def)

lemma rows_cvol [simp]: "list_all (\<lambda>pl. i < length pl) (cvol a b c x) = (a = 0 \<or> i < b)"
  by (auto simp: cvol_def list_all_iff)

lemma cols_cvol [simp]: "col_in_range (cvol a b c x) j = (a = 0 \<or> b = 0 \<or> j < c)"
  by (auto simp: cvol_def col_in_range_def list_all_iff)

lemma concat_replicate_replicate: "concat (replicate n (replicate m x)) = replicate (n * m) x"
  by (induction n) (simp_all add: replicate_add)

lemma flat_cvol [simp]: "flat (cvol a b c x) = replicate (a * b * c) x"
  by (simp add: flat_def cvol_def concat_replicate_replicate map_replicate_const
      flip: map_concat)


lemma bind_InrE:
  assumes "fst (bind m f) = Inr y"
  obtains x where "fst m = Inr x" and "fst (f x) = Inr y"
  using assms by (cases "fst m") (simp_all add: fst_bind)

lemma seq_InrE:
  assumes "fst (seq m n) = Inr y"
  obtains x where "fst m = Inr x" and "fst n = Inr y"
  using assms by (cases "fst m") (simp_all add: fst_seq)

lemma set_plane_InrE:
  assumes "fst (set_plane L out k src) = Inr out1"
  obtains pl where "k < length out" and "assign_plane L (out ! k) src = Some pl" and "out1 = out[k := pl]"
  using assms by (auto simp: set_plane_def split: if_splits option.splits)

lemma planewise_step_InrE:
  assumes "fst (planewise_step L f (k, x) out) = Inr out1"
  obtains res pl where "plane_fn L (f x) = Inr res" and "k < length out"
    and "assign_plane L (out ! k) res = Some pl" and "out1 = out[k := pl]"
proof -
  from assms obtain res where r: "fst (callP L (f x)) = Inr res" "fst (set_plane L out k res) = Inr out1"
    unfolding planewise_step_def by (auto elim: bind_InrE)
  from r(2) obtain pl where "k < length out" "assign_plane L (out ! k) res = Some pl" "out1 = out[k := pl]"
    by (rule set_plane_InrE)
  with r(1) that show ?thesis by (simp add: callP_def)
qed

lemma planewise_loop_result:
  "fst (for_acc (enumerate k xs) (planewise_step L f) out) = Inr out' \<Longrightarrow>
     length out' = length out
     \<and> (\<forall>i<length xs. k + i < length out
           \<and> (\<exists>res. plane_fn L (f (xs ! i)) = Inr res
                 \<and> assign_plane L (out ! (k + i)) res = Some (out' ! (k + i))))
     \<and> (\<forall>j<length out. j < k \<or> k + length xs \<le> j \<longrightarrow> out' ! j = out ! j)"
proof (induction xs arbitrary: k out)
  case Nil
  then show ?case by simp
next
  case (Cons x xs)
  from Cons.prems obtain out1 where
    s1: "fst (planewise_step L f (k, x) out) = Inr out1"
    and s2: "fst (for_acc (enumerate (Suc k) xs) (planewise_step L f) out1) = Inr out'"
    by (auto elim: bind_InrE)
  from s1 obtain res pl where st: "plane_fn L (f x) = Inr res" "k < length out"
    "assign_plane L (out ! k) res = Some pl" "out1 = out[k := pl]"
    by (rule planewise_step_InrE)
  note ih = Cons.IH[OF s2]
  have len1: "length out1 = length out" using st(4) by simp
  have len: "length out' = length out" using ih len1 by simp
  have ih3: "\<forall>j<length out1. j < Suc k \<or> Suc k + length xs \<le> j \<longrightarrow> out' ! j = out1 ! j"
    using ih by blast
  have keep: "\<And>j. j < length out \<Longrightarrow> j < Suc k \<or> Suc k + length xs \<le> j \<Longrightarrow> out' ! j = out1 ! j"
    using ih3 len1 by metis
  have k: "out' ! k = pl" using keep[of k] st by simp
  show ?case
  proof (intro conjI allI impI)
    show "length out' = length out" by (rule len)
  next
    fix i assume i: "i < length (x # xs)"
    show "k + i < length out"
    proof (cases i)
      case 0 then show ?thesis using st(2) by simp
    next
      case (Suc i') then show ?thesis using ih i st(4) by simp
    qed
    show "\<exists>res. plane_fn L (f ((x # xs) ! i)) = Inr res
            \<and> assign_plane L (out ! (k + i)) res = Some (out' ! (k + i))"
    proof (cases i)
      case 0 then show ?thesis using st k by auto
    next
      case (Suc i')
      then have "i' < length xs" using i by simp
      then obtain r where "plane_fn L (f (xs ! i')) = Inr r"
        "assign_plane L (out1 ! (Suc k + i')) r = Some (out' ! (Suc k + i'))"
        using ih by blast
      then show ?thesis using Suc st(4) by auto
    qed
  next
    fix j assume j: "j < length out" "j < k \<or> k + length (x # xs) \<le> j"
    then have "out' ! j = out1 ! j" using keep[of j] by auto
    then show "out' ! j = out ! j" using j st(4) by auto
  qed
qed

lemma map_filter_append: "List.map_filter g (xs @ ys) = List.map_filter g xs @ List.map_filter g ys"
  by (simp add: List.map_filter_def)

lemma those_eq_Some: "those xs = Some ys \<longleftrightarrow> xs = map Some ys"
  by (induction xs arbitrary: ys) (auto split: option.splits)

lemma bcast_row_same: "length src = length old \<Longrightarrow> bcast_row old src = Some src"
  by (simp add: bcast_row_def)

lemma bcast_row_length: "bcast_row old src = Some r \<Longrightarrow> length r = length old"
  by (auto simp: bcast_row_def split: if_splits)

lemma map_bcast_rows:
  "map Some pl = map (\<lambda>row. bcast_row row s) old \<Longrightarrow> map length pl = map length old"
proof (induction old arbitrary: pl)
  case Nil
  then show ?case by simp
next
  case (Cons r old)
  then obtain q pl' where "pl = q # pl'" by (cases pl) auto
  then show ?case using Cons by (auto dest: bcast_row_length[OF sym])
qed

lemma map2_bcast_rows:
  "length src = length old \<Longrightarrow> map Some pl = map2 bcast_row old src \<Longrightarrow> map length pl = map length old"
proof (induction src old arbitrary: pl rule: list_induct2)
  case Nil
  then show ?case by simp
next
  case (Cons s src r old)
  then obtain q pl' where "pl = q # pl'" by (cases pl) auto
  then show ?case using Cons by (auto dest: bcast_row_length[OF sym])
qed

lemma bcast_plane_shape:
  assumes "bcast_plane old src = Some pl"
  shows "map length pl = map length old"
proof (cases "length src = length old")
  case True
  then have "map Some pl = map2 bcast_row old src"
    using assms by (simp add: bcast_plane_def those_eq_Some)
  then show ?thesis using True by (intro map2_bcast_rows)
next
  case False
  then have "map Some pl = map (\<lambda>row. bcast_row row (hd src)) old"
    using assms by (auto simp: bcast_plane_def those_eq_Some split: if_splits)
  then show ?thesis by (rule map_bcast_rows)
qed

lemma map2_bcast_row_same:
  "map length src = map length old \<Longrightarrow> map2 bcast_row old src = map Some src"
proof (induction src arbitrary: old)
  case Nil
  then show ?case by simp
next
  case (Cons s src)
  then obtain o' old' where "old = o' # old'" by (cases old) auto
  then show ?case using Cons by (simp add: bcast_row_same)
qed

lemma bcast_plane_same: "map length src = map length old \<Longrightarrow> bcast_plane old src = Some src"
  using map_eq_imp_length_eq[of length src length old]
  by (simp add: bcast_plane_def map2_bcast_row_same those_eq_Some)

lemma map2_map_same: "(\<And>x. g (h x) x = x) \<Longrightarrow> map2 g (map h xs) xs = xs"
  by (induction xs) simp_all

lemma assign_plane_shape:
  assumes "assign_plane L old src = Some pl"
  shows "map length pl = map length old"
proof -
  from assms obtain b where b: "bcast_plane old src = Some b"
    and pl: "pl = map2 (map2 (store_px L)) old b"
    by (auto simp: assign_plane_def)
  have "map length (map2 (map2 g) ys zs) = map length ys" if "map length zs = map length ys"
    for g :: "px \<Rightarrow> px \<Rightarrow> px" and ys zs :: plane
    using that
  proof (induction ys arbitrary: zs)
    case Nil
    then show ?case by simp
  next
    case (Cons y ys)
    then obtain z zs' where "zs = z # zs'" by (cases zs) auto
    then show ?case using Cons by simp
  qed
  then show ?thesis using bcast_plane_shape[OF b] pl by simp
qed

lemma px_dtype_mk [simp]: "px_dtype (mk_px d q) = Some d"
  by (cases d) simp_all

lemma px_dtype_empty [simp]: "px_dtype (empty_px L x) = px_dtype x"
  by (cases x) (simp_all add: empty_px_def)

lemma store_px_empty: "store_px L (empty_px L old) x = store_px L old x"
  by (simp add: store_px_def)

lemma map2_map1_cong:
  "(\<And>x y. f (g x) y = f x y) \<Longrightarrow> map2 f (map g xs) ys = map2 f xs ys"
proof (induction xs arbitrary: ys)
  case Nil
  then show ?case by simp
next
  case (Cons x xs)
  then show ?case by (cases ys) simp_all
qed

lemma bcast_row_map: "bcast_row (map g old) src = bcast_row old src"
  by (simp add: bcast_row_def)

lemma bcast_plane_map: "bcast_plane (map (map g) old) src = bcast_plane old src"
proof -
  have "map2 bcast_row (map (map g) old) src = map2 bcast_row old src"
    by (rule map2_map1_cong) (rule bcast_row_map)
  moreover have "map (\<lambda>row. bcast_row row s) (map (map g) old) = map (\<lambda>row. bcast_row row s) old"
    for s
    by (simp add: bcast_row_map)
  ultimately show ?thesis by (simp only: bcast_plane_def length_map)
qed

lemma assign_plane_like:
  "assign_plane L (map (map (empty_px L)) old) src = assign_plane L old src"
proof -
  have row: "map2 (store_px L) (map (empty_px L) r) s = map2 (store_px L) r s" for r s
    by (rule map2_map1_cong) (rule store_px_empty)
  have "map2 (map2 (store_px L)) (map (map (empty_px L)) old) b
               = map2 (map2 (store_px L)) old b" for b
    by (rule map2_map1_cong) (rule row)
  then show ?thesis by (simp add: assign_plane_def bcast_plane_map)
qed

lemma assign_plane_empty:
  assumes "\<And>e. store_px L (empty_px L e) e = e"
  shows "assign_plane L (map (map (empty_px L)) x) x = Some x"
proof -
  have "bcast_plane (map (map (empty_px L)) x) x = Some x"
    by (rule bcast_plane_same) (simp add: comp_def)
  moreover have "map2 (map2 (store_px L)) (map (map (empty_px L)) x) x = x"
    by (intro map2_map_same) (simp add: assms)
  ultimately show ?thesis by (simp add: assign_plane_def)
qed

lemma planewise_loop_runs:
  assumes "\<And>pl. plane_fn L (f pl) = Inr pl" and "\<And>e. store_px L (empty_px L e) e = e"
  shows "fst (for_acc (enumerate (length pre) xs) (planewise_step L f)
                (pre @ map (map (map (empty_px L))) xs)) = Inr (pre @ xs)"
proof (induction xs arbitrary: pre)
  case Nil
  then show ?case by simp
next
  case (Cons x xs)
  have step: "fst (planewise_step L f (length pre, x) (pre @ map (map (map (empty_px L))) (x # xs)))
                = Inr ((pre @ [x]) @ map (map (map (empty_px L))) xs)"
    using assms(1) assign_plane_empty[OF assms(2)]
    by (simp add: planewise_step_def fst_bind callP_def set_plane_def)
  have "fst (for_acc (enumerate (length (pre @ [x])) xs) (planewise_step L f)
               ((pre @ [x]) @ map (map (map (empty_px L))) xs)) = Inr ((pre @ [x]) @ xs)"
    by (rule Cons.IH)
  then show ?case using step by (simp add: fst_bind)
qed

lemma fst_planewise_id [runs]:
  "(\<And>pl. plane_fn L (f pl) = Inr pl) \<Longrightarrow> (\<And>e. store_px L (empty_px L e) e = e)
     \<Longrightarrow> fst (planewise L f src) = Inr src"
  unfolding planewise_def
  using planewise_loop_runs[of L f "[]" src]
  by (simp add: empty_like_def)

text \<open>More on constant volumes\<close>

lemma ge_vol_cvol [simp]: "ge_vol L (cvol a b c x) t = cvol a b c (ge_px L t x)"
  by (simp add: ge_vol_def cvol_def)

lemma eq_vol_cvol [simp]: "eq_vol (cvol a b c x) n = cvol a b c (eq_px n x)"
  by (simp add: eq_vol_def cvol_def)

lemma masked_where_cvol [simp]:
  "masked_where (cvol a b c y) (cvol a b c x) = cvol a b c (if truthy y then PMasked else x)"
  by (simp add: masked_where_def cvol_def)

lemma neg_cvol [simp]: "map (map (map neg_px)) (cvol a b c x) = cvol a b c (neg_px x)"
  by (simp add: cvol_def)

lemma list_ex_replicate [simp]: "list_ex Q (replicate n x) = (0 < n \<and> Q x)"
  by (auto simp: list_ex_iff)

lemma fst_negative [runs]:
  "\<not> list_ex is_bool (flat v) \<Longrightarrow> fst (negative v) = Inr (map (map (map neg_px)) v)"
  by (simp add: negative_def)

text \<open>The library \<open>lib0\<close>\<close>

lemma plots_return_lib0 [simp]: "plots_return (lib0 img)"
  by (auto simp: plots_return_def lib0_def is_io_imshow_def split: plotcall.splits)

lemma vol_fn_lib0:
  "vol_fn (lib0 img) c =
     (case c of
        Imread path \<Rightarrow> Inr img
      | AsFloat32 v \<Rightarrow> Inr (map (map (map (astype0 DFloat32))) v)
      | ImgAsUbyte v \<Rightarrow> Inr (map (map (map (astype0 DInt))) v)
      | ImgAsFloat v \<Rightarrow> Inr (map (map (map (astype0 DFloat64))) v)
      | Transpose120 v \<Rightarrow> Inr v
      | _ \<Rightarrow> (case vol_input c of Some v \<Rightarrow> Inr v | None \<Rightarrow> Inr (ones 1 1 1)))"
  by (simp add: lib0_def)

lemma store_empty_lib0: "store_px (lib0 img) (empty_px (lib0 img) e) e = e"
  by (cases e) (simp_all add: store_px_def empty_px_def lib0_def astype0_def)

lemma map3_cvol [simp]: "map (map (map g)) (cvol a b c x) = cvol a b c (g x)"
  by (simp add: cvol_def)

lemma plane_fn_lib0: "plane_fn (lib0 img) c = Inr (plane_input c)"
  by (simp add: lib0_def)

lemma lib0_fields:
  "num_fn (lib0 img) n = Inr 0"
  "scoreatpercentile (lib0 img) v q = Inr (0, 1)"
  "cumulative_distribution (lib0 img) ps = Inr ([], [])"
  "regionprops_fn (lib0 img) v w = Inr [0, 1, 2, 3]"
  "region_iter (lib0 img) r = Inr [''area'', ''perimeter'']"
  "region_getitem (lib0 img) r prop = (if prop = ''perimeter'' then Inl (NotImplementedError []) else Inr ())"
  "region_label (lib0 img) r = Inr (int r + 1)"
  "region_area (lib0 img) r = Inr 1"
  "region_bbox (lib0 img) r = Inr [0, 0, 0, 1, 1, 1]"
  "marching_cubes (lib0 img) v lv sp = Inr ([], [])"
  "uninit (lib0 img) d = 0"
  "astype (lib0 img) = astype0"
  by (simp_all add: lib0_def)

lemmas run0 = runs fst_bind fst_seq vol_fn_lib0 plane_fn_lib0 lib0_fields plane_input_def
  is_io_imshow_def store_empty_lib0

lemma run_cell_3: "fst (cell_3 (lib0 (cvol 43 129 185 x))) = Inr (cvol 43 129 185 x)"
  by (simp add: cell_3_def run0)

lemma run_cell_5: "fst cell_5 = Inr spacing"
  by (simp add: cell_5_def run0)

lemma run_cell_7: "fst (cell_7 (lib0 img) v) = Inr ()"
  by (simp add: cell_7_def try_except_def plt_def lib0_def print_line_def)

lemma run_cell_10: "fst (cell_10 (lib0 img) (cvol 43 129 185 x)) = Inr ()"
  by (simp add: cell_10_def run0)

lemma run_cell_13: "fst (cell_13 (lib0 img) (cvol 43 129 185 x)) = Inr ()"
  by (simp add: cell_13_def run0)

lemma run_cell_17:
  "fst (cell_17 (lib0 img) (cvol 43 129 185 x)) = Inr (cvol 43 129 185 x, cvol 43 129 185 x)"
  by (simp add: cell_17_def run0)


lemma run_cell_19: "fst (cell_19 (lib0 img) (cvol 43 129 185 x)) = Inr (cvol 43 129 185 x)"
  by (simp add: cell_19_def plot_cdf_def run0)

lemma run_cell_21:
  "fst (cell_21 (lib0 img) (cvol 43 129 185 x)) = Inr (cvol 43 129 185 (astype0 DFloat32 x))"
  by (simp add: cell_21_def run0)

lemma run_cell_24: "fst (cell_24 (lib0 img) (cvol 43 129 185 x)) = Inr (cvol 43 129 185 x)"
  by (simp add: cell_24_def run0)

lemma run_cell_25: "fst (cell_25 (lib0 img) (cvol 43 129 185 x) (cvol 43 129 185 y)) = Inr ()"
  by (simp add: cell_25_def run0)

lemma run_cell_27: "fst (cell_27 (lib0 img) sp (cvol 43 129 185 x)) = Inr (cvol 43 129 185 x)"
  by (simp add: cell_27_def run0)

lemma run_cell_29:
  "fst (cell_29 (lib0 img) (cvol 43 129 185 x))
     = Inr (cvol 43 129 185 (astype0 DFloat64 (astype0 DInt x)))"
  by (simp add: cell_29_def run0)

lemma run_cell_31: "fst (cell_31 (lib0 img) (cvol 43 129 185 x)) = Inr (cvol 43 129 185 x)"
  by (simp add: cell_31_def run0)

lemma run_cell_32:
  "fst (cell_32 (lib0 img) (cvol 43 129 185 x) (cvol 43 129 185 y) (cvol 43 129 185 z) (cvol 43 129 185 w)) = Inr ()"
  by (simp add: cell_32_def run0)

lemma run_cell_35:
  "fst (cell_35 (lib0 img) (cvol 43 129 185 x))
     = Inr (0, cvol 43 129 185 (ge_px (lib0 img) 0 x), 0, cvol 43 129 185 (ge_px (lib0 img) 0 x))"
  by (simp add: cell_35_def run0)

lemma run_cell_36: "fst (cell_36 (lib0 img) (cvol 43 129 185 x)) = Inr (cvol 43 129 185 x)"
  by (simp add: cell_36_def run0)

lemma run_cell_39: "fst (cell_39 (lib0 img)) = Inr ()"
  by (simp add: cell_39_def run0)

lemma run_cell_41:
  "fst (cell_41 (lib0 img) (cvol 43 129 185 x) (cvol 43 129 185 y))
     = Inr [cvol 43 129 185 x, cvol 43 129 185 x, cvol 43 129 185 x, cvol 43 129 185 x,
            cvol 43 129 185 y, cvol 43 129 185 y, cvol 43 129 185 y, cvol 43 129 185 y]"
  by (simp add: cell_41_def run0)

lemma run_cell_43:
  "fst (cell_43 (lib0 img) (cvol 43 129 185 x))
     = Inr (cvol 43 129 185 (ge_px (lib0 img) 0 x), cvol 43 129 185 (ge_px (lib0 img) 0 x),
            cvol 43 129 185 (ge_px (lib0 img) 0 x))"
  by (simp add: cell_43_def despeckle_def run0)

lemma run_cell_45: "fst (cell_45 (lib0 img) (cvol 43 129 185 x)) = Inr (cvol 43 129 185 x)"
  by (simp add: cell_45_def run0)

lemma run_cell_46: "fst (cell_46 (lib0 img) (cvol 43 129 185 x)) = Inr (cvol 43 129 185 x)"
  by (simp add: cell_46_def run0)

lemma run_cell_50:
  "fst (cell_50 (lib0 img) (cvol 43 129 185 x))
     = Inr (cvol 43 129 185 x, cvol 43 129 185 (if truthy (eq_px 0 x) then PMasked else x),
            Cmap ''viridis'' (Some ''black''))"
  by (simp add: cell_50_def run0)

lemma run_cell_52:
  "fst (cell_52 (lib0 img) (cvol 43 129 185 x) (cvol 43 129 185 y) (cvol 43 129 185 z) cm) = Inr ()"
  by (simp add: cell_52_def run0)

lemma run_cell_54:
  "\<not> is_bool x \<Longrightarrow>
   fst (cell_54 (lib0 img) (cvol 43 129 185 x) (cvol 43 129 185 y))
     = Inr (cvol 43 129 185 y, cvol 43 129 185 y, cvol 43 129 185 y, cvol 43 129 185 (neg_px x),
            cvol 43 129 185 (if truthy (eq_px 0 (neg_px x)) then PMasked else neg_px x),
            Cmap ''viridis'' (Some ''black''))"
  by (simp add: cell_54_def run0)

lemma run_cell_56:
  "fst (cell_56 (lib0 img) (cvol 43 129 185 x) (cvol 43 129 185 y) cm) = Inr ()"
  by (simp add: cell_56_def run0)

lemma run_cell_58: "fst (cell_58 (lib0 img) (cvol 43 129 185 y) cm) = Inr ()"
  by (simp add: cell_58_def run0)

lemma run_cell_60_body:
  "plots_return L \<Longrightarrow> 31 + fst p < length d \<Longrightarrow> 31 + fst p < length q \<Longrightarrow>
     fst (cell_60_body L d q lo hi p) = Inr ()"
  by (simp add: cell_60_body_def fst_bind fst_seq runs is_io_imshow_def)

lemma run_cell_60: "fst (cell_60 (lib0 img) (cvol 43 129 185 x) (cvol 43 129 185 y)) = Inr ()"
proof -
  have "fst (for_each (enumerate 0 [0..<12])
          (cell_60_body (lib0 img) (cvol 43 129 185 x) (cvol 43 129 185 y) lo hi)) = Inr ()" for lo hi
    by (rule fst_for_each) (auto simp: run_cell_60_body in_set_enumerate_eq)
  then show ?thesis by (simp add: cell_60_def run0)
qed

lemma run_cell_61: "fst (cell_61 (lib0 img) (cvol 43 129 185 x) (cvol 43 129 185 y)) = Inr ()"
  by (simp add: cell_61_def run0)

lemma run_cell_64: "fst (cell_64 (lib0 img) (cvol 43 129 185 x)) = Inr (cvol 43 129 185 x)"
  by (simp add: cell_64_def run0)

lemma run_cell_66: "fst (cell_66 (lib0 img) v) = Inr v"
  by (simp add: cell_66_def run0)

lemma run_cell_68: "fst (cell_68 (lib0 img) v w) = Inr [0, 1, 2, 3]"
  by (simp add: cell_68_def probe_def try_except_def run0)

lemma collect_acc:
  "(\<And>x. fst (f x) = Inr (g x)) \<Longrightarrow>
     fst (for_acc xs (\<lambda>x acc. bind (f x) (\<lambda>y. ret (acc @ [y]))) acc) = Inr (acc @ map g xs)"
  by (induction xs arbitrary: acc) (simp_all add: fst_bind)

lemma fst_collect: "(\<And>x. fst (f x) = Inr (g x)) \<Longrightarrow> fst (collect f xs) = Inr (map g xs)"
  using collect_acc[of f g xs "[]"] by (simp add: collect_def)

lemma run_cell_70: "fst (cell_70 (lib0 img) rs) = Inr ()"
  by (simp add: cell_70_def run0 fst_collect[where g = "\<lambda>r. int r + 1"])

lemma run_cell_72: "fst (cell_72 (lib0 img) rs) = Inr (map (\<lambda>r. 1) rs)"
  by (simp add: cell_72_def run0 fst_collect[where g = "\<lambda>r. 1"])

lemma run_cell_74: "fst (cell_74 (lib0 img) xs) = Inr ()"
  by (simp add: cell_74_def run0)

lemma run_cell_76: "3 < length rs \<Longrightarrow> fst (cell_76 (lib0 img) sp v rs) = Inr ([], [])"
  by (simp add: cell_76_def run0)

lemma run_cell_78: "3 < length rs \<Longrightarrow> fst (cell_78 (lib0 img) [] [] rs) = Inr ()"
  by (simp add: cell_78_def fancy_index_def unpack6_def run0)

lemmas run_cells = run_cell_3 run_cell_5 run_cell_7 run_cell_10 run_cell_13 run_cell_17
  run_cell_19 run_cell_21 run_cell_24 run_cell_25 run_cell_27 run_cell_29 run_cell_31
  run_cell_32 run_cell_35 run_cell_36 run_cell_39 run_cell_41 run_cell_43 run_cell_45
  run_cell_46 run_cell_50 run_cell_52 run_cell_54 run_cell_56 run_cell_58 run_cell_60
  run_cell_61 run_cell_64 run_cell_66 run_cell_68 run_cell_70 run_cell_72 run_cell_74
  run_cell_76 run_cell_78

lemma run_notebook: "fst (notebook (lib0 image0)) = Inr namespace0"
  by (simp add: notebook_def image0_def namespace0_def fst_bind fst_seq run_cells cell_22_def
      cell_33_def ge_px_def scalar_for_def lib0_fields astype0_def eq_px_def truthy_def
      is_bool_def)


section \<open>The claims\<close>

subsection \<open>C7: the normalised spacing\<close>

text \<open>
  C7. The spacing of the notebook is the microscope's spacing \<open>(0.29, 0.065, 0.065)\<close>
  multiplied elementwise by \<open>(1, 4, 4)\<close> and divided by its row component; in exact
  rational arithmetic this is \<open>(29/26, 1, 1)\<close>, so the row and column spacings are 1,
  and this is the value the spacing cell returns.
\<close>

theorem spacing_normalized:
  "rescaled_spacing = map2 (\<lambda>a b. a * b) [1, 4, 4] [29 / 100, 65 / 1000, 65 / 1000]
   \<and> spacing = map (\<lambda>x. x / (rescaled_spacing ! 1)) rescaled_spacing
   \<and> spacing = [29 / 26, 1, 1]
   \<and> fst cell_5 = Inr [29 / 26, 1, 1]"
  by (simp add: spacing_def rescaled_spacing_def original_spacing_def cell_5_def fst_seq print_line_def)


subsection \<open>C2: the TypeError of io.imshow\<close>

lemma cell_7_type_error:
  "plot_fn L (IoImshow v gray) = Inl (TypeError msg) \<Longrightarrow>
     cell_7 L v = (Inr (), [Ev (Plt (IoImshow v gray)) (Some (TypeError msg)), Ev (Print msg) None])"
  by (simp add: cell_7_def try_except_def plt_def print_line_def call_def)

lemma cell_7_other:
  "plot_fn L (IoImshow v gray) = Inl e \<Longrightarrow> \<not> is_type_error e \<Longrightarrow>
     cell_7 L v = (Inl e, [Ev (Plt (IoImshow v gray)) (Some e)])"
  by (cases e) (simp_all add: cell_7_def try_except_def plt_def print_line_def call_def is_type_error_def)

text \<open>
  C2. When \<^verbatim>\<open>io.imshow\<close> raises a TypeError on the volume, the cell catches it, prints
  its message and returns: whatever follows the cell runs as it would have, after the two
  calls of the cell. An exception that is not a TypeError is not caught: it ends the cell.
\<close>

theorem imshow_type_error_caught:
  assumes "plot_fn L (IoImshow v gray) = Inl (TypeError msg)"
  shows "cell_7 L v = (Inr (), [Ev (Plt (IoImshow v gray)) (Some (TypeError msg)), Ev (Print msg) None])
    \<and> (\<forall>k. seq (cell_7 L v) k
           = (fst k, [Ev (Plt (IoImshow v gray)) (Some (TypeError msg)), Ev (Print msg) None] @ snd k))
    \<and> (\<forall>L' e. plot_fn L' (IoImshow v gray) = Inl e \<and> \<not> is_type_error e
           \<longrightarrow> cell_7 L' v = (Inl e, [Ev (Plt (IoImshow v gray)) (Some e)]))"
  using assms by (simp add: cell_7_type_error cell_7_other seq_def bind_def)

theorem imshow_type_error_caught_witness:
  "plot_fn (lib0 image0) (IoImshow image0 gray) = Inl (TypeError ''Invalid dimensions for image data'')
   \<and> cell_7 (lib0 image0) image0
       = (Inr (), [Ev (Plt (IoImshow image0 gray)) (Some (TypeError ''Invalid dimensions for image data'')),
                   Ev (Print ''Invalid dimensions for image data'') None])"
proof -
  have h: "plot_fn (lib0 image0) (IoImshow image0 gray) = Inl (TypeError ''Invalid dimensions for image data'')"
    by (simp add: lib0_def)
  show ?thesis using h imshow_type_error_caught[OF h] by blast
qed


subsection \<open>C1: the handlers of the notebook\<close>

lemma caught_iff:
  "caught f e \<longleftrightarrow>
     (\<exists>v cm msg. f = Plt (IoImshow v cm) \<and> e = TypeError msg)
     \<or> (\<exists>r prop msg. f = RegionGetItem r prop \<and> e = NotImplementedError msg)"
  by (auto simp: caught_def is_io_imshow_def is_type_error_def is_region_getitem_def
      is_not_implemented_def split: op.splits plotcall.splits exn.splits)

lemma disciplined_raise:
  assumes "disciplined m" and "snd m = t1 @ Ev f (Some e) # t2"
  shows "caught f e \<or> (t2 = [] \<and> fst m = Inl e)"
proof (cases "fst m")
  case (Inr x)
  then have "\<not> uncaught (Ev f (Some e))"
    using assms by (simp add: disciplined_def)
  then show ?thesis by (simp add: uncaught_def)
next
  case (Inl e')
  show ?thesis
  proof (cases "t2 = []")
    case True
    then show ?thesis using assms Inl by (simp add: disciplined_def)
  next
    case False
    then have "butlast (snd m) = t1 @ Ev f (Some e) # butlast t2"
      using assms(2) by (simp add: butlast_append)
    then have "\<not> uncaught (Ev f (Some e))"
      using assms(1) Inl by (simp add: disciplined_def)
    then show ?thesis by (simp add: uncaught_def)
  qed
qed

lemma disciplined_Inl:
  assumes "disciplined m" and "fst m = Inl e"
  shows "\<exists>t1 f. snd m = t1 @ [Ev f (Some e)] \<and> \<not> caught f e"
proof -
  have ne: "snd m \<noteq> []" and l: "case last (snd m) of Ev f r \<Rightarrow> r = Some e \<and> \<not> caught f e"
    using assms by (simp_all add: disciplined_def)
  obtain f r where fr: "last (snd m) = Ev f r" by (cases "last (snd m)")
  then have "r = Some e" "\<not> caught f e" using l by simp_all
  moreover have "snd m = butlast (snd m) @ [last (snd m)]" using ne by simp
  ultimately show ?thesis using fr by metis
qed

lemma disciplined_notebook: "disciplined (notebook L)"
  using ok_notebook[of L] by (simp add: ok_def)

text \<open>
  C1, as amended. The notebook has two handlers, not one: the TypeError of
  \<^verbatim>\<open>io.imshow\<close> and the NotImplementedError of the subscript
  \<^verbatim>\<open>regionprops[0][prop]\<close>. Every other exception that a call of the notebook raises is
  the last call of the execution and is the outcome of the execution; and an execution
  that ends with an exception ends with a call that raised it outside both handlers.
\<close>

theorem two_handlers_only:
  "(\<forall>t1 f e t2. snd (notebook L) = t1 @ Ev f (Some e) # t2
       \<longrightarrow> caught f e \<or> (t2 = [] \<and> fst (notebook L) = Inl e))
   \<and> (\<forall>e. fst (notebook L) = Inl e
       \<longrightarrow> (\<exists>t1 f. snd (notebook L) = t1 @ [Ev f (Some e)] \<and> \<not> caught f e))
   \<and> (\<forall>f e. caught f e \<longleftrightarrow>
         (\<exists>v cm msg. f = Plt (IoImshow v cm) \<and> e = TypeError msg)
         \<or> (\<exists>r prop msg. f = RegionGetItem r prop \<and> e = NotImplementedError msg))"
proof (intro conjI allI impI)
  fix t1 f e t2
  assume "snd (notebook L) = t1 @ Ev f (Some e) # t2"
  then show "caught f e \<or> (t2 = [] \<and> fst (notebook L) = Inl e)"
    by (rule disciplined_raise[OF disciplined_notebook])
next
  fix e
  assume "fst (notebook L) = Inl e"
  then show "\<exists>t1 f. snd (notebook L) = t1 @ [Ev f (Some e)] \<and> \<not> caught f e"
    by (rule disciplined_Inl[OF disciplined_notebook])
next
  fix f e
  show "caught f e \<longleftrightarrow>
         (\<exists>v cm msg. f = Plt (IoImshow v cm) \<and> e = TypeError msg)
         \<or> (\<exists>r prop msg. f = RegionGetItem r prop \<and> e = NotImplementedError msg)"
    by (rule caught_iff)
qed

lemma cell_3_lib_missing:
  "fst (cell_3 lib_missing) = Inl (OtherError ''FileNotFoundError'' ''../images/cells.tif'')"
  "snd (cell_3 lib_missing)
     = [Ev (V (Imread ''../images/cells.tif'')) (Some (OtherError ''FileNotFoundError'' ''../images/cells.tif''))]"
  by (simp_all add: cell_3_def fst_bind snd_bind callV_def lib_missing_def)

lemma notebook_lib_missing:
  "fst (notebook lib_missing) = Inl (OtherError ''FileNotFoundError'' ''../images/cells.tif'')"
  "snd (notebook lib_missing)
     = [Ev (V (Imread ''../images/cells.tif'')) (Some (OtherError ''FileNotFoundError'' ''../images/cells.tif''))]"
  by (simp_all add: notebook_def fst_bind snd_bind cell_3_lib_missing)

theorem two_handlers_only_witness:
  "snd (notebook lib_missing)
     = [] @ Ev (V (Imread ''../images/cells.tif'')) (Some (OtherError ''FileNotFoundError'' ''../images/cells.tif'')) # []
   \<and> \<not> caught (V (Imread ''../images/cells.tif'')) (OtherError ''FileNotFoundError'' ''../images/cells.tif'')
   \<and> fst (notebook lib_missing) = Inl (OtherError ''FileNotFoundError'' ''../images/cells.tif'')"
proof -
  let ?e = "OtherError ''FileNotFoundError'' ''../images/cells.tif''"
  let ?f = "V (Imread ''../images/cells.tif'')"
  have t: "snd (notebook lib_missing) = [] @ Ev ?f (Some ?e) # []"
    by (simp add: notebook_lib_missing)
  have c: "\<not> caught ?f ?e"
    by (simp add: caught_def is_io_imshow_def is_region_getitem_def)
  have "\<forall>t1 f e t2. snd (notebook lib_missing) = t1 @ Ev f (Some e) # t2
       \<longrightarrow> caught f e \<or> (t2 = [] \<and> fst (notebook lib_missing) = Inl e)"
    using two_handlers_only[of lib_missing] by (rule conjunct1)
  then have "caught ?f ?e \<or> ([] = ([]::event list) \<and> fst (notebook lib_missing) = Inl ?e)"
    using t by (elim allE[where x = "[]"] allE[where x = "?f"] allE[where x = "?e"]) (erule mp)
  with c have "fst (notebook lib_missing) = Inl ?e" by simp
  with t c show ?thesis by (intro conjI)
qed


subsection \<open>C1: a second handler\<close>

lemma cell_68_trace0:
  "snd (cell_68 (lib0 img) v w)
     = [Ev (Regionprops v w) None, Ev (Np (GetItem 0)) None, Ev (RegionIter 0) None,
        Ev (Np (GetItem 0)) None, Ev (RegionGetItem 0 ''area'') None,
        Ev (Np (GetItem 0)) None, Ev (RegionGetItem 0 ''perimeter'') (Some (NotImplementedError [])),
        Ev (Print ''Supported properties:'') None, Ev (Print ''  area'') None, Ev (Print []) None,
        Ev (Print ''Unsupported properties:'') None, Ev (Print ''  perimeter'') None]"
  by (simp add: cell_68_def probe_def try_except_def get_item_def print_line_def
      snd_bind snd_seq fst_bind fst_seq lib0_fields)

lemma set_snd_bind:
  "set (snd (bind m f)) = set (snd m) \<union> (case fst m of Inl e \<Rightarrow> {} | Inr x \<Rightarrow> set (snd (f x)))"
  by (simp add: snd_bind split: sum.splits)

lemma set_snd_seq:
  "set (snd (seq m n)) = set (snd m) \<union> (case fst m of Inl e \<Rightarrow> {} | Inr x \<Rightarrow> set (snd n))"
  by (simp add: snd_seq split: sum.splits)

lemma notebook_events0:
  "set (snd (cell_7 (lib0 image0) image0)) \<subseteq> set (snd (notebook (lib0 image0)))"
  "set (snd (cell_17 (lib0 image0) image0)) \<subseteq> set (snd (notebook (lib0 image0)))"
  "set (snd (cell_68 (lib0 image0) (cvol 43 129 185 (PF32 0)) image0)) \<subseteq> set (snd (notebook (lib0 image0)))"
  by (simp_all add: notebook_def image0_def set_snd_bind set_snd_seq run_cells cell_22_def
      cell_33_def ge_px_def scalar_for_def lib0_fields astype0_def eq_px_def truthy_def
      is_bool_def le_supI2)


text \<open>
  C1, as stated, fails: run with \<open>lib0 image0\<close>, the notebook raises a
  NotImplementedError in the subscript \<^verbatim>\<open>regionprops[0]["perimeter"]\<close>, which is not
  \<^verbatim>\<open>io.imshow\<close> and not a TypeError, and returns all the same.
\<close>

theorem not_implemented_caught:
  "Ev (RegionGetItem 0 ''perimeter'') (Some (NotImplementedError []))
     \<in> set (snd (notebook (lib0 image0)))
   \<and> fst (notebook (lib0 image0)) = Inr namespace0
   \<and> \<not> is_io_imshow (RegionGetItem 0 ''perimeter'')
   \<and> \<not> is_type_error (NotImplementedError [])"
proof -
  have "Ev (RegionGetItem 0 ''perimeter'') (Some (NotImplementedError []))
          \<in> set (snd (cell_68 (lib0 image0) (cvol 43 129 185 (PF32 0)) image0))"
    by (simp add: cell_68_trace0)
  then show ?thesis
    using notebook_events0(3) run_notebook
    by (auto simp: is_io_imshow_def is_type_error_def)
qed

subsection \<open>C8: the file system\<close>

lemma decomp_free:
  "decomp Ks m \<Longrightarrow> list_all (\<lambda>K. a \<notin> K) Ks \<Longrightarrow> \<forall>ev\<in>set (snd m). ev_stage ev \<noteq> a"
  unfolding decomp_def using seg_free by fastforce

lemma notebook_after_load:
  "\<exists>F. notebook L = bind (cell_3 L) F \<and> (\<forall>d. \<forall>ev\<in>set (snd (F d)). ev_stage ev \<noteq> Load)"
proof -
  have "\<exists>F. notebook L = bind (cell_3 L) F \<and> (\<forall>d. decomp (tl cell_stages) (F d))"
    unfolding notebook_def cell_stages_def
    apply (rule exI, rule conjI, rule refl)
    apply (simp only: list.sel)
    apply (rule allI)
    apply (intro decomp_bind_54 decomp_bind decomp_seq decomp_case_prod decomp_ret ok_intros; simp)
    done
  then obtain F where F: "notebook L = bind (cell_3 L) F" "\<And>d. decomp (tl cell_stages) (F d)"
    by blast
  have "list_all (\<lambda>K. Load \<notin> K) (tl cell_stages)"
    by (simp add: cell_stages_def)
  then have "\<forall>ev\<in>set (snd (F d)). ev_stage ev \<noteq> Load" for d
    using F(2)[of d] by (rule decomp_free[rotated])
  then show ?thesis using F(1) by blast
qed

lemma cell_3_trace:
  "\<exists>rest. snd (cell_3 L)
      = Ev (V (Imread ''../images/cells.tif'')) (raised (vol_fn L (Imread ''../images/cells.tif''))) # rest
     \<and> (\<forall>ev\<in>set rest. ev_stage ev = Glue)"
proof -
  have "ok {Glue} (seq (print_line ''shape: {}'')
          (seq (print_line ''dtype: {}'')
          (bind (amin d) (\<lambda>lo. bind (amax d) (\<lambda>hi. seq (print_line ''range: ({}, {})'') (ret d))))))" for d
    by (intro ok_intros; simp)
  then have "\<forall>ev\<in>set (snd (seq (print_line ''shape: {}'')
          (seq (print_line ''dtype: {}'')
          (bind (amin d) (\<lambda>lo. bind (amax d) (\<lambda>hi. seq (print_line ''range: ({}, {})'') (ret d))))))).
            ev_stage ev = Glue" for d
    by (simp add: ok_def stages_def)
  then show ?thesis
    unfolding cell_3_def by (cases "vol_fn L (Imread ''../images/cells.tif'')") (simp_all add: snd_bind callV_def)
qed

lemma notebook_starts_with_imread:
  "\<exists>r rest. snd (notebook L) = Ev (V (Imread ''../images/cells.tif'')) r # rest
     \<and> (\<forall>ev\<in>set rest. ev_stage ev \<noteq> Load)"
proof -
  obtain F where F: "notebook L = bind (cell_3 L) F" "\<And>d. \<forall>ev\<in>set (snd (F d)). ev_stage ev \<noteq> Load"
    using notebook_after_load by blast
  obtain rest where r: "snd (cell_3 L)
      = Ev (V (Imread ''../images/cells.tif'')) (raised (vol_fn L (Imread ''../images/cells.tif''))) # rest"
    "\<forall>ev\<in>set rest. ev_stage ev = Glue"
    using cell_3_trace by blast
  show ?thesis
  proof (cases "fst (cell_3 L)")
    case (Inl e)
    then show ?thesis using F(1) r by (auto simp: snd_bind)
  next
    case (Inr d)
    then have "snd (notebook L) = Ev (V (Imread ''../images/cells.tif'')) (raised (vol_fn L (Imread ''../images/cells.tif'')))
                 # (rest @ snd (F d))"
      using F(1) r(1) by (simp add: snd_bind)
    moreover have "\<forall>ev\<in>set (rest @ snd (F d)). ev_stage ev \<noteq> Load"
      using F(2)[of d] r(2) by auto
    ultimately show ?thesis by blast
  qed
qed

lemma fs_accesses_Cons:
  "fs_accesses (ev # t) = (case fs_access_of ev of None \<Rightarrow> fs_accesses t | Some a \<Rightarrow> a # fs_accesses t)"
  by (simp add: fs_accesses_def List.map_filter_def split: option.splits)

lemma fs_access_of_Load: "fs_access_of ev = Some a \<Longrightarrow> ev_stage ev = Load"
  by (auto simp: fs_access_of_def ev_stage_def split: event.splits op.splits volcall.splits)

lemma fs_accesses_none: "\<forall>ev\<in>set t. ev_stage ev \<noteq> Load \<Longrightarrow> fs_accesses t = []"
proof (induction t)
  case Nil
  then show ?case by (simp add: fs_accesses_def List.map_filter_def)
next
  case (Cons ev t)
  then have "fs_access_of ev = None" using fs_access_of_Load[of ev] by (cases "fs_access_of ev") auto
  then show ?case using Cons by (simp add: fs_accesses_Cons)
qed

text \<open>
  C8. In every execution of the notebook, whatever the library does, the accesses to the
  file system are one read of \<^verbatim>\<open>../images/cells.tif\<close>, made by the first call; no call
  writes a file.
\<close>

theorem one_file_read:
  "fs_accesses (snd (notebook L)) = [FsRead ''../images/cells.tif'']"
proof -
  obtain r rest where t: "snd (notebook L) = Ev (V (Imread ''../images/cells.tif'')) r # rest"
    "\<forall>ev\<in>set rest. ev_stage ev \<noteq> Load"
    using notebook_starts_with_imread by blast
  show ?thesis using t(1) fs_accesses_none[OF t(2)]
    by (simp add: fs_accesses_Cons fs_access_of_def)
qed

theorem one_file_read_witness:
  "fs_accesses (snd (notebook lib_missing)) = [FsRead ''../images/cells.tif'']
   \<and> fs_accesses (snd (notebook (lib0 image0))) = [FsRead ''../images/cells.tif'']"
  using one_file_read[of lib_missing] one_file_read[of "lib0 image0"] by simp

subsection \<open>The last call of a run that returns\<close>

lemma ends_bind: "(\<And>x. ends_with ev (f x)) \<Longrightarrow> ends_with ev (bind m f)"
  by (cases "fst m") (auto simp: ends_with_def fst_bind snd_bind)

lemma ends_seq: "ends_with ev n \<Longrightarrow> ends_with ev (seq m n)"
  by (simp add: seq_def ends_bind)

lemma ends_case_prod: "(\<And>a b. ends_with ev (f a b)) \<Longrightarrow> ends_with ev (case p of (a, b) \<Rightarrow> f a b)"
  by (cases p) simp

lemma ends_plt: "ends_with (Ev (Plt c) None) (plt L c)"
  by (simp add: ends_with_def plt_def)

lemma ends_cell_78: "ends_with (Ev (Plt Show) None) (seq (cell_78 L a b c) (ret y))"
proof -
  have "ends_with (Ev (Plt Show) None) (cell_78 L a b c)"
    unfolding cell_78_def
    by (intro ends_bind ends_seq ends_case_prod ends_plt)
  then show ?thesis
    by (cases "fst (cell_78 L a b c)") (auto simp: ends_with_def fst_seq snd_seq)
qed

lemma ends_notebook: "ends_with (Ev (Plt Show) None) (notebook L)"
  unfolding notebook_def
  by (intro ends_cell_78 ends_bind ends_seq ends_case_prod)


section \<open>What a run that returns has computed\<close>

lemma callV_InrE:
  assumes "fst (callV L c) = Inr x" obtains "vol_fn L c = Inr x"
  using assms by (simp add: callV_def)

lemma cell_3_facts: "fst (cell_3 L) = Inr v \<Longrightarrow> vol_fn L (Imread ''../images/cells.tif'') = Inr v"
  unfolding cell_3_def by (auto elim!: bind_InrE seq_InrE simp: fst_callV)

lemma cell_17_facts:
  "fst (cell_17 L v) = Inr (gl, gh) \<Longrightarrow>
     vol_fn L (AdjustGamma v (1 / 2)) = Inr gl \<and> vol_fn L (AdjustGamma v (3 / 2)) = Inr gh"
  unfolding cell_17_def by (auto elim!: bind_InrE seq_InrE simp: fst_callV)

lemma cell_19_facts: "fst (cell_19 L v) = Inr e \<Longrightarrow> vol_fn L (EqualizeHist v) = Inr e"
  unfolding cell_19_def by (auto elim!: bind_InrE seq_InrE simp: fst_callV)

lemma cell_21_facts:
  "fst (cell_21 L v) = Inr c \<Longrightarrow>
     \<exists>range r. scoreatpercentile L v (1 / 2, 199 / 2) = Inr range
        \<and> vol_fn L (RescaleIntensity v range) = Inr r \<and> vol_fn L (AsFloat32 r) = Inr c"
  unfolding cell_21_def by (auto elim!: bind_InrE seq_InrE simp: fst_callV)

lemma cell_24_facts: "fst (cell_24 L v) = Inr s \<Longrightarrow> fst (planewise L Sobel v) = Inr s"
  unfolding cell_24_def by (auto elim!: bind_InrE seq_InrE)

lemma cell_27_facts:
  "fst (cell_27 L sp v) = Inr g \<Longrightarrow> vol_fn L (Gaussian v False (map (\<lambda>s. 3 / s) sp)) = Inr g"
  unfolding cell_27_def by (auto elim!: bind_InrE seq_InrE simp: fst_callV)

lemma cell_29_facts:
  "fst (cell_29 L v) = Inr m \<Longrightarrow>
     \<exists>u m8. vol_fn L (ImgAsUbyte v) = Inr u \<and> fst (planewise L Median u) = Inr m8
        \<and> vol_fn L (ImgAsFloat m8) = Inr m"
  unfolding cell_29_def by (auto elim!: bind_InrE seq_InrE simp: fst_callV)

lemma cell_31_facts:
  "fst (cell_31 L v) = Inr b \<Longrightarrow> fst (planewise L (\<lambda>plane. DenoiseBilateral plane False) v) = Inr b"
  unfolding cell_31_def by (auto elim!: bind_InrE seq_InrE)

lemma cell_35_facts:
  "fst (cell_35 L d) = Inr (t1, li, t2, otsu) \<Longrightarrow>
     num_fn L (ThresholdLi d) = Inr t1 \<and> li = ge_vol L d t1
     \<and> num_fn L (ThresholdOtsu d) = Inr t2 \<and> otsu = ge_vol L d t2"
  unfolding cell_35_def by (auto elim!: bind_InrE seq_InrE simp: fst_callN)

lemma cell_36_facts: "fst (cell_36 L li) = Inr b \<Longrightarrow> b = li"
  unfolding cell_36_def by (auto elim!: bind_InrE seq_InrE)

lemma cell_41_facts:
  "fst (cell_41 L v b) = Inr ms \<Longrightarrow>
     \<exists>selem c d e o' bc bd be bo. ms = [c, d, e, o', bc, bd, be, bo]
        \<and> vol_fn L (Ball 3) = Inr selem
        \<and> vol_fn L (Closing v selem) = Inr c \<and> vol_fn L (Dilation v selem) = Inr d
        \<and> vol_fn L (Erosion v selem) = Inr e \<and> vol_fn L (Opening v selem) = Inr o'
        \<and> vol_fn L (BinaryClosing b selem) = Inr bc \<and> vol_fn L (BinaryDilation b selem) = Inr bd
        \<and> vol_fn L (BinaryErosion b selem) = Inr be \<and> vol_fn L (BinaryOpening b selem) = Inr bo"
  unfolding cell_41_def by (auto elim!: bind_InrE seq_InrE simp: fst_callV)

lemma despeckle_facts:
  "fst (despeckle L v r) = Inr d \<Longrightarrow>
     \<exists>s1 opened s2. vol_fn L (Ball r) = Inr s1 \<and> vol_fn L (Opening v s1) = Inr opened
        \<and> vol_fn L (Ball r) = Inr s2 \<and> vol_fn L (Closing opened s2) = Inr d"
  unfolding despeckle_def by (auto elim!: bind_InrE seq_InrE simp: fst_callV)

lemma cell_43_facts:
  "fst (cell_43 L e) = Inr (be, d1, d3) \<Longrightarrow>
     \<exists>t. num_fn L (ThresholdLi e) = Inr t \<and> be = ge_vol L e t
        \<and> fst (despeckle L be 1) = Inr d1 \<and> fst (despeckle L be 3) = Inr d3"
  unfolding cell_43_def by (auto elim!: bind_InrE seq_InrE simp: fst_callN)

lemma cell_45_facts: "fst (cell_45 L b) = Inr h \<Longrightarrow> vol_fn L (RemoveSmallHoles b (20 ^ 3)) = Inr h"
  unfolding cell_45_def by (auto elim!: bind_InrE seq_InrE simp: fst_callV)

lemma cell_46_facts: "fst (cell_46 L h) = Inr ro \<Longrightarrow> vol_fn L (RemoveSmallObjects h (20 ^ 3)) = Inr ro"
  unfolding cell_46_def by (auto elim!: bind_InrE seq_InrE simp: fst_callV)

lemma cell_50_facts: "fst (cell_50 L ro) = Inr (labels, ml, cm) \<Longrightarrow> vol_fn L (Label ro) = Inr labels"
  unfolding cell_50_def by (auto elim!: bind_InrE seq_InrE simp: fst_callV split: prod.splits)

lemma negative_InrE:
  assumes "fst (negative v) = Inr w"
  obtains "\<not> list_ex is_bool (flat v)" and "w = map (map (map neg_px)) v"
  using assms by (auto simp: negative_def split: if_splits)

lemma cell_54_facts:
  "fst (cell_54 L r ro) = Inr (distance, peaks, markers, labels, ml, cm) \<Longrightarrow>
     vol_fn L (DistanceTransformEdt ro) = Inr distance
     \<and> (\<exists>object_labels. vol_fn L (Label ro) = Inr object_labels
           \<and> vol_fn L (PeakLocalMax distance (ones 15 15 15) False object_labels) = Inr peaks)
     \<and> vol_fn L (Label peaks) = Inr markers
     \<and> \<not> list_ex is_bool (flat r)
     \<and> vol_fn L (Watershed (map (map (map neg_px)) r) markers ro) = Inr labels"
  unfolding cell_54_def
  by (auto elim!: bind_InrE seq_InrE negative_InrE simp: fst_callV split: prod.splits)

lemma cell_64_facts: "fst (cell_64 L labels) = Inr il \<Longrightarrow> vol_fn L (ClearBorder labels) = Inr il"
  unfolding cell_64_def by (auto elim!: bind_InrE seq_InrE simp: fst_callV split: prod.splits)

lemma cell_66_facts: "fst (cell_66 L il) = Inr rl \<Longrightarrow> vol_fn L (RelabelSequential il) = Inr rl"
  unfolding cell_66_def by (auto elim!: bind_InrE seq_InrE simp: fst_callV)

lemma case_prod_InrE:
  assumes "fst (case p of (a, b) \<Rightarrow> f a b) = Inr y"
  obtains a b where "p = (a, b)" and "fst (f a b) = Inr y"
  using assms by (cases p) simp



lemma notebook_cells:
  assumes "fst (notebook L) = Inr ns"
  shows "fst (cell_3 L) = Inr (ns_data ns)
    \<and> fst (cell_17 L (ns_data ns)) = Inr (ns_gamma_low ns, ns_gamma_high ns)
    \<and> fst (cell_19 L (ns_data ns)) = Inr (ns_equalized ns)
    \<and> fst (cell_21 L (ns_data ns)) = Inr (ns_clipped ns)
    \<and> ns_rescaled ns = ns_clipped ns
    \<and> fst (cell_24 L (ns_rescaled ns)) = Inr (ns_sobel ns)
    \<and> fst (cell_27 L spacing (ns_rescaled ns)) = Inr (ns_gaussian ns)
    \<and> fst (cell_29 L (ns_rescaled ns)) = Inr (ns_median ns)
    \<and> fst (cell_31 L (ns_rescaled ns)) = Inr (ns_bilateral ns)
    \<and> ns_denoised ns = ns_bilateral ns
    \<and> fst (cell_35 L (ns_denoised ns))
           = Inr (ns_threshold_li ns, ns_li ns, ns_threshold_otsu ns, ns_otsu ns)
    \<and> fst (cell_36 L (ns_li ns)) = Inr (ns_binary ns)
    \<and> fst (cell_41 L (ns_rescaled ns) (ns_binary ns)) = Inr (ns_morphology ns)
    \<and> fst (cell_43 L (ns_equalized ns))
           = Inr (ns_binary_equalized ns, ns_despeckled1 ns, ns_despeckled3 ns)
    \<and> fst (cell_45 L (ns_binary ns)) = Inr (ns_remove_holes ns)
    \<and> fst (cell_46 L (ns_remove_holes ns)) = Inr (ns_remove_objects ns)
    \<and> (\<exists>ml cm. fst (cell_50 L (ns_remove_objects ns)) = Inr (ns_labels_cc ns, ml, cm))
    \<and> (\<exists>ml cm. fst (cell_54 L (ns_rescaled ns) (ns_remove_objects ns))
           = Inr (ns_distance ns, ns_peak_local_max ns, ns_markers ns, ns_labels ns, ml, cm))
    \<and> fst (cell_64 L (ns_labels ns)) = Inr (ns_interior_labels ns)
    \<and> fst (cell_66 L (ns_interior_labels ns)) = Inr (ns_relabeled ns)"
  using assms unfolding notebook_def
  apply (elim bind_InrE seq_InrE case_prod_InrE)
  apply (simp only: fst_ret sum.inject cell_22_def cell_33_def run_cell_5)
  apply (rotate_tac -1, erule subst)
  apply (simp (no_asm) only: namespace.select_convs)
  apply (intro conjI exI; (assumption | (erule sym) | (rule refl)))
  done


subsection \<open>C10: thresholds are inclusive\<close>

lemma ge_vol_nth:
  "i < length v \<Longrightarrow> j < length (v ! i) \<Longrightarrow> k < length (v ! i ! j) \<Longrightarrow>
     ge_vol L v t ! i ! j ! k = ge_px L t (v ! i ! j ! k)"
  by (simp add: ge_vol_def)

lemma ge_px_num:
  "px_num x = Some q \<Longrightarrow> px_num (scalar_for L x t) = Some t' \<Longrightarrow> ge_px L t x = PBool (t' \<le> q)"
  by (simp add: ge_px_def)

lemma scalar_for_float32: "scalar_for L (PF32 q) t = astype L DFloat32 (PNum t)"
  by (simp add: scalar_for_def)

lemma scalar_for_other: "px_dtype x \<noteq> Some DFloat32 \<Longrightarrow> scalar_for L x t = PNum t"
  by (cases x) (simp_all add: scalar_for_def)

text \<open>
  C10. In a run that returns, \<^verbatim>\<open>li\<close>, \<^verbatim>\<open>otsu\<close> and \<^verbatim>\<open>binary_equalized\<close> are the
  elementwise comparison \<open>\<ge>\<close> of the thresholded volume with the threshold the library
  computed for it. The comparison is numpy's: an element of a \<^verbatim>\<open>float32\<close> array, as
  \<^verbatim>\<open>denoised\<close> is, is compared with the threshold converted to \<^verbatim>\<open>float32\<close>, any other
  element with the threshold as it is, and the element is true exactly when its value is
  at least the threshold so compared. Hence an element equal to the threshold is
  foreground: the conversion leaves a threshold that a \<^verbatim>\<open>float32\<close> element equals
  unchanged, that being what a conversion to \<^verbatim>\<open>float32\<close> does to a \<^verbatim>\<open>float32\<close> value.
\<close>

theorem thresholds_inclusive:
  assumes "fst (notebook L) = Inr ns"
  shows "num_fn L (ThresholdLi (ns_denoised ns)) = Inr (ns_threshold_li ns)
    \<and> ns_li ns = ge_vol L (ns_denoised ns) (ns_threshold_li ns)
    \<and> num_fn L (ThresholdOtsu (ns_denoised ns)) = Inr (ns_threshold_otsu ns)
    \<and> ns_otsu ns = ge_vol L (ns_denoised ns) (ns_threshold_otsu ns)
    \<and> (\<exists>t. num_fn L (ThresholdLi (ns_equalized ns)) = Inr t
           \<and> ns_binary_equalized ns = ge_vol L (ns_equalized ns) t)
    \<and> (\<forall>v t i j k q t'. i < length v \<and> j < length (v ! i) \<and> k < length (v ! i ! j)
           \<and> px_num (v ! i ! j ! k) = Some q
           \<and> px_num (scalar_for L (v ! i ! j ! k) t) = Some t'
         \<longrightarrow> ge_vol L v t ! i ! j ! k = PBool (t' \<le> q))
    \<and> (\<forall>q t. scalar_for L (PF32 q) t = astype L DFloat32 (PNum t))
    \<and> (\<forall>x t. px_dtype x \<noteq> Some DFloat32 \<longrightarrow> scalar_for L x t = PNum t)
    \<and> (\<forall>v t i j k. i < length v \<and> j < length (v ! i) \<and> k < length (v ! i ! j)
           \<and> px_num (v ! i ! j ! k) = Some t
           \<and> (px_dtype (v ! i ! j ! k) = Some DFloat32
                  \<longrightarrow> px_num (astype L DFloat32 (PNum t)) = Some t)
         \<longrightarrow> ge_vol L v t ! i ! j ! k = PBool True)"
proof -
  note c = notebook_cells[OF assms]
  have a: "fst (cell_35 L (ns_denoised ns))
           = Inr (ns_threshold_li ns, ns_li ns, ns_threshold_otsu ns, ns_otsu ns)"
    using c by blast
  have b: "fst (cell_43 L (ns_equalized ns))
           = Inr (ns_binary_equalized ns, ns_despeckled1 ns, ns_despeckled3 ns)"
    using c by blast
  have eq: "ge_px L t x = PBool True"
    if "px_num x = Some t"
      and "px_dtype x = Some DFloat32 \<longrightarrow> px_num (astype L DFloat32 (PNum t)) = Some t"
    for x t
  proof (cases "px_dtype x = Some DFloat32")
    case True
    then obtain q where "x = PF32 q" by (cases x) simp_all
    then have "px_num (scalar_for L x t) = Some t"
      using that(2) True by (simp add: scalar_for_float32)
    from ge_px_num[OF that(1) this] show ?thesis by simp
  next
    case False
    then have "px_num (scalar_for L x t) = Some t" by (simp add: scalar_for_other)
    from ge_px_num[OF that(1) this] show ?thesis by simp
  qed
  show ?thesis
    using cell_35_facts[OF a] cell_43_facts[OF b]
    by (auto simp: ge_vol_nth ge_px_num scalar_for_float32 scalar_for_other eq)
qed

theorem thresholds_inclusive_witness:
  "fst (notebook (lib0 image0)) = Inr namespace0
   \<and> num_fn (lib0 image0) (ThresholdLi (ns_denoised namespace0)) = Inr 0
   \<and> ns_denoised namespace0 ! 0 ! 0 ! 0 = PF32 0
   \<and> astype (lib0 image0) DFloat32 (PNum 0) = PF32 0
   \<and> ns_li namespace0 ! 0 ! 0 ! 0 = PBool True"
proof -
  have "ns_threshold_li namespace0 = 0" by (simp add: namespace0_def)
  moreover have "ns_denoised namespace0 ! 0 ! 0 ! 0 = PF32 0"
    by (simp add: namespace0_def cvol_def)
  moreover have "astype (lib0 image0) DFloat32 (PNum 0) = PF32 0"
    by (simp add: lib0_fields astype0_def)
  moreover have "ns_li namespace0 ! 0 ! 0 ! 0 = PBool True"
    by (simp add: namespace0_def cvol_def)
  ultimately show ?thesis
    using thresholds_inclusive[OF run_notebook] run_notebook by simp
qed

subsection \<open>C6: the seeds of the watershed\<close>

lemma px_num_neg: "\<not> is_bool x \<Longrightarrow> px_num (neg_px x) = map_option uminus (px_num x)"
  by (cases x) (simp_all add: is_bool_def)

text \<open>
  C6. In a run that returns, the markers of the watershed are the labelled components
  of the local maxima (\<^verbatim>\<open>peak_local_max\<close> over a footprint of 15 by 15 by 15 ones) of
  the Euclidean distance transform of the cleaned mask \<^verbatim>\<open>remove_objects\<close>, and the
  watershed grows on the negated \<^verbatim>\<open>rescaled\<close> image with that mask.
\<close>

theorem watershed_seeds:
  assumes "fst (notebook L) = Inr ns"
  shows "vol_fn L (RemoveSmallHoles (ns_binary ns) 8000) = Inr (ns_remove_holes ns)
    \<and> vol_fn L (RemoveSmallObjects (ns_remove_holes ns) 8000) = Inr (ns_remove_objects ns)
    \<and> vol_fn L (DistanceTransformEdt (ns_remove_objects ns)) = Inr (ns_distance ns)
    \<and> (\<exists>object_labels. vol_fn L (Label (ns_remove_objects ns)) = Inr object_labels
          \<and> vol_fn L (PeakLocalMax (ns_distance ns)
                (replicate 15 (replicate 15 (replicate 15 (PBool True)))) False object_labels)
              = Inr (ns_peak_local_max ns))
    \<and> vol_fn L (Label (ns_peak_local_max ns)) = Inr (ns_markers ns)
    \<and> vol_fn L (Watershed (map (map (map neg_px)) (ns_rescaled ns)) (ns_markers ns)
          (ns_remove_objects ns)) = Inr (ns_labels ns)
    \<and> (\<forall>x\<in>set (flat (ns_rescaled ns)). px_num (neg_px x) = map_option uminus (px_num x))
    \<and> (\<exists>range r. scoreatpercentile L (ns_data ns) (1 / 2, 199 / 2) = Inr range
          \<and> vol_fn L (RescaleIntensity (ns_data ns) range) = Inr r
          \<and> vol_fn L (AsFloat32 r) = Inr (ns_rescaled ns))"
proof -
  note c = notebook_cells[OF assms]
  have h: "fst (cell_45 L (ns_binary ns)) = Inr (ns_remove_holes ns)" using c by blast
  have o: "fst (cell_46 L (ns_remove_holes ns)) = Inr (ns_remove_objects ns)" using c by blast
  have r: "fst (cell_21 L (ns_data ns)) = Inr (ns_rescaled ns)" using c by simp
  obtain ml cm where w: "fst (cell_54 L (ns_rescaled ns) (ns_remove_objects ns))
           = Inr (ns_distance ns, ns_peak_local_max ns, ns_markers ns, ns_labels ns, ml, cm)"
    using c by blast
  note f = cell_54_facts[OF w]
  have nb: "\<forall>x\<in>set (flat (ns_rescaled ns)). px_num (neg_px x) = map_option uminus (px_num x)"
    using f by (auto simp: list_ex_iff px_num_neg)
  show ?thesis
    using cell_45_facts[OF h] cell_46_facts[OF o] cell_21_facts[OF r] f nb
    by (simp add: ones_def)
qed

theorem watershed_seeds_witness:
  "fst (notebook (lib0 image0)) = Inr namespace0
   \<and> vol_fn (lib0 image0) (Watershed (map (map (map neg_px)) (ns_rescaled namespace0))
        (ns_markers namespace0) (ns_remove_objects namespace0)) = Inr (ns_labels namespace0)
   \<and> vol_fn (lib0 image0) (Label (ns_peak_local_max namespace0)) = Inr (ns_markers namespace0)"
  using watershed_seeds[OF run_notebook] run_notebook by simp


subsection \<open>Shapes\<close>

text \<open>
  What the notebook's own statements do to the shape of a volume: a loop over planes
  returns an array of the shape of the volume it loops over, whatever the filter
  returns, and a comparison with a threshold keeps the shape.
\<close>

lemma map_eq_replicate: "map f xs = replicate n c \<longleftrightarrow> length xs = n \<and> (\<forall>x\<in>set xs. f x = c)"
proof
  assume a: "map f xs = replicate n c"
  then have "length xs = n" by (metis length_map length_replicate)
  moreover have "\<forall>x\<in>set xs. f x = c"
  proof
    fix x assume "x \<in> set xs"
    then have "f x \<in> set (replicate n c)" using a by (metis image_eqI set_map)
    then show "f x = c" by simp
  qed
  ultimately show "length xs = n \<and> (\<forall>x\<in>set xs. f x = c)" by simp
next
  assume "length xs = n \<and> (\<forall>x\<in>set xs. f x = c)"
  then show "map f xs = replicate n c" by (auto simp: list_eq_iff_nth_eq)
qed

lemma has_shape_iff:
  "has_shape p r c v \<longleftrightarrow> length v = p \<and> (\<forall>i<p. map length (v ! i) = replicate r c)"
  by (auto simp: has_shape_def list_all_length map_eq_replicate all_set_conv_all_nth)

lemma has_shape_same:
  "length w = length v \<Longrightarrow> (\<And>i. i < length v \<Longrightarrow> map length (w ! i) = map length (v ! i))
     \<Longrightarrow> has_shape p r c v \<Longrightarrow> has_shape p r c w"
  by (simp add: has_shape_iff)

lemma has_shape_ge_vol: "has_shape p r c v \<Longrightarrow> has_shape p r c (ge_vol L v t)"
  by (rule has_shape_same[of _ v]) (simp_all add: ge_vol_def comp_def)

lemma planewise_same_shape:
  assumes "fst (planewise L f src) = Inr out"
  shows "length out = length src" and "i < length src \<Longrightarrow> map length (out ! i) = map length (src ! i)"
proof -
  note r = planewise_loop_result[OF assms[unfolded planewise_def]]
  show "length out = length src" using r by (simp add: empty_like_def)
  assume i: "i < length src"
  then have "\<exists>res. assign_plane L (empty_like L src ! i) res = Some (out ! i)"
    using r by auto
  then obtain res where "assign_plane L (empty_like L src ! i) res = Some (out ! i)" ..
  then have "map length (out ! i) = map length (empty_like L src ! i)"
    by (rule assign_plane_shape)
  then show "map length (out ! i) = map length (src ! i)"
    using i by (simp add: empty_like_def comp_def)
qed

lemma has_shape_planewise:
  "fst (planewise L f src) = Inr out \<Longrightarrow> has_shape p r c src \<Longrightarrow> has_shape p r c out"
  by (rule has_shape_same[of _ src]) (simp_all add: planewise_same_shape)


subsection \<open>C4: the order of the stages\<close>

lemma later_bind:
  "fst m = Inr v \<Longrightarrow> \<exists>A B. snd (f v) = A @ B \<and> x \<in> set A \<and> y \<in> set B
     \<Longrightarrow> \<exists>A B. snd (bind m f) = A @ B \<and> x \<in> set A \<and> y \<in> set B"
proof -
  assume m: "fst m = Inr v" and "\<exists>A B. snd (f v) = A @ B \<and> x \<in> set A \<and> y \<in> set B"
  then obtain A B where ab: "snd (f v) = A @ B" "x \<in> set A" "y \<in> set B" by blast
  have "snd (bind m f) = (snd m @ A) @ B" using m ab(1) by (simp add: snd_bind)
  moreover have "x \<in> set (snd m @ A)" using ab(2) by simp
  ultimately show ?thesis using ab(3) by blast
qed

lemma split_seq:
  "x \<in> set (snd m) \<Longrightarrow> fst m = Inr v \<Longrightarrow> y \<in> set (snd n)
     \<Longrightarrow> \<exists>A B. snd (seq m n) = A @ B \<and> x \<in> set A \<and> y \<in> set B"
  by (rule exI[of _ "snd m"], rule exI[of _ "snd n"]) (simp add: snd_seq)

lemma run_image0:
  "fst (cell_3 (lib0 image0)) = Inr image0"
  "fst (cell_7 (lib0 image0) image0) = Inr ()"
  by (simp_all add: image0_def run_cell_3 run_cell_7)

lemma imshow_event0:
  "Ev (Plt (IoImshow image0 gray)) (Some (TypeError ''Invalid dimensions for image data''))
     \<in> set (snd (cell_7 (lib0 image0) image0))"
proof -
  have "plot_fn (lib0 image0) (IoImshow image0 gray)
          = Inl (TypeError ''Invalid dimensions for image data'')"
    by (simp add: lib0_def)
  from cell_7_type_error[OF this] show ?thesis by simp
qed

lemma gamma_event0:
  "Ev (V (AdjustGamma image0 (1 / 2))) None \<in> set (snd (cell_17 (lib0 image0) image0))"
  by (simp add: cell_17_def set_snd_bind callV_def vol_fn_lib0)

lemma imshow_before_gamma0:
  "\<exists>A B. snd (notebook (lib0 image0)) = A @ B
     \<and> Ev (Plt (IoImshow image0 gray)) (Some (TypeError ''Invalid dimensions for image data'')) \<in> set A
     \<and> Ev (V (AdjustGamma image0 (1 / 2))) None \<in> set B"
  unfolding notebook_def
  apply (rule later_bind, rule run_image0(1))
  apply (rule later_bind, rule run_cell_5)
  apply (rule split_seq, rule imshow_event0, rule run_image0(2))
  apply (simp add: image0_def set_snd_bind set_snd_seq run_cells gamma_event0[unfolded image0_def])
  done

lemma set_map_filter: "set (List.map_filter g xs) = {b. \<exists>x\<in>set xs. g x = Some b}"
  by (force simp: List.map_filter_def)

lemma not_in_stated_order:
  assumes "t = A @ B" and "x \<in> set A" and "y \<in> set B"
    and "rank (ev_stage x) = Some a" and "rank (ev_stage y) = Some b" and "b < a"
  shows "\<not> in_stated_order t"
proof
  assume "in_stated_order t"
  then have "\<forall>u\<in>set (List.map_filter (\<lambda>ev. rank (ev_stage ev)) A).
               \<forall>w\<in>set (List.map_filter (\<lambda>ev. rank (ev_stage ev)) B). u \<le> w"
    using assms(1) by (simp add: in_stated_order_def map_filter_append sorted_append)
  moreover have "a \<in> set (List.map_filter (\<lambda>ev. rank (ev_stage ev)) A)"
    using assms(2,4) by (auto simp: set_map_filter)
  moreover have "b \<in> set (List.map_filter (\<lambda>ev. rank (ev_stage ev)) B)"
    using assms(3,5) by (auto simp: set_map_filter)
  ultimately have "a \<le> b" by blast
  then show False using assms(6) by simp
qed

text \<open>
  C4, as stated, fails: the calls of an execution are not in the order of the overview.
  Run with \<open>lib0 image0\<close>, the notebook calls \<^verbatim>\<open>io.imshow\<close>, a visualization, before
  \<^verbatim>\<open>exposure.adjust_gamma\<close>, a contrast adjustment: visualization does not only come last.
\<close>

theorem stated_order_fails: "\<not> in_stated_order (snd (notebook (lib0 image0)))"
proof -
  obtain A B where ab: "snd (notebook (lib0 image0)) = A @ B"
    "Ev (Plt (IoImshow image0 gray)) (Some (TypeError ''Invalid dimensions for image data'')) \<in> set A"
    "Ev (V (AdjustGamma image0 (1 / 2))) None \<in> set B"
    using imshow_before_gamma0 by blast
  show ?thesis
    by (rule not_in_stated_order[OF ab, of 9 1]) (simp_all add: ev_stage_def)
qed

lemma order_of_stages:
  "precedes Contrast Edge (snd (notebook L))"
  "precedes Edge Denoise (snd (notebook L))"
  "precedes Denoise Threshold (snd (notebook L))"
  "precedes Denoise Morphology (snd (notebook L))"
  "precedes Threshold Cleanup (snd (notebook L))"
  "precedes Morphology Cleanup (snd (notebook L))"
  "precedes Cleanup Labelling (snd (notebook L))"
  "precedes Cleanup Seeds (snd (notebook L))"
  "precedes Labelling WatershedSeg (snd (notebook L))"
  "precedes Seeds WatershedSeg (snd (notebook L))"
  "precedes WatershedSeg Measure (snd (notebook L))"
  by (rule notebook_precedes, simp add: cell_stages_def)+

lemma last_call_of_run:
  "fst (notebook L) = Inr ns \<Longrightarrow> last (snd (notebook L)) = Ev (Plt Show) None"
  using ends_notebook[of L] by (simp add: ends_with_def)

lemma threshold_of_denoised:
  assumes "fst (notebook L) = Inr ns"
  shows "fst (planewise L (\<lambda>plane. DenoiseBilateral plane False) (ns_rescaled ns)) = Inr (ns_bilateral ns)"
    and "ns_denoised ns = ns_bilateral ns"
    and "num_fn L (ThresholdLi (ns_denoised ns)) = Inr (ns_threshold_li ns)"
    and "ns_li ns = ge_vol L (ns_denoised ns) (ns_threshold_li ns)"
    and "ns_binary ns = ns_li ns"
    and "vol_fn L (RemoveSmallHoles (ns_binary ns) 8000) = Inr (ns_remove_holes ns)"
    and "\<exists>t. num_fn L (ThresholdLi (ns_equalized ns)) = Inr t
           \<and> ns_binary_equalized ns = ge_vol L (ns_equalized ns) t"
proof -
  note c = notebook_cells[OF assms]
  have b: "fst (cell_31 L (ns_rescaled ns)) = Inr (ns_bilateral ns)" using c by blast
  have a: "fst (cell_35 L (ns_denoised ns))
           = Inr (ns_threshold_li ns, ns_li ns, ns_threshold_otsu ns, ns_otsu ns)"
    using c by blast
  have d: "fst (cell_36 L (ns_li ns)) = Inr (ns_binary ns)" using c by blast
  have h: "fst (cell_45 L (ns_binary ns)) = Inr (ns_remove_holes ns)" using c by blast
  show "fst (planewise L (\<lambda>plane. DenoiseBilateral plane False) (ns_rescaled ns)) = Inr (ns_bilateral ns)"
    using cell_31_facts[OF b] .
  show "ns_denoised ns = ns_bilateral ns" using c by blast
  show "num_fn L (ThresholdLi (ns_denoised ns)) = Inr (ns_threshold_li ns)"
    using cell_35_facts[OF a] by blast
  show "ns_li ns = ge_vol L (ns_denoised ns) (ns_threshold_li ns)"
    using cell_35_facts[OF a] by blast
  show "ns_binary ns = ns_li ns" using cell_36_facts[OF d] .
  show "vol_fn L (RemoveSmallHoles (ns_binary ns) 8000) = Inr (ns_remove_holes ns)"
    using cell_45_facts[OF h] by simp
  have e: "fst (cell_43 L (ns_equalized ns))
           = Inr (ns_binary_equalized ns, ns_despeckled1 ns, ns_despeckled3 ns)"
    using c by blast
  show "\<exists>t. num_fn L (ThresholdLi (ns_equalized ns)) = Inr t
           \<and> ns_binary_equalized ns = ge_vol L (ns_equalized ns) t"
    using cell_43_facts[OF e] by blast
qed

text \<open>
  C4, as amended. In every execution the first call reads the image and no later call
  loads; every contrast adjustment comes before every Sobel call, every Sobel call
  before every denoising call, every denoising call before every thresholding and every
  morphological operation, every thresholding and every morphological operation before
  \<^verbatim>\<open>remove_small_holes\<close> and \<^verbatim>\<open>remove_small_objects\<close>, these before every labelling and
  every seed computation, every labelling and seed computation before the watershed,
  and the watershed before every measurement. In a run that returns, the volume that
  is thresholded into \<^verbatim>\<open>binary\<close> is the output of the bilateral denoising loop, a second
  Li threshold is taken of the equalized volume, and the last call is \<^verbatim>\<open>plt.show\<close>.
\<close>

theorem stages_in_order:
  "(\<exists>r rest. snd (notebook L) = Ev (V (Imread ''../images/cells.tif'')) r # rest
       \<and> (\<forall>ev\<in>set rest. ev_stage ev \<noteq> Load))
   \<and> precedes Contrast Edge (snd (notebook L))
   \<and> precedes Edge Denoise (snd (notebook L))
   \<and> precedes Denoise Threshold (snd (notebook L))
   \<and> precedes Denoise Morphology (snd (notebook L))
   \<and> precedes Threshold Cleanup (snd (notebook L))
   \<and> precedes Morphology Cleanup (snd (notebook L))
   \<and> precedes Cleanup Labelling (snd (notebook L))
   \<and> precedes Cleanup Seeds (snd (notebook L))
   \<and> precedes Labelling WatershedSeg (snd (notebook L))
   \<and> precedes Seeds WatershedSeg (snd (notebook L))
   \<and> precedes WatershedSeg Measure (snd (notebook L))
   \<and> (\<forall>ns. fst (notebook L) = Inr ns \<longrightarrow>
         fst (planewise L (\<lambda>plane. DenoiseBilateral plane False) (ns_rescaled ns)) = Inr (ns_bilateral ns)
         \<and> ns_denoised ns = ns_bilateral ns
         \<and> num_fn L (ThresholdLi (ns_denoised ns)) = Inr (ns_threshold_li ns)
         \<and> ns_li ns = ge_vol L (ns_denoised ns) (ns_threshold_li ns)
         \<and> ns_binary ns = ns_li ns
         \<and> vol_fn L (RemoveSmallHoles (ns_binary ns) 8000) = Inr (ns_remove_holes ns)
         \<and> (\<exists>t. num_fn L (ThresholdLi (ns_equalized ns)) = Inr t
                \<and> ns_binary_equalized ns = ge_vol L (ns_equalized ns) t)
         \<and> last (snd (notebook L)) = Ev (Plt Show) None)"
  using notebook_starts_with_imread[of L] order_of_stages[of L] threshold_of_denoised[of L]
    last_call_of_run[of L]
  by (intro conjI allI impI) assumption+

theorem stages_in_order_witness:
  "fst (notebook (lib0 image0)) = Inr namespace0
   \<and> last (snd (notebook (lib0 image0))) = Ev (Plt Show) None
   \<and> ns_li namespace0 = ge_vol (lib0 image0) (ns_denoised namespace0) (ns_threshold_li namespace0)
   \<and> precedes WatershedSeg Measure (snd (notebook (lib0 image0)))"
  using stages_in_order[of "lib0 image0"] run_notebook by blast

subsection \<open>C3: the loops over planes\<close>

lemma library_calls_append:
  "library_calls (t1 @ t2) = library_calls t1 @ library_calls t2"
  by (simp add: library_calls_def map_filter_append)

lemma library_calls_Nil: "library_calls [] = []"
  by (simp add: library_calls_def List.map_filter_def)

lemma library_calls_quiet:
  assumes "stages {Visualize, Glue} m"
  shows "library_calls (snd m) = []"
proof -
  have "(case ev of Ev f r \<Rightarrow> if stage_of f \<in> {Visualize, Glue} then None else Some f) = None"
    if "ev \<in> set (snd m)" for ev
    using assms that by (cases ev) (auto simp: stages_def ev_stage_def)
  then show ?thesis
    by (simp add: library_calls_def List.map_filter_def filter_empty_conv)
qed

lemma library_calls_ok: "ok {Visualize, Glue} m \<Longrightarrow> library_calls (snd m) = []"
  by (simp add: ok_def library_calls_quiet)

lemma library_calls_single:
  "library_calls [Ev f r] = (if stage_of f \<in> {Visualize, Glue} then [] else [f])"
  by (simp add: library_calls_def List.map_filter_def)

lemma vol_stage_library: "vol_stage c \<notin> {Visualize, Glue}"
  by (cases c) simp_all

lemma plane_stage_library: "plane_stage c \<notin> {Visualize, Glue}"
  by (cases c) simp_all

lemma num_stage_library: "num_stage c \<notin> {Visualize, Glue}"
  by (cases c) simp_all

lemma library_calls_callV: "library_calls (snd (callV L c)) = [V c]"
  using vol_stage_library[of c] by (simp add: callV_def library_calls_single)

lemma library_calls_callN: "library_calls (snd (callN L c)) = [N c]"
  using num_stage_library[of c] by (simp add: callN_def library_calls_single)

lemma library_calls_callP: "library_calls (snd (callP L c)) = [P c]"
  using plane_stage_library[of c] by (simp add: callP_def library_calls_single)

lemma library_calls_ret: "library_calls (snd (ret x)) = []"
  by (simp add: library_calls_Nil)

lemma library_calls_bind:
  "library_calls (snd (bind m f))
     = library_calls (snd m) @ (case fst m of Inl e \<Rightarrow> [] | Inr x \<Rightarrow> library_calls (snd (f x)))"
  by (simp add: snd_bind library_calls_append library_calls_Nil split: sum.splits)

lemma library_calls_bind_Inr:
  "fst m = Inr x \<Longrightarrow>
     library_calls (snd (bind m f)) = library_calls (snd m) @ library_calls (snd (f x))"
  by (simp add: library_calls_bind)

lemma library_calls_seq_Inr:
  "fst m = Inr x \<Longrightarrow>
     library_calls (snd (seq m n)) = library_calls (snd m) @ library_calls (snd n)"
  by (simp add: seq_def library_calls_bind)

lemma library_calls_bind_quiet:
  "(\<And>x. ok {Visualize, Glue} (f x)) \<Longrightarrow>
     library_calls (snd (bind m f)) = library_calls (snd m)"
  by (cases "fst m") (simp_all add: library_calls_bind library_calls_ok)

lemma library_calls_step:
  "library_calls (snd (planewise_step L f (k, x) out)) = [P (f x)]"
  unfolding planewise_step_def
  by (subst library_calls_bind_quiet) (simp_all add: ok_set_plane library_calls_callP)

lemma library_calls_none:
  "library_calls (snd (ret x)) = []"
  "library_calls (snd (plt L c)) = []"
  "library_calls (snd (print_line s)) = []"
  "library_calls (snd (get_plane v i)) = []"
  "library_calls (snd (negative v)) = []"
  "library_calls (snd (show_plane L ax pl cm title)) = []"
  "library_calls (snd (show_plane_32 L ax v cm title)) = []"
  "library_calls (snd (plot_hist L ax v title)) = []"
  "library_calls (snd (get_cmap L v)) = []"
  "library_calls (snd (display L v cm step)) = []"
proof -
  show "library_calls (snd (ret x)) = []" by (simp add: library_calls_Nil)
  show "library_calls (snd (plt L c)) = []" by (simp add: plt_def library_calls_single)
  show "library_calls (snd (print_line s)) = []" by (simp add: print_line_def library_calls_single)
  show "library_calls (snd (get_plane v i)) = []" by (simp add: get_plane_def library_calls_single)
  show "library_calls (snd (negative v)) = []" by (simp add: negative_def library_calls_single)
  show "library_calls (snd (show_plane L ax pl cm title)) = []"
    by (rule library_calls_ok, rule ok_show_plane) simp
  show "library_calls (snd (show_plane_32 L ax v cm title)) = []"
    by (rule library_calls_ok, rule ok_show_plane_32) simp
  show "library_calls (snd (plot_hist L ax v title)) = []"
    by (rule library_calls_ok, rule ok_plot_hist) simp
  show "library_calls (snd (get_cmap L v)) = []"
    by (rule library_calls_ok, rule ok_get_cmap) simp
  show "library_calls (snd (display L v cm step)) = []"
    by (rule library_calls_ok, rule ok_display) simp
qed

lemma library_calls_loop:
  "fst (for_acc (enumerate k xs) (planewise_step L f) out) = Inr out' \<Longrightarrow>
     library_calls (snd (for_acc (enumerate k xs) (planewise_step L f) out)) = map (\<lambda>x. P (f x)) xs"
proof (induction xs arbitrary: k out)
  case Nil
  then show ?case by (simp add: library_calls_Nil)
next
  case (Cons x xs)
  from Cons.prems obtain out1 where
    s1: "fst (planewise_step L f (k, x) out) = Inr out1"
    and s2: "fst (for_acc (enumerate (Suc k) xs) (planewise_step L f) out1) = Inr out'"
    by (auto elim: bind_InrE)
  show ?case using s1 Cons.IH[OF s2]
    by (simp add: library_calls_bind_Inr library_calls_step)
qed

lemma library_calls_planewise:
  "fst (planewise L f src) = Inr out \<Longrightarrow>
     library_calls (snd (planewise L f src)) = map (\<lambda>x. P (f x)) src"
  unfolding planewise_def by (rule library_calls_loop)

lemma planewise_result:
  assumes "fst (planewise L f src) = Inr out"
  shows "length out = length src"
    and "\<forall>i<length src. \<exists>res. plane_fn L (f (src ! i)) = Inr res
           \<and> assign_plane L (src ! i) res = Some (out ! i)"
  using planewise_loop_result[OF assms[unfolded planewise_def]]
  by (simp_all add: empty_like_def assign_plane_like)

lemma assign_plane_store:
  "assign_plane L old src = Some pl \<longleftrightarrow>
     (\<exists>b. bcast_plane old src = Some b \<and> pl = map2 (map2 (store_px L)) old b)"
  by (auto simp: assign_plane_def)

lemma store_px_dtype: "px_dtype old = Some d \<Longrightarrow> store_px L old x = astype L d x"
  by (simp add: store_px_def)

lemma library_calls_one:
  "(\<And>x. ok {Visualize, Glue} (f x)) \<Longrightarrow> library_calls (snd (bind (callV L c) f)) = [V c]"
  by (simp add: library_calls_bind_quiet library_calls_callV)

lemma library_calls_cell_24:
  "fst (cell_24 L v) = Inr s \<Longrightarrow> library_calls (snd (cell_24 L v)) = map (\<lambda>x. P (Sobel x)) v"
  unfolding cell_24_def
  by (subst library_calls_bind_quiet, (intro ok_intros; simp))
     (auto elim!: bind_InrE intro: library_calls_planewise)

lemma library_calls_cell_31:
  "fst (cell_31 L v) = Inr s \<Longrightarrow>
     library_calls (snd (cell_31 L v)) = map (\<lambda>x. P (DenoiseBilateral x False)) v"
  unfolding cell_31_def
  by (subst library_calls_bind_quiet, (intro ok_intros; simp))
     (auto elim!: bind_InrE intro: library_calls_planewise)

lemma library_calls_cell_29:
  assumes "fst (cell_29 L v) = Inr m"
  shows "\<exists>u m8. vol_fn L (ImgAsUbyte v) = Inr u \<and> fst (planewise L Median u) = Inr m8
           \<and> vol_fn L (ImgAsFloat m8) = Inr m
           \<and> library_calls (snd (cell_29 L v))
               = V (ImgAsUbyte v) # map (\<lambda>x. P (Median x)) u @ [V (ImgAsFloat m8)]"
proof -
  from cell_29_facts[OF assms] obtain u m8 where f: "vol_fn L (ImgAsUbyte v) = Inr u"
    "fst (planewise L Median u) = Inr m8" "vol_fn L (ImgAsFloat m8) = Inr m" by blast
  have 1: "fst (callV L (ImgAsUbyte v)) = Inr u" using f by (simp add: fst_callV)
  have "library_calls (snd (cell_29 L v))
          = V (ImgAsUbyte v) # map (\<lambda>x. P (Median x)) u @ [V (ImgAsFloat m8)]"
    unfolding cell_29_def
    apply (simp only: library_calls_bind_Inr[OF 1] library_calls_bind_Inr[OF f(2)]
        library_calls_callV library_calls_planewise[OF f(2)])
    apply (subst library_calls_one)
     apply (intro ok_intros; simp)
    apply simp
    done
  with f show ?thesis by blast
qed

lemma library_calls_cell_27:
  "library_calls (snd (cell_27 L sp v)) = [V (Gaussian v False (map (\<lambda>s. 3 / s) sp))]"
  unfolding cell_27_def by (rule library_calls_one) (intro ok_intros; simp)

lemma library_calls_cell_17:
  assumes "fst (cell_17 L v) = Inr (gl, gh)"
  shows "library_calls (snd (cell_17 L v)) = [V (AdjustGamma v (1 / 2)), V (AdjustGamma v (3 / 2))]"
proof -
  have 1: "fst (callV L (AdjustGamma v (1 / 2))) = Inr gl"
    using cell_17_facts[OF assms] by (simp add: fst_callV)
  show ?thesis
    unfolding cell_17_def
    apply (simp only: library_calls_bind_Inr[OF 1] library_calls_callV)
    apply (subst library_calls_one)
     apply (intro ok_intros; simp add: is_io_imshow_def)
    apply simp
    done
qed

lemma library_calls_plot_cdf:
  "library_calls (snd (plot_cdf L ax v title)) = [CumulativeDistribution (flat v)]"
  unfolding plot_cdf_def
  by (subst library_calls_bind_quiet, (intro ok_intros; simp add: is_io_imshow_def))
     (simp add: library_calls_single)

lemma library_calls_cell_19:
  assumes "fst (cell_19 L v) = Inr e"
  shows "library_calls (snd (cell_19 L v))
       = [V (EqualizeHist v), CumulativeDistribution (flat v), CumulativeDistribution (flat e)]"
proof -
  have 1: "fst (callV L (EqualizeHist v)) = Inr e"
    using cell_19_facts[OF assms] by (simp add: fst_callV)
  from assms obtain u1 u2 u3 u4 u5 u6 where u:
    "fst (display L e gray 2) = Inr u1" "fst (plt L (Subplots 2 2 (16, 8))) = Inr u2"
    "fst (plot_hist L 0 v (Some ''Original'')) = Inr u3"
    "fst (plot_hist L 1 e (Some ''Histogram equalization'')) = Inr u4"
    "fst (plot_cdf L 2 v ''Original CDF'') = Inr u5"
    "fst (plot_cdf L 3 e ''Histogram equalization CDF'') = Inr u6"
    unfolding cell_19_def
    apply (simp only: fst_bind fst_callV cell_19_facts[OF assms] sum.case)
    apply (elim seq_InrE)
    apply blast
    done
  show ?thesis
    unfolding cell_19_def
    by (simp only: library_calls_bind_Inr[OF 1] library_calls_seq_Inr[OF u(1)]
        library_calls_seq_Inr[OF u(2)] library_calls_seq_Inr[OF u(3)]
        library_calls_seq_Inr[OF u(4)] library_calls_seq_Inr[OF u(5)]
        library_calls_seq_Inr[OF u(6)] library_calls_callV library_calls_none
        library_calls_plot_cdf append.simps)
qed

lemma library_calls_cell_21:
  assumes "fst (cell_21 L v) = Inr c"
  shows "\<exists>range r. scoreatpercentile L v (1 / 2, 199 / 2) = Inr range
           \<and> vol_fn L (RescaleIntensity v range) = Inr r \<and> vol_fn L (AsFloat32 r) = Inr c
           \<and> library_calls (snd (cell_21 L v))
               = [Scoreatpercentile v (1 / 2, 199 / 2), V (RescaleIntensity v range), V (AsFloat32 r)]"
proof -
  from cell_21_facts[OF assms] obtain range r where
    f: "scoreatpercentile L v (1 / 2, 199 / 2) = Inr range"
       "vol_fn L (RescaleIntensity v range) = Inr r" "vol_fn L (AsFloat32 r) = Inr c"
    by blast
  have 1: "fst (call (Scoreatpercentile v (1 / 2, 199 / 2)) (scoreatpercentile L v (1 / 2, 199 / 2)))
             = Inr range"
    using f by simp
  have 2: "fst (callV L (RescaleIntensity v range)) = Inr r" using f by (simp add: fst_callV)
  have "library_calls (snd (cell_21 L v))
          = [Scoreatpercentile v (1 / 2, 199 / 2), V (RescaleIntensity v range), V (AsFloat32 r)]"
    unfolding cell_21_def
    apply (simp only: library_calls_bind_Inr[OF 1] library_calls_bind_Inr[OF 2]
        library_calls_callV)
    apply (subst library_calls_one)
     apply (intro ok_intros; simp)
    apply (simp add: library_calls_single)
    done
  with f show ?thesis by blast
qed

lemma library_calls_cell_35:
  assumes "fst (cell_35 L d) = Inr (t1, li, t2, otsu)"
  shows "library_calls (snd (cell_35 L d)) = [N (ThresholdLi d), N (ThresholdOtsu d)]"
proof -
  note f = cell_35_facts[OF assms]
  have 1: "fst (callN L (ThresholdLi d)) = Inr t1" using f by (simp add: fst_callN)
  have 2: "fst (callN L (ThresholdOtsu d)) = Inr t2" using f by (simp add: fst_callN)
  show ?thesis
    unfolding cell_35_def
    apply (simp only: library_calls_bind_Inr[OF 1] library_calls_bind_Inr[OF fst_ret]
        library_calls_bind_Inr[OF 2] library_calls_callN library_calls_ret)
    apply (subst library_calls_ok)
     apply (intro ok_intros; simp add: is_io_imshow_def)
    apply simp
    done
qed

lemma library_calls_cell_45:
  "library_calls (snd (cell_45 L b)) = [V (RemoveSmallHoles b (20 ^ 3))]"
  unfolding cell_45_def by (rule library_calls_one) (intro ok_intros; simp)

lemma library_calls_cell_46:
  "library_calls (snd (cell_46 L h)) = [V (RemoveSmallObjects h (20 ^ 3))]"
  unfolding cell_46_def by (rule library_calls_one) (intro ok_intros; simp)

lemma library_calls_cell_50:
  "library_calls (snd (cell_50 L ro)) = [V (Label ro)]"
  unfolding cell_50_def by (rule library_calls_one) (intro ok_intros; simp add: is_io_imshow_def)

lemma library_calls_cell_54:
  assumes "fst (cell_54 L r ro) = Inr (distance, peaks, markers, labels, ml, cm)"
  shows "\<exists>object_labels. vol_fn L (Label ro) = Inr object_labels
           \<and> library_calls (snd (cell_54 L r ro))
               = [V (DistanceTransformEdt ro), V (Label ro),
                  V (PeakLocalMax distance (ones 15 15 15) False object_labels),
                  V (Label peaks), V (Watershed (map (map (map neg_px)) r) markers ro)]"
proof -
  from cell_54_facts[OF assms] obtain object_labels where
    f: "vol_fn L (DistanceTransformEdt ro) = Inr distance"
       "vol_fn L (Label ro) = Inr object_labels"
       "vol_fn L (PeakLocalMax distance (ones 15 15 15) False object_labels) = Inr peaks"
       "vol_fn L (Label peaks) = Inr markers"
       "\<not> list_ex is_bool (flat r)"
       "vol_fn L (Watershed (map (map (map neg_px)) r) markers ro) = Inr labels"
    by blast
  have 1: "fst (callV L (DistanceTransformEdt ro)) = Inr distance"
    and 2: "fst (callV L (Label ro)) = Inr object_labels"
    and 3: "fst (callV L (PeakLocalMax distance (ones 15 15 15) False object_labels)) = Inr peaks"
    and 4: "fst (callV L (Label peaks)) = Inr markers"
    and 5: "fst (negative r) = Inr (map (map (map neg_px)) r)"
    using f by (simp_all add: fst_callV fst_negative)
  have "library_calls (snd (cell_54 L r ro))
          = [V (DistanceTransformEdt ro), V (Label ro),
             V (PeakLocalMax distance (ones 15 15 15) False object_labels),
             V (Label peaks), V (Watershed (map (map (map neg_px)) r) markers ro)]"
    unfolding cell_54_def
    apply (simp only: library_calls_bind_Inr[OF 1] library_calls_bind_Inr[OF 2]
        library_calls_bind_Inr[OF 3] library_calls_bind_Inr[OF 4] library_calls_bind_Inr[OF 5]
        library_calls_callV library_calls_none)
    apply (subst library_calls_one)
     apply (intro ok_intros; simp add: is_io_imshow_def)
    apply simp
    done
  with f show ?thesis by blast
qed

lemma library_calls_cell_41:
  assumes "fst (cell_41 L v b) = Inr ms"
  shows "\<exists>selem. vol_fn L (Ball 3) = Inr selem
           \<and> library_calls (snd (cell_41 L v b))
               = [V (Ball 3), V (Closing v selem), V (Dilation v selem), V (Erosion v selem),
                  V (Opening v selem), V (BinaryClosing b selem), V (BinaryDilation b selem),
                  V (BinaryErosion b selem), V (BinaryOpening b selem)]"
proof -
  from cell_41_facts[OF assms] obtain selem c d e o' bc bd be bo where
    f: "vol_fn L (Ball 3) = Inr selem"
       "vol_fn L (Closing v selem) = Inr c" "vol_fn L (Dilation v selem) = Inr d"
       "vol_fn L (Erosion v selem) = Inr e" "vol_fn L (Opening v selem) = Inr o'"
       "vol_fn L (BinaryClosing b selem) = Inr bc" "vol_fn L (BinaryDilation b selem) = Inr bd"
       "vol_fn L (BinaryErosion b selem) = Inr be" "vol_fn L (BinaryOpening b selem) = Inr bo"
    by blast
  have 1: "fst (callV L (Ball 3)) = Inr selem"
    and 2: "fst (callV L (Closing v selem)) = Inr c"
    and 3: "fst (callV L (Dilation v selem)) = Inr d"
    and 4: "fst (callV L (Erosion v selem)) = Inr e"
    and 5: "fst (callV L (Opening v selem)) = Inr o'"
    and 6: "fst (callV L (BinaryClosing b selem)) = Inr bc"
    and 7: "fst (callV L (BinaryDilation b selem)) = Inr bd"
    and 8: "fst (callV L (BinaryErosion b selem)) = Inr be"
    using f by (simp_all add: fst_callV)
  have "library_calls (snd (cell_41 L v b))
          = [V (Ball 3), V (Closing v selem), V (Dilation v selem), V (Erosion v selem),
             V (Opening v selem), V (BinaryClosing b selem), V (BinaryDilation b selem),
             V (BinaryErosion b selem), V (BinaryOpening b selem)]"
    unfolding cell_41_def
    apply (simp only: library_calls_bind_Inr[OF 1] library_calls_bind_Inr[OF 2]
        library_calls_bind_Inr[OF 3] library_calls_bind_Inr[OF 4] library_calls_bind_Inr[OF 5]
        library_calls_bind_Inr[OF 6] library_calls_bind_Inr[OF 7] library_calls_bind_Inr[OF 8]
        library_calls_callV)
    apply (subst library_calls_one)
     apply (intro ok_intros; simp add: is_io_imshow_def)
    apply simp
    done
  with f show ?thesis by blast
qed

lemma library_calls_despeckle:
  assumes "fst (despeckle L v r) = Inr d"
  shows "\<exists>s1 opened s2. vol_fn L (Ball r) = Inr s1 \<and> vol_fn L (Opening v s1) = Inr opened
           \<and> vol_fn L (Ball r) = Inr s2
           \<and> library_calls (snd (despeckle L v r))
               = [V (Ball r), V (Opening v s1), V (Ball r), V (Closing opened s2)]"
proof -
  from despeckle_facts[OF assms] obtain s1 opened s2 where
    f: "vol_fn L (Ball r) = Inr s1" "vol_fn L (Opening v s1) = Inr opened"
       "vol_fn L (Ball r) = Inr s2" "vol_fn L (Closing opened s2) = Inr d"
    by blast
  have 1: "fst (callV L (Ball r)) = Inr s1"
    and 2: "fst (callV L (Opening v s1)) = Inr opened"
    using f by (simp_all add: fst_callV)
  have "library_calls (snd (despeckle L v r))
          = [V (Ball r), V (Opening v s1), V (Ball r), V (Closing opened s2)]"
    unfolding despeckle_def using f(1,3)
    by (simp add: library_calls_bind_Inr[OF 1] library_calls_bind_Inr[OF 2] library_calls_callV)
  with f show ?thesis by blast
qed

lemma library_calls_cell_43:
  assumes "fst (cell_43 L e) = Inr (be, d1, d3)"
  shows "library_calls (snd (cell_43 L e))
           = N (ThresholdLi e) # library_calls (snd (despeckle L be 1))
               @ library_calls (snd (despeckle L be 3))"
proof -
  from cell_43_facts[OF assms] obtain t where
    f: "num_fn L (ThresholdLi e) = Inr t" "be = ge_vol L e t"
       "fst (despeckle L be 1) = Inr d1" "fst (despeckle L be 3) = Inr d3"
    by blast
  have 1: "fst (callN L (ThresholdLi e)) = Inr t" using f by (simp add: fst_callN)
  show ?thesis
    unfolding cell_43_def
    apply (simp only: library_calls_bind_Inr[OF 1] library_calls_bind_Inr[OF fst_ret]
        library_calls_bind_Inr[OF f(3)[unfolded f(2)]] library_calls_callN library_calls_ret
        f(2))
    apply (subst library_calls_bind_quiet)
     apply (intro ok_intros; simp add: is_io_imshow_def)
    apply simp
    done
qed




subsection \<open>C9: the panels of the display helper\<close>

lemma length_every: "length (every k xs) = (length xs + k - 1) div k"
  by (simp add: every_def)

lemma every_index:
  assumes "0 < k" and "i < (n + k - 1) div k"
  shows "i * k < (n::nat)"
proof -
  have "Suc i \<le> (n + k - 1) div k" using assms(2) by simp
  then have "Suc i * k \<le> n + k - 1"
    using assms(1) by (simp only: less_eq_div_iff_mult_less_eq)
  then show ?thesis using assms(1) by simp
qed

lemma nth_every: "i < (length xs + k - 1) div k \<Longrightarrow> every k xs ! i = xs ! (i * k)"
  by (simp add: every_def)

lemma zip_upt: "zip [0 ..< n] xs = map (\<lambda>i. (i, xs ! i)) [0 ..< min n (length xs)]"
  by (simp add: list_eq_iff_nth_eq)

lemma zip_every:
  "zip [0 ..< 30] (every k v)
     = map (\<lambda>i. (i, v ! (i * k))) [0 ..< min 30 ((length v + k - 1) div k)]"
  by (simp add: zip_upt length_every nth_every)

lemma panels_append: "panels (t1 @ t2) = panels t1 @ panels t2"
  by (simp add: panels_def map_filter_append)

lemma panels_Nil: "panels [] = []"
  by (simp add: panels_def List.map_filter_def)

lemma panels_display_panel:
  "fst (display_panel L cm lo hi p) = Inr u \<Longrightarrow>
     panels (snd (display_panel L cm lo hi p)) = [(fst p, snd p, cm, Some lo, Some hi)]"
  by (simp add: display_panel_def fst_seq snd_seq plt_def call_def raised_def panels_def
      List.map_filter_def split: sum.splits)

lemma panels_loop:
  "fst (for_acc xs (\<lambda>x _. display_panel L cm lo hi x) ()) = Inr u \<Longrightarrow>
     panels (snd (for_acc xs (\<lambda>x _. display_panel L cm lo hi x) ()))
       = map (\<lambda>p. (fst p, snd p, cm, Some lo, Some hi)) xs"
proof (induction xs)
  case Nil
  then show ?case by (simp add: panels_Nil)
next
  case (Cons x xs)
  from Cons.prems obtain s1 where
    s1: "fst (display_panel L cm lo hi x) = Inr s1"
    and s2: "fst (for_acc xs (\<lambda>x _. display_panel L cm lo hi x) s1) = Inr u"
    by (auto elim: bind_InrE)
  show ?case using s1 s2 Cons.IH panels_display_panel[OF s1]
    by (simp add: snd_bind panels_append)
qed

lemma panels_quiet:
  "panels (snd (plt L (Subplots a b sz))) = []"
  "panels (snd (amin v)) = []"
  "panels (snd (amax v)) = []"
  "panels (snd (slice_step v step)) = []"
  by (simp_all add: plt_def amin_def amax_def slice_step_def call_def panels_def
      List.map_filter_def)

lemma panels_display:
  assumes "0 < step" and "fst (display L im3d cm step) = Inr u"
  shows "panels (snd (display L im3d cm step))
           = map (\<lambda>i. (i, im3d ! (i * nat step), cm,
                        Some (min_px (flat im3d)), Some (max_px (flat im3d))))
               [0 ..< min 30 ((length im3d + nat step - 1) div nat step)]"
proof -
  from assms(2) obtain s0 vmin vmax selected where
    r: "fst (plt L (Subplots 5 6 (16, 14))) = Inr s0"
       "fst (amin im3d) = Inr vmin" "fst (amax im3d) = Inr vmax"
       "fst (slice_step im3d step) = Inr selected"
       "fst (for_each (zip [0 ..< 30] selected) (display_panel L cm vmin vmax)) = Inr u"
    unfolding display_def by (elim seq_InrE bind_InrE)
  have v: "vmin = min_px (flat im3d)" "vmax = max_px (flat im3d)"
    using r(2,3) by (auto simp: amin_def amax_def amin_px_def amax_px_def call_def split: if_splits)
  have s: "selected = every (nat step) im3d"
    using r(4) assms(1) by (simp add: slice_step_def call_def)
  have "panels (snd (display L im3d cm step))
          = panels (snd (for_each (zip [0 ..< 30] selected) (display_panel L cm vmin vmax)))"
    using r(1-4) by (simp add: display_def snd_seq snd_bind panels_append panels_quiet)
  also have "\<dots> = map (\<lambda>p. (fst p, snd p, cm, Some vmin, Some vmax)) (zip [0 ..< 30] selected)"
    using r(5) unfolding for_each_def by (rule panels_loop)
  finally show ?thesis by (simp add: v s zip_every comp_def)
qed

lemma for_each_InlE:
  "fst (for_each xs body) = Inl e \<Longrightarrow> \<exists>x\<in>set xs. fst (body x) = Inl e"
  unfolding for_each_def
  by (induction xs) (auto simp: fst_bind split: sum.splits)

lemma display_panel_InlE:
  "fst (display_panel L cm lo hi p) = Inl e \<Longrightarrow> \<exists>c. plot_fn L c = Inl e"
  by (auto simp: display_panel_def fst_seq plt_def call_def split: sum.splits)

lemma display_raises:
  assumes "0 < step" and "fst (display L im3d cm step) = Inl e"
  shows "(\<exists>c. plot_fn L c = Inl e)
         \<or> flat im3d = [] \<and> e = ValueError ''zero-size array to reduction operation minimum''"
proof (cases "flat im3d = []")
  case True
  then show ?thesis using assms(2)
    by (auto simp: display_def fst_seq fst_bind amin_def amin_px_def plt_def call_def
        split: sum.splits)
next
  case False
  have "fst (for_each (zip [0 ..< 30] (every (nat step) im3d))
               (display_panel L cm (min_px (flat im3d)) (max_px (flat im3d)))) = Inl e
        \<or> plot_fn L (Subplots 5 6 (16, 14)) = Inl e"
    using assms False
    by (auto simp: display_def fst_seq fst_bind fst_amin fst_amax fst_slice_step plt_def call_def
        split: sum.splits)
  then show ?thesis using for_each_InlE display_panel_InlE by blast
qed

lemma display_empty:
  assumes "flat im3d = []"
  shows "panels (snd (display L im3d cm step)) = []" and "fst (display L im3d cm step) \<noteq> Inr u"
proof -
  have a: "fst (amin im3d) = Inl (ValueError ''zero-size array to reduction operation minimum'')"
    using assms by (simp add: amin_def amin_px_def call_def)
  show "panels (snd (display L im3d cm step)) = []"
    by (simp add: display_def snd_seq snd_bind a panels_append panels_quiet panels_Nil
        split: sum.splits)
  show "fst (display L im3d cm step) \<noteq> Inr u"
    by (simp add: display_def fst_seq fst_bind a split: sum.splits)
qed

text \<open>
  C9, as stated, fails on two inputs. A volume of two planes that have no row has no
  element: \<^verbatim>\<open>im3d.min()\<close> raises ValueError and no panel is drawn, where the claim counts
  one. With step 1 a volume of 40 planes, fewer than 60, is truncated to 30 panels.
\<close>

theorem display_panels_fail:
  "fst (display (lib0 []) [[], []] gray 2)
     = Inl (ValueError ''zero-size array to reduction operation minimum'')
   \<and> panels (snd (display (lib0 []) [[], []] gray 2)) = []
   \<and> min 30 ((length ([[], []] :: vol) + 2 - 1) div 2) = (1::nat)
   \<and> length (panels (snd (display (lib0 []) (cvol 40 1 1 (PNum 0)) gray 1))) = 30
   \<and> length (every 1 (cvol 40 1 1 (PNum 0))) = 40"
proof -
  have a: "fst (display (lib0 []) [[], []] gray 2)
             = Inl (ValueError ''zero-size array to reduction operation minimum'')"
    by (simp add: display_def fst_seq fst_bind fst_plt is_io_imshow_def amin_def amin_px_def
        call_def flat_def)
  have b: "panels (snd (display (lib0 []) [[], []] gray 2)) = []"
    by (rule display_empty) (simp add: flat_def)
  have "fst (display (lib0 []) (cvol 40 1 1 (PNum 0)) gray 1) = Inr ()"
    by (simp add: fst_display)
  from panels_display[OF _ this]
  have c: "length (panels (snd (display (lib0 []) (cvol 40 1 1 (PNum 0)) gray 1))) = 30"
    by simp
  show ?thesis using a b c by (simp add: length_every)
qed

text \<open>
  C9, as amended. For every volume and every positive step: when the helper returns it
  has drawn exactly min(30, ceil(planes / step)) panels, panel \<open>i\<close> on axes \<open>i\<close> showing
  plane \<open>i * step\<close>, an index below the number of planes, every panel with the minimum
  and the maximum of the whole volume as bounds. It returns whenever the volume has an
  element and the plotting calls return; the only exceptions it can end with are those
  of a plotting call and the ValueError of \<^verbatim>\<open>im3d.min()\<close> on a volume with no element, in
  which case no panel is drawn. With the step 2 of the notebook's calls the planes
  selected are more than the 30 axes exactly when the volume has more than 60 planes.
\<close>

theorem display_panels:
  assumes "0 < step"
  shows "(fst (display L im3d cm step) = Inr () \<longrightarrow>
            panels (snd (display L im3d cm step))
              = map (\<lambda>i. (i, im3d ! (i * nat step), cm,
                           Some (min_px (flat im3d)), Some (max_px (flat im3d))))
                  [0 ..< min 30 ((length im3d + nat step - 1) div nat step)])
         \<and> (\<forall>i < min 30 ((length im3d + nat step - 1) div nat step). i * nat step < length im3d)
         \<and> (plots_return L \<and> flat im3d \<noteq> [] \<longrightarrow> fst (display L im3d cm step) = Inr ())
         \<and> (\<forall>e. fst (display L im3d cm step) = Inl e \<longrightarrow>
               (\<exists>c. plot_fn L c = Inl e)
               \<or> flat im3d = [] \<and> e = ValueError ''zero-size array to reduction operation minimum'')
         \<and> (flat im3d = [] \<longrightarrow>
               panels (snd (display L im3d cm step)) = [] \<and> fst (display L im3d cm step) \<noteq> Inr ())
         \<and> (30 < length (every 2 im3d) \<longleftrightarrow> 60 < length im3d)"
proof (intro conjI allI impI)
  show "panels (snd (display L im3d cm step))
          = map (\<lambda>i. (i, im3d ! (i * nat step), cm,
                       Some (min_px (flat im3d)), Some (max_px (flat im3d))))
              [0 ..< min 30 ((length im3d + nat step - 1) div nat step)]"
    if "fst (display L im3d cm step) = Inr ()"
    using assms that by (rule panels_display)
  show "i * nat step < length im3d"
    if "i < min 30 ((length im3d + nat step - 1) div nat step)" for i
    using that assms by (intro every_index) simp_all
  show "fst (display L im3d cm step) = Inr ()" if "plots_return L \<and> flat im3d \<noteq> []"
    using that assms by (simp add: fst_display)
  show "(\<exists>c. plot_fn L c = Inl e)
          \<or> flat im3d = [] \<and> e = ValueError ''zero-size array to reduction operation minimum''"
    if "fst (display L im3d cm step) = Inl e" for e
    using assms that by (rule display_raises)
  show "panels (snd (display L im3d cm step)) = []" if "flat im3d = []"
    using that by (rule display_empty)
  show "fst (display L im3d cm step) \<noteq> Inr ()" if "flat im3d = []"
    using that by (rule display_empty)
  show "30 < length (every 2 im3d) \<longleftrightarrow> 60 < length im3d"
    by (simp add: length_every) arith
qed

theorem display_panels_witness:
  "(0::int) < 2
   \<and> panels (snd (display (lib0 image0) image0 gray 2))
       = map (\<lambda>i. (i, image0 ! (i * 2), gray, Some (min_px (flat image0)), Some (max_px (flat image0))))
           [0 ..< 22]"
proof -
  have "fst (display (lib0 image0) image0 gray 2) = Inr ()"
    by (simp add: fst_display image0_def)
  moreover have "min 30 ((length image0 + nat 2 - 1) div nat 2) = 22"
    by (simp add: image0_def)
  ultimately show ?thesis using display_panels[of 2 "lib0 image0" image0 gray] by simp
qed

end
